(* ===== verification/Prelude.thy ===== *)
theory Prelude
  imports Main "HOL-Library.AList"
begin

text \<open>
  Shared vocabulary of the development: the pointer type of the host document, the
  exception-carrying result type used for JavaScript calls that may throw after having
  mutated state, the string conversions JavaScript performs implicitly (ASCII case
  mapping as used by HTML for tag and attribute names, integer-to-string conversion of
  numbers, \<open>startsWith\<close>), and the generic list and association-list lemmas the
  component theories share.
\<close>

named_theorems host_simps "characteristic equations of the host document operations"
named_theorems wf_rules "preservation rules of the document well-formedness invariant"

subsection \<open>Types\<close>

type_synonym ptr = nat

text \<open>
  A JavaScript call that throws keeps every side effect performed before the throw. A
  result therefore carries the state on both sides: \<open>Inl (err, s)\<close> is an exception
  raised in state \<open>s\<close>, \<open>Inr (v, s)\<close> a normal return of \<open>v\<close>.
\<close>

type_synonym ('e, 'a, 's) exc = "('e \<times> 's) + ('a \<times> 's)"

text \<open>
  \<open>xs.forEach(f)\<close> where each call may throw: the first exception stops the loop and
  the state reached so far is kept.
\<close>

fun for_each :: "('a \<Rightarrow> 's \<Rightarrow> 'e + 's) \<Rightarrow> 'a list \<Rightarrow> 's \<Rightarrow> ('e, unit, 's) exc" where
  "for_each f [] s = Inr ((), s)"
| "for_each f (x # xs) s = (case f x s of Inl e \<Rightarrow> Inl (e, s) | Inr s' \<Rightarrow> for_each f xs s')"

text \<open>The state a call leaves behind, whether it returned or threw.\<close>

fun exc_state :: "('e, 'a, 's) exc \<Rightarrow> 's" where
  "exc_state (Inl (_, s)) = s"
| "exc_state (Inr (_, s)) = s"

text \<open>
  \<open>xs.forEach(f)\<close> where each call may itself mutate state and then throw: the
  exception is passed on with the state the failing call left.
\<close>

fun for_each_exc :: "('a \<Rightarrow> 's \<Rightarrow> ('e, unit, 's) exc) \<Rightarrow> 'a list \<Rightarrow> 's \<Rightarrow> ('e, unit, 's) exc" where
  "for_each_exc f [] s = Inr ((), s)"
| "for_each_exc f (x # xs) s = (case f x s of Inl es \<Rightarrow> Inl es | Inr (_, s') \<Rightarrow> for_each_exc f xs s')"

text \<open>Case analysis of a result into an exception and a return, with their states.\<close>

lemma exc_cases [case_names Exc Ret]:
  obtains err s where "r = Inl (err, s)" | v s where "r = Inr (v, s)"
  by (cases r) auto

lemma for_each_invariant:
  assumes "I s" and "\<And>x s s'. I s \<Longrightarrow> f x s = Inr s' \<Longrightarrow> I s'"
  shows "I (exc_state (for_each f xs s))"
  using assms(1)
proof (induction xs arbitrary: s)
  case Nil
  then show ?case by simp
next
  case (Cons x xs)
  show ?case
  proof (cases "f x s")
    case (Inl e)
    with Cons.prems show ?thesis by simp
  next
    case (Inr s')
    with Cons.prems assms(2) have "I s'" by blast
    with Inr Cons.IH show ?thesis by simp
  qed
qed

lemma for_each_exc_invariant:
  assumes "I s" and "\<And>x s. I s \<Longrightarrow> I (exc_state (f x s))"
  shows "I (exc_state (for_each_exc f xs s))"
  using assms(1)
proof (induction xs arbitrary: s)
  case Nil
  then show ?case by simp
next
  case (Cons x xs)
  have "I (exc_state (f x s))" using assms(2) [OF Cons.prems] .
  then show ?case using Cons.IH
    by (cases "f x s" rule: sum.exhaust) (auto split: prod.splits)
qed

lemma for_each_Inr_state: "for_each f xs s = Inr (u, s') \<Longrightarrow> exc_state (for_each f xs s) = s'"
  by simp

subsection \<open>ASCII case mapping\<close>

definition ascii_lower_char :: "char \<Rightarrow> char" where
  "ascii_lower_char c =
     (let k = of_char c :: nat in if 65 \<le> k \<and> k \<le> 90 then char_of (k + 32) else c)"

definition ascii_upper_char :: "char \<Rightarrow> char" where
  "ascii_upper_char c =
     (let k = of_char c :: nat in if 97 \<le> k \<and> k \<le> 122 then char_of (k - 32) else c)"

definition ascii_lower :: "string \<Rightarrow> string" where
  "ascii_lower s = map ascii_lower_char s"

definition ascii_upper :: "string \<Rightarrow> string" where
  "ascii_upper s = map ascii_upper_char s"

definition is_ascii_alpha :: "char \<Rightarrow> bool" where
  "is_ascii_alpha c =
     (let k = of_char c :: nat in (65 \<le> k \<and> k \<le> 90) \<or> (97 \<le> k \<and> k \<le> 122))"

definition is_ascii_whitespace :: "char \<Rightarrow> bool" where
  "is_ascii_whitespace c = (of_char c \<in> {9, 10, 12, 13, 32 :: nat})"

definition starts_with :: "string \<Rightarrow> string \<Rightarrow> bool" where
  "starts_with p s = (take (length p) s = p)"

subsection \<open>Number to string\<close>

text \<open>JavaScript's \<open>String(n)\<close> on an integral number: decimal digits, a leading minus.\<close>

fun string_of_nat :: "nat \<Rightarrow> string" where
  "string_of_nat n =
     (if n < 10 then [char_of (48 + n)]
      else string_of_nat (n div 10) @ [char_of (48 + n mod 10)])"

definition string_of_int :: "int \<Rightarrow> string" where
  "string_of_int i =
     (if i < 0 then CHR ''-'' # string_of_nat (nat (- i)) else string_of_nat (nat i))"

subsection \<open>Generic lemmas\<close>

lemma length_ascii_lower [simp]: "length (ascii_lower s) = length s"
  by (simp add: ascii_lower_def)

lemma ascii_lower_Nil [simp]: "ascii_lower [] = []"
  by (simp add: ascii_lower_def)

lemma ascii_upper_Nil [simp]: "ascii_upper [] = []"
  by (simp add: ascii_upper_def)

lemma ascii_lower_eq_Nil [simp]: "ascii_lower s = [] \<longleftrightarrow> s = []"
  by (simp add: ascii_lower_def)

lemma string_of_nat_not_Nil [simp]: "string_of_nat n \<noteq> []"
  by (subst string_of_nat.simps) simp

declare string_of_nat.simps [simp del]

lemma map_of_update_same [simp]: "map_of (AList.update k v al) k = Some v"
  by (simp add: AList.update_conv')

lemma map_of_update_other [simp]:
  "k' \<noteq> k \<Longrightarrow> map_of (AList.update k v al) k' = map_of al k'"
  by (simp add: AList.update_conv')

text \<open>Inserting a list into another before a given element (or at the end).\<close>

definition splice_before :: "'a option \<Rightarrow> 'a list \<Rightarrow> 'a list \<Rightarrow> 'a list" where
  "splice_before r ns cs =
     (case r of None \<Rightarrow> cs @ ns
      | Some x \<Rightarrow> takeWhile (\<lambda>y. y \<noteq> x) cs @ ns @ dropWhile (\<lambda>y. y \<noteq> x) cs)"

text \<open>The element following \<open>x\<close> in a list (a node's next sibling).\<close>

fun elem_after :: "'a \<Rightarrow> 'a list \<Rightarrow> 'a option" where
  "elem_after x [] = None"
| "elem_after x (y # ys) =
     (if x = y then (case ys of [] \<Rightarrow> None | z # _ \<Rightarrow> Some z) else elem_after x ys)"

lemma set_splice_before [simp]: "set (splice_before r ns cs) = set cs \<union> set ns"
proof (cases r)
  case None
  then show ?thesis by (auto simp: splice_before_def)
next
  case (Some x)
  have "set cs = set (takeWhile (\<lambda>y. y \<noteq> x) cs) \<union> set (dropWhile (\<lambda>y. y \<noteq> x) cs)"
    by (metis set_append takeWhile_dropWhile_id)
  with Some show ?thesis by (auto simp: splice_before_def)
qed

lemma distinct_middle:
  "distinct (a @ n @ b) \<longleftrightarrow> distinct (a @ b) \<and> distinct n \<and> set (a @ b) \<inter> set n = {}"
  by auto

lemma distinct_splice_before [simp]:
  "distinct (splice_before r ns cs) \<longleftrightarrow> distinct cs \<and> distinct ns \<and> set cs \<inter> set ns = {}"
proof (cases r)
  case None
  then show ?thesis by (auto simp: splice_before_def)
next
  case (Some x)
  let ?t = "takeWhile (\<lambda>y. y \<noteq> x) cs" and ?d = "dropWhile (\<lambda>y. y \<noteq> x) cs"
  have "distinct (splice_before r ns cs) \<longleftrightarrow> distinct (?t @ ns @ ?d)"
    using Some by (simp add: splice_before_def)
  also have "\<dots> \<longleftrightarrow> distinct (?t @ ?d) \<and> distinct ns \<and> set (?t @ ?d) \<inter> set ns = {}"
    by (rule distinct_middle)
  finally show ?thesis by (simp only: takeWhile_dropWhile_id)
qed

lemma elem_after_in_set: "elem_after x cs = Some y \<Longrightarrow> y \<in> set cs"
  by (induction x cs rule: elem_after.induct) (auto split: if_splits list.splits)

end
