(* ===== verification/Element_Tree.thy ===== *)
theory Element_Tree
  imports Prelude
begin

text \<open>
  The element descriptions of \<open>src/native-app.js\<close>: the plain JavaScript values that
  \<open>DOMGenerator.createElement\<close> and \<open>updateElement\<close> inspect with \<open>typeof\<close>,
  \<open>Array.isArray\<close> and property reads. Every shape the code distinguishes is a
  constructor: strings and numbers (rendered as text), arrays (fragments), objects with
  the fields \<open>tag\<close>, \<open>props\<close>, \<open>children\<close> and \<open>ref\<close>, and the other values
  (\<open>null\<close>, \<open>undefined\<close>, booleans, functions) that both functions treat as absent
  or compare by identity. Property values are the values a \<open>props\<close> object holds.
  Numbers are integral (the program only uses integers); JavaScript's implicit string
  conversion of every value is \<open>js_string\<close>.
\<close>

text \<open>
  Function values. The closures the program itself creates are named by the place that
  creates them, with the variables they capture: \<open>ScrollList\<close> is the arrow's
  \<open>onclick\<close> (line 359), \<open>SelectTab\<close> the select's \<open>onchange\<close> (line 623),
  \<open>ClickTab key\<close> a tab's \<open>onclick\<close> (line 653); any other function is \<open>Fn\<close> with
  its source text. Two values are the same function exactly when they are equal.
\<close>

datatype handler = Fn string | ScrollList | SelectTab | ClickTab string

text \<open>\<open>String(f)\<close>, the source text of a function, abbreviated for the program's
  closures to their parameter list (no attribute of the program ever holds one).\<close>

fun handler_source :: "handler \<Rightarrow> string" where
  "handler_source (Fn src) = src"
| "handler_source ScrollList = ''() => {...}''"
| "handler_source SelectTab = ''(event) => {...}''"
| "handler_source (ClickTab _) = ''() => {...}''"

datatype pval =
    PStr string
  | PNum int
  | PBool bool
  | PNull
  | PUndef
  | PObj "(string \<times> string) list"
  | PFun handler

text \<open>
  \<open>JObj tag props children ref\<close> is an object literal: \<open>tag = None\<close> when the object
  has no \<open>tag\<close> property; a missing \<open>props\<close> or \<open>children\<close> is the empty list,
  which is the default the destructuring in \<open>createElement\<close> supplies; \<open>props\<close>
  lists the object's entries in the order \<open>Object.entries\<close> returns them.
\<close>

datatype jelem =
    JStr string
  | JNum int
  | JArr "jelem list"
  | JObj "string option" "(string \<times> pval) list" "jelem list" "string option"
  | JNull
  | JUndef
  | JBool bool
  | JFun handler

subsection \<open>JavaScript conversions\<close>

fun js_string :: "pval \<Rightarrow> string" where
  "js_string (PStr s) = s"
| "js_string (PNum i) = string_of_int i"
| "js_string (PBool b) = (if b then ''true'' else ''false'')"
| "js_string PNull = ''null''"
| "js_string PUndef = ''undefined''"
| "js_string (PObj _) = ''[object Object]''"
| "js_string (PFun h) = handler_source h"

text \<open>\<open>typeof value === "object"\<close>: objects and \<open>null\<close>.\<close>

fun js_is_object :: "pval \<Rightarrow> bool" where
  "js_is_object (PObj _) = True"
| "js_is_object PNull = True"
| "js_is_object _ = False"

text \<open>Truthiness of a description, as tested by \<open>!newJsonElement\<close>.\<close>

fun elem_truthy :: "jelem \<Rightarrow> bool" where
  "elem_truthy (JStr s) = (s \<noteq> [])"
| "elem_truthy (JNum i) = (i \<noteq> 0)"
| "elem_truthy JNull = False"
| "elem_truthy JUndef = False"
| "elem_truthy (JBool b) = b"
| "elem_truthy _ = True"

text \<open>\<open>typeof x === "string" || typeof x === "number"\<close>.\<close>

fun elem_is_primitive :: "jelem \<Rightarrow> bool" where
  "elem_is_primitive (JStr _) = True"
| "elem_is_primitive (JNum _) = True"
| "elem_is_primitive _ = False"

text \<open>
  \<open>newJsonElement.tag?.toUpperCase()\<close>: \<open>undefined\<close> (\<open>None\<close>) for every value
  without a \<open>tag\<close> property (strings, numbers, arrays, functions, \<open>true\<close>, tagless
  objects). The case mapping is ASCII, as HTML tag names are.
\<close>

fun elem_tag_upper :: "jelem \<Rightarrow> string option" where
  "elem_tag_upper (JObj (Some t) _ _ _) = Some (ascii_upper t)"
| "elem_tag_upper _ = None"

text \<open>\<open>newJsonElement.props\<close> as the update path reads it (absent for non-objects).\<close>

fun elem_props :: "jelem \<Rightarrow> (string \<times> pval) list" where
  "elem_props (JObj _ ps _ _) = ps"
| "elem_props _ = []"

text \<open>The \<open>ref\<close> names a description registers, in the order \<open>createElement\<close> does.\<close>

fun ref_names :: "jelem \<Rightarrow> string list"
and ref_names_list :: "jelem list \<Rightarrow> string list" where
  "ref_names (JArr xs) = ref_names_list xs"
| "ref_names (JObj t ps cs r) =
     (case t of None \<Rightarrow> [] | Some tg \<Rightarrow> if tg = [] then [] else
        ref_names_list cs @ (case r of Some n \<Rightarrow> if n = [] then [] else [n] | None \<Rightarrow> []))"
| "ref_names _ = []"
| "ref_names_list [] = []"
| "ref_names_list (x # xs) = ref_names x @ ref_names_list xs"

end
