(* ===== verification/Dom_Host.thy ===== *)
theory Dom_Host
  imports Element_Tree
begin

text \<open>
  The host document that \<open>src/native-app.js\<close> mutates through the DOM API: a heap of
  nodes indexed by pointers, each node with its kind (text, element, document fragment),
  attribute list, style declarations, event listeners, ordered children and parent. The
  operations are the DOM methods the generator calls (\<open>document.createElement\<close>,
  \<open>createTextNode\<close>, \<open>createDocumentFragment\<close>, \<open>setAttribute\<close>, the
  \<open>className\<close> and \<open>style\<close> setters, \<open>addEventListener\<close>, \<open>appendChild\<close>,
  \<open>removeChild\<close>, \<open>replaceChild\<close>, \<open>innerHTML = ""\<close>, \<open>tagName\<close>), following the
  WHATWG DOM algorithms for the cases the generator reaches, with the exceptions they
  throw as \<open>dom_error\<close> values. The well-formedness invariant \<open>wf_dom\<close> says that
  parent and child links agree; every mutating operation preserves it.
\<close>

datatype dom_error = InvalidCharacterError | HierarchyRequestError | NotFoundError | TypeError

datatype node_kind = TextNode string | ElementNode string | FragmentNode

record node =
  kind :: node_kind
  attrs :: "(string \<times> string) list"
  style :: "(string \<times> string) list"
  listeners :: "(string \<times> pval) list"
  children :: "ptr list"
  parent :: "ptr option"

record dom =
  nodes :: "ptr \<rightharpoonup> node"
  next_ptr :: ptr

subsection \<open>Reading the heap\<close>

definition kind_of :: "dom \<Rightarrow> ptr \<Rightarrow> node_kind option" where
  "kind_of d p = map_option kind (nodes d p)"

definition children_of :: "dom \<Rightarrow> ptr \<Rightarrow> ptr list" where
  "children_of d p = (case nodes d p of Some nd \<Rightarrow> children nd | None \<Rightarrow> [])"

definition parent_of :: "dom \<Rightarrow> ptr \<Rightarrow> ptr option" where
  "parent_of d p = (case nodes d p of Some nd \<Rightarrow> parent nd | None \<Rightarrow> None)"

definition attrs_of :: "dom \<Rightarrow> ptr \<Rightarrow> (string \<times> string) list" where
  "attrs_of d p = (case nodes d p of Some nd \<Rightarrow> attrs nd | None \<Rightarrow> [])"

text \<open>\<open>node.tagName\<close>: the ASCII-uppercased name of an element, \<open>undefined\<close> otherwise.\<close>

definition tag_name :: "dom \<Rightarrow> ptr \<Rightarrow> string option" where
  "tag_name d p = (case kind_of d p of Some (ElementNode t) \<Rightarrow> Some (ascii_upper t) | _ \<Rightarrow> None)"

fun is_element_kind :: "node_kind \<Rightarrow> bool" where
  "is_element_kind (ElementNode _) = True"
| "is_element_kind _ = False"

fun can_have_children :: "node_kind \<Rightarrow> bool" where
  "can_have_children (TextNode _) = False"
| "can_have_children _ = True"

definition accepts_children :: "dom \<Rightarrow> ptr \<Rightarrow> bool" where
  "accepts_children d p = (case kind_of d p of Some k \<Rightarrow> can_have_children k | None \<Rightarrow> False)"

text \<open>
  The inclusive ancestors of a node, walking parent links. The walk is bounded by the
  number of pointers ever allocated: in a document (acyclic, every pointer below
  \<open>next_ptr\<close>) no chain of ancestors is longer.
\<close>

fun inclusive_ancestors :: "nat \<Rightarrow> dom \<Rightarrow> ptr \<Rightarrow> ptr list" where
  "inclusive_ancestors 0 d n = []"
| "inclusive_ancestors (Suc k) d n =
     n # (case parent_of d n of None \<Rightarrow> [] | Some q \<Rightarrow> inclusive_ancestors k d q)"

definition is_inclusive_ancestor :: "dom \<Rightarrow> ptr \<Rightarrow> ptr \<Rightarrow> bool" where
  "is_inclusive_ancestor d a n = (a \<in> set (inclusive_ancestors (next_ptr d) d n))"

subsection \<open>Node creation\<close>

definition new_node :: "node_kind \<Rightarrow> node" where
  "new_node k = \<lparr>kind = k, attrs = [], style = [], listeners = [], children = [], parent = None\<rparr>"

definition alloc :: "node_kind \<Rightarrow> dom \<Rightarrow> ptr \<times> dom" where
  "alloc k d =
     (next_ptr d, d\<lparr>nodes := (nodes d)(next_ptr d \<mapsto> new_node k), next_ptr := Suc (next_ptr d)\<rparr>)"

definition name_forbidden_char :: "char \<Rightarrow> bool" where
  "name_forbidden_char c =
     (is_ascii_whitespace c \<or> of_char c = (0::nat) \<or> c = CHR ''/'' \<or> c = CHR ''>'')"

text \<open>
  Names accepted by \<open>createElement\<close> and \<open>setAttribute\<close> (DOM: valid element local
  name, valid attribute local name), restricted to element names that start with an
  ASCII letter, the only ones the program uses.
\<close>

definition valid_element_name :: "string \<Rightarrow> bool" where
  "valid_element_name s =
     (s \<noteq> [] \<and> is_ascii_alpha (hd s) \<and> list_all (\<lambda>c. \<not> name_forbidden_char c) s)"

definition valid_attribute_name :: "string \<Rightarrow> bool" where
  "valid_attribute_name s =
     (s \<noteq> [] \<and> list_all (\<lambda>c. \<not> name_forbidden_char c \<and> c \<noteq> CHR ''='') s)"

text \<open>\<open>document.createElement(tag)\<close>: HTML documents store the name in lower case.\<close>

definition create_element_node :: "string \<Rightarrow> dom \<Rightarrow> dom_error + (ptr \<times> dom)" where
  "create_element_node t d =
     (if valid_element_name t then Inr (alloc (ElementNode (ascii_lower t)) d)
      else Inl InvalidCharacterError)"

definition create_text_node :: "string \<Rightarrow> dom \<Rightarrow> ptr \<times> dom" where
  "create_text_node s d = alloc (TextNode s) d"

definition create_document_fragment :: "dom \<Rightarrow> ptr \<times> dom" where
  "create_document_fragment d = alloc FragmentNode d"

subsection \<open>Node-local mutations\<close>

text \<open>\<open>element.setAttribute(k, v)\<close>: no such method on text nodes and fragments.\<close>

definition node_set_attribute :: "string \<Rightarrow> string \<Rightarrow> node \<Rightarrow> dom_error + node" where
  "node_set_attribute k v nd =
     (if \<not> is_element_kind (kind nd) then Inl TypeError
      else if \<not> valid_attribute_name k then Inl InvalidCharacterError
      else Inr (nd\<lparr>attrs := AList.update (ascii_lower k) v (attrs nd)\<rparr>))"

text \<open>\<open>element.className = v\<close> reflects the \<open>class\<close> attribute; on other nodes it only
  creates an ordinary JavaScript property.\<close>

definition node_set_class_name :: "string \<Rightarrow> node \<Rightarrow> node" where
  "node_set_class_name v nd =
     (if is_element_kind (kind nd) then nd\<lparr>attrs := AList.update ''class'' v (attrs nd)\<rparr> else nd)"

text \<open>
  \<open>target.addEventListener(type, callback)\<close>: a \<open>null\<close> or \<open>undefined\<close> callback is
  ignored, a non-object one is a \<open>TypeError\<close>, and a listener already registered for
  the same type is not added twice.
\<close>

definition node_add_event_listener :: "string \<Rightarrow> pval \<Rightarrow> node \<Rightarrow> dom_error + node" where
  "node_add_event_listener ev cb nd =
     (let add = Inr (if (ev, cb) \<in> set (listeners nd) then nd
                     else nd\<lparr>listeners := listeners nd @ [(ev, cb)]\<rparr>)
      in case cb of
          PNull \<Rightarrow> Inr nd
        | PUndef \<Rightarrow> Inr nd
        | PFun _ \<Rightarrow> add
        | PObj _ \<Rightarrow> add
        | _ \<Rightarrow> Inl TypeError)"

text \<open>\<open>Object.assign(element.style, value)\<close>: each field in order; \<open>null\<close> copies nothing.\<close>

definition node_assign_style :: "pval \<Rightarrow> node \<Rightarrow> dom_error + node" where
  "node_assign_style v nd =
     (if \<not> is_element_kind (kind nd) then Inl TypeError
      else case v of
          PObj fs \<Rightarrow> Inr (nd\<lparr>style := fold (\<lambda>(k, x) s. AList.update k x s) fs (style nd)\<rparr>)
        | _ \<Rightarrow> Inr nd)"

definition update_node :: "ptr \<Rightarrow> (node \<Rightarrow> dom_error + node) \<Rightarrow> dom \<Rightarrow> dom_error + dom" where
  "update_node n f d =
     (case nodes d n of
        None \<Rightarrow> Inl TypeError
      | Some nd \<Rightarrow> (case f nd of
          Inl e \<Rightarrow> Inl e
        | Inr nd' \<Rightarrow> Inr (d\<lparr>nodes := (nodes d)(n \<mapsto> nd')\<rparr>)))"

definition set_attribute :: "ptr \<Rightarrow> string \<Rightarrow> string \<Rightarrow> dom \<Rightarrow> dom_error + dom" where
  "set_attribute n k v = update_node n (node_set_attribute k v)"

definition set_class_name :: "ptr \<Rightarrow> string \<Rightarrow> dom \<Rightarrow> dom_error + dom" where
  "set_class_name n v = update_node n (\<lambda>nd. Inr (node_set_class_name v nd))"

definition add_event_listener :: "ptr \<Rightarrow> string \<Rightarrow> pval \<Rightarrow> dom \<Rightarrow> dom_error + dom" where
  "add_event_listener n ev cb = update_node n (node_add_event_listener ev cb)"

definition assign_style :: "ptr \<Rightarrow> pval \<Rightarrow> dom \<Rightarrow> dom_error + dom" where
  "assign_style n v = update_node n (node_assign_style v)"

subsection \<open>Tree mutations\<close>

definition map_node :: "ptr \<Rightarrow> (node \<Rightarrow> node) \<Rightarrow> dom \<Rightarrow> dom" where
  "map_node n f d =
     (case nodes d n of None \<Rightarrow> d | Some nd \<Rightarrow> d\<lparr>nodes := (nodes d)(n \<mapsto> f nd)\<rparr>)"

definition set_children :: "ptr \<Rightarrow> ptr list \<Rightarrow> dom \<Rightarrow> dom" where
  "set_children p cs = map_node p (\<lambda>nd. nd\<lparr>children := cs\<rparr>)"

definition set_parent :: "ptr \<Rightarrow> ptr option \<Rightarrow> dom \<Rightarrow> dom" where
  "set_parent c q = map_node c (\<lambda>nd. nd\<lparr>parent := q\<rparr>)"

text \<open>The DOM ``remove'' algorithm: unlink a node from its parent, if it has one.\<close>

definition detach :: "ptr \<Rightarrow> dom \<Rightarrow> dom" where
  "detach c d =
     (case parent_of d c of
        None \<Rightarrow> d
      | Some q \<Rightarrow> set_parent c None (set_children q (remove1 c (children_of d q)) d))"

text \<open>
  The DOM ``insert'' algorithm: a fragment contributes its children, which leave it;
  any other node is first removed from its old parent. The nodes go before \<open>r\<close>, or at
  the end when \<open>r = None\<close>.
\<close>

definition insert_node :: "ptr \<Rightarrow> ptr \<Rightarrow> ptr option \<Rightarrow> dom \<Rightarrow> dom" where
  "insert_node p c r d =
     (if kind_of d c = Some FragmentNode then
        (let ns = children_of d c; d1 = set_children c [] d
         in set_children p (splice_before r ns (children_of d1 p))
              (fold (\<lambda>n. set_parent n (Some p)) ns d1))
      else
        (let d1 = detach c d
         in set_children p (splice_before r [c] (children_of d1 p)) (set_parent c (Some p) d1)))"

text \<open>The checks of ``ensure pre-insertion validity'', in the standard's order.\<close>

definition insert_check :: "ptr \<Rightarrow> ptr \<Rightarrow> ptr option \<Rightarrow> dom \<Rightarrow> dom_error option" where
  "insert_check p c r d =
     (if nodes d p = None \<or> nodes d c = None then Some TypeError
      else if \<not> accepts_children d p then Some HierarchyRequestError
      else if is_inclusive_ancestor d c p then Some HierarchyRequestError
      else if (case r of None \<Rightarrow> False | Some x \<Rightarrow> parent_of d x \<noteq> Some p) then Some NotFoundError
      else None)"

text \<open>\<open>parent.appendChild(c)\<close>, returning \<open>c\<close>.\<close>

definition append_child :: "ptr \<Rightarrow> ptr \<Rightarrow> dom \<Rightarrow> dom_error + (ptr \<times> dom)" where
  "append_child p c d =
     (case insert_check p c None d of
        Some e \<Rightarrow> Inl e
      | None \<Rightarrow> Inr (c, insert_node p c None d))"

text \<open>\<open>parent.removeChild(c)\<close>, returning \<open>c\<close>.\<close>

definition remove_child :: "ptr \<Rightarrow> ptr \<Rightarrow> dom \<Rightarrow> dom_error + (ptr \<times> dom)" where
  "remove_child p c d =
     (if nodes d p = None \<or> nodes d c = None then Inl TypeError
      else if parent_of d c \<noteq> Some p then Inl NotFoundError
      else Inr (c, detach c d))"

text \<open>\<open>parent.replaceChild(c, old)\<close>, returning the replaced node \<open>old\<close>.\<close>

definition replace_child :: "ptr \<Rightarrow> ptr \<Rightarrow> ptr \<Rightarrow> dom \<Rightarrow> dom_error + (ptr \<times> dom)" where
  "replace_child p c old d =
     (if nodes d p = None \<or> nodes d c = None \<or> nodes d old = None then Inl TypeError
      else if \<not> accepts_children d p then Inl HierarchyRequestError
      else if is_inclusive_ancestor d c p then Inl HierarchyRequestError
      else if parent_of d old \<noteq> Some p then Inl NotFoundError
      else
        (let r0 = elem_after old (children_of d p);
             r = (if r0 = Some c then elem_after c (children_of d p) else r0)
         in Inr (old, insert_node p c r (detach old d))))"

text \<open>\<open>element.innerHTML = ""\<close>: every child is removed.\<close>

definition clear_children :: "ptr \<Rightarrow> dom \<Rightarrow> dom" where
  "clear_children p d = set_children p [] (fold (\<lambda>c. set_parent c None) (children_of d p) d)"

subsection \<open>Well-formedness\<close>

text \<open>
  Pointers at or above \<open>next_ptr\<close> are unallocated, children lists have no repetition,
  and a node lists \<open>c\<close> as a child exactly when \<open>c\<close>'s parent is that node.
\<close>

definition wf_dom :: "dom \<Rightarrow> bool" where
  "wf_dom d \<longleftrightarrow>
     (\<forall>p. next_ptr d \<le> p \<longrightarrow> p \<notin> dom (nodes d)) \<and>
     (\<forall>p. distinct (children_of d p)) \<and>
     (\<forall>p c. c \<in> set (children_of d p) \<longleftrightarrow> parent_of d c = Some p)"

subsection \<open>Characteristic equations\<close>

text \<open>
  Each mutation is described by its effect on \<open>children_of\<close>, \<open>parent_of\<close>,
  \<open>kind_of\<close> and the set of allocated pointers; the invariant proofs below use only
  these equations.
\<close>

lemma nodes_map_node [host_simps]:
  "nodes (map_node n f d) x = (if x = n then map_option f (nodes d n) else nodes d x)"
  by (auto simp: map_node_def split: option.splits)

lemma next_ptr_map_node [simp]: "next_ptr (map_node n f d) = next_ptr d"
  by (auto simp: map_node_def split: option.splits)

lemma next_ptr_set_children [simp]: "next_ptr (set_children p cs d) = next_ptr d"
  by (simp add: set_children_def)

lemma next_ptr_set_parent [simp]: "next_ptr (set_parent c q d) = next_ptr d"
  by (simp add: set_parent_def)

lemma next_ptr_fold_set_parent [simp]:
  "next_ptr (fold (\<lambda>n. set_parent n q) ns d) = next_ptr d"
  by (induction ns arbitrary: d) auto

lemma dom_nodes_set_children [simp]: "dom (nodes (set_children p cs d)) = dom (nodes d)"
  by (auto simp: set_children_def host_simps split: if_splits)

lemma dom_nodes_set_parent [simp]: "dom (nodes (set_parent c q d)) = dom (nodes d)"
  by (auto simp: set_parent_def host_simps split: if_splits)

lemma children_of_set_children [host_simps]:
  "children_of (set_children p cs d) x =
     (if x = p \<and> p \<in> dom (nodes d) then cs else children_of d x)"
  by (auto simp: set_children_def children_of_def host_simps split: option.splits)

lemma parent_of_set_children [simp]: "parent_of (set_children p cs d) x = parent_of d x"
  by (auto simp: set_children_def parent_of_def host_simps split: option.splits)

lemma kind_of_set_children [simp]: "kind_of (set_children p cs d) x = kind_of d x"
  by (cases "nodes d x") (auto simp: set_children_def kind_of_def host_simps)

lemma children_of_set_parent [simp]: "children_of (set_parent c q d) x = children_of d x"
  by (auto simp: set_parent_def children_of_def host_simps split: option.splits)

lemma parent_of_set_parent [host_simps]:
  "parent_of (set_parent c q d) x =
     (if x = c \<and> c \<in> dom (nodes d) then q else parent_of d x)"
  by (auto simp: set_parent_def parent_of_def host_simps split: option.splits)

lemma kind_of_set_parent [simp]: "kind_of (set_parent c q d) x = kind_of d x"
  by (cases "nodes d x") (auto simp: set_parent_def kind_of_def host_simps)

lemma fold_set_parent_facts [simp]:
  "children_of (fold (\<lambda>n. set_parent n q) ns d) x = children_of d x"
  "kind_of (fold (\<lambda>n. set_parent n q) ns d) x = kind_of d x"
  "dom (nodes (fold (\<lambda>n. set_parent n q) ns d)) = dom (nodes d)"
  by (induction ns arbitrary: d) auto

lemma parent_of_fold_set_parent [host_simps]:
  "parent_of (fold (\<lambda>n. set_parent n q) ns d) x =
     (if x \<in> set ns \<and> x \<in> dom (nodes d) then q else parent_of d x)"
  by (induction ns arbitrary: d) (auto simp: host_simps)

lemma wf_domD:
  assumes "wf_dom d"
  shows "next_ptr d \<le> p \<Longrightarrow> p \<notin> dom (nodes d)"
    and "distinct (children_of d p)"
    and "c \<in> set (children_of d p) \<longleftrightarrow> parent_of d c = Some p"
  using assms by (auto simp: wf_dom_def)

lemma parent_of_allocated: "parent_of d c = Some p \<Longrightarrow> c \<in> dom (nodes d)"
  by (auto simp: parent_of_def split: option.splits)

lemma children_of_allocated: "c \<in> set (children_of d p) \<Longrightarrow> p \<in> dom (nodes d)"
  by (cases "nodes d p") (auto simp: children_of_def)

lemma wf_domI:
  assumes "\<And>p. next_ptr d \<le> p \<Longrightarrow> p \<notin> dom (nodes d)"
    and "\<And>p. distinct (children_of d p)"
    and "\<And>p c. c \<in> set (children_of d p) \<longleftrightarrow> parent_of d c = Some p"
  shows "wf_dom d"
  using assms by (auto simp: wf_dom_def)

lemma children_of_unallocated [simp]: "nodes d x = None \<Longrightarrow> children_of d x = []"
  by (simp add: children_of_def)

lemma children_of_detach [host_simps]:
  "children_of (detach c d) x =
     (case parent_of d c of
        Some q \<Rightarrow> if x = q then remove1 c (children_of d q) else children_of d x
      | None \<Rightarrow> children_of d x)"
  by (auto simp: detach_def host_simps dest: children_of_allocated split: option.splits)

lemma parent_of_detach [host_simps]:
  "parent_of (detach c d) x = (if x = c then None else parent_of d x)"
  by (auto simp: detach_def host_simps dest: parent_of_allocated split: option.splits)

lemma detach_facts [simp]:
  "kind_of (detach c d) x = kind_of d x"
  "dom (nodes (detach c d)) = dom (nodes d)"
  "next_ptr (detach c d) = next_ptr d"
  by (auto simp: detach_def split: option.splits)

lemma wf_detach [wf_rules]:
  assumes "wf_dom d"
  shows "wf_dom (detach c d)"
proof (rule wf_domI)
  fix p
  show "next_ptr (detach c d) \<le> p \<Longrightarrow> p \<notin> dom (nodes (detach c d))"
    using wf_domD(1) [OF assms] by simp
  show "distinct (children_of (detach c d) p)"
    using wf_domD(2) [OF assms] by (auto simp: host_simps split: option.splits)
next
  fix p x
  show "x \<in> set (children_of (detach c d) p) \<longleftrightarrow> parent_of (detach c d) x = Some p"
    using wf_domD(2,3) [OF assms]
    by (cases "parent_of d c") (auto simp: host_simps)
qed

subsection \<open>Insertion and removal keep the invariant\<close>

lemma insert_node_fragment_facts:
  assumes "kind_of d c = Some FragmentNode"
  shows "children_of (insert_node p c r d) x =
           (if x = p \<and> p \<in> dom (nodes d)
            then splice_before r (children_of d c) (if p = c then [] else children_of d p)
            else if x = c then [] else children_of d x)"
    and "parent_of (insert_node p c r d) x =
           (if x \<in> set (children_of d c) \<and> x \<in> dom (nodes d) then Some p else parent_of d x)"
  using assms by (auto simp: insert_node_def Let_def host_simps kind_of_def)

lemma insert_node_plain_facts:
  assumes "kind_of d c \<noteq> Some FragmentNode"
  shows "children_of (insert_node p c r d) x =
           (if x = p \<and> p \<in> dom (nodes d)
            then splice_before r [c] (children_of (detach c d) p)
            else children_of (detach c d) x)"
    and "parent_of (insert_node p c r d) x =
           (if x = c \<and> c \<in> dom (nodes d) then Some p else parent_of (detach c d) x)"
  using assms by (auto simp: insert_node_def Let_def host_simps)

lemma insert_node_facts [simp]:
  "kind_of (insert_node p c r d) x = kind_of d x"
  "dom (nodes (insert_node p c r d)) = dom (nodes d)"
  "next_ptr (insert_node p c r d) = next_ptr d"
  by (auto simp: insert_node_def Let_def)

lemma wf_insert_node_fragment:
  assumes wf: "wf_dom d" and p: "p \<in> dom (nodes d)" and fr: "kind_of d c = Some FragmentNode"
  shows "wf_dom (insert_node p c r d)"
proof (rule wf_domI)
  note W = wf_domD [OF wf]
  fix x
  show "next_ptr (insert_node p c r d) \<le> x \<Longrightarrow> x \<notin> dom (nodes (insert_node p c r d))"
    using W(1) by simp
  have disj: "set (children_of d p) \<inter> set (children_of d c) = {}" if "p \<noteq> c"
    using W(3) that by auto
  show "distinct (children_of (insert_node p c r d) x)"
    using W(2) disj p by (auto simp: insert_node_fragment_facts [OF fr])
next
  note W = wf_domD [OF wf]
  fix x y
  show "y \<in> set (children_of (insert_node p c r d) x) \<longleftrightarrow>
        parent_of (insert_node p c r d) y = Some x"
    using W(3) p by (auto simp: insert_node_fragment_facts [OF fr] dest: parent_of_allocated)
qed

lemma wf_insert_node_plain:
  assumes wf: "wf_dom d" and p: "p \<in> dom (nodes d)" and c: "c \<in> dom (nodes d)"
    and nf: "kind_of d c \<noteq> Some FragmentNode"
  shows "wf_dom (insert_node p c r d)"
proof (rule wf_domI)
  have wf1: "wf_dom (detach c d)" by (rule wf_detach [OF wf])
  note W = wf_domD [OF wf1]
  have c_free: "c \<notin> set (children_of (detach c d) x)" for x
    using W(3) by (simp add: host_simps)
  fix x
  show "next_ptr (insert_node p c r d) \<le> x \<Longrightarrow> x \<notin> dom (nodes (insert_node p c r d))"
    using W(1) by simp
  show "distinct (children_of (insert_node p c r d) x)"
    using W(2) c_free by (simp add: insert_node_plain_facts [OF nf])
next
  have wf1: "wf_dom (detach c d)" by (rule wf_detach [OF wf])
  note W = wf_domD [OF wf1]
  fix x y
  show "y \<in> set (children_of (insert_node p c r d) x) \<longleftrightarrow>
        parent_of (insert_node p c r d) y = Some x"
    using W(3) p c by (auto simp: insert_node_plain_facts [OF nf] host_simps)
qed

lemma wf_insert_node [wf_rules]:
  "wf_dom d \<Longrightarrow> p \<in> dom (nodes d) \<Longrightarrow> c \<in> dom (nodes d) \<Longrightarrow> wf_dom (insert_node p c r d)"
  using wf_insert_node_fragment wf_insert_node_plain by blast

subsection \<open>Allocation, node-local updates, clearing\<close>

lemma alloc_facts:
  assumes "alloc k d = (n, d')"
  shows "n = next_ptr d" and "next_ptr d' = Suc (next_ptr d)"
    and "nodes d' x = (if x = n then Some (new_node k) else nodes d x)"
  using assms by (auto simp: alloc_def)

lemma wf_alloc [wf_rules]:
  assumes wf: "wf_dom d" and a: "alloc k d = (n, d')"
  shows "wf_dom d'"
proof (rule wf_domI)
  note W = wf_domD [OF wf]
  have fresh: "nodes d n = None" using W(1) alloc_facts(1) [OF a] by auto
  have ch: "children_of d' x = children_of d x" for x
    using fresh by (auto simp: children_of_def alloc_facts(3) [OF a] new_node_def split: option.splits)
  have pa: "parent_of d' x = parent_of d x" for x
    using fresh by (auto simp: parent_of_def alloc_facts(3) [OF a] new_node_def split: option.splits)
  fix x
  show "next_ptr d' \<le> x \<Longrightarrow> x \<notin> dom (nodes d')"
    using W(1) [of x] by (auto simp: alloc_facts [OF a] domI)
  show "distinct (children_of d' x)" using W(2) ch by simp
next
  note W = wf_domD [OF wf]
  have fresh: "nodes d n = None" using W(1) alloc_facts(1) [OF a] by auto
  have ch: "children_of d' x = children_of d x" for x
    using fresh by (auto simp: children_of_def alloc_facts(3) [OF a] new_node_def split: option.splits)
  have pa: "parent_of d' x = parent_of d x" for x
    using fresh by (auto simp: parent_of_def alloc_facts(3) [OF a] new_node_def split: option.splits)
  fix x y
  show "y \<in> set (children_of d' x) \<longleftrightarrow> parent_of d' y = Some x" using W(3) ch pa by simp
qed

text \<open>A node-local update that keeps the links keeps well-formedness.\<close>

definition keeps_links :: "(node \<Rightarrow> dom_error + node) \<Rightarrow> bool" where
  "keeps_links f \<longleftrightarrow>
     (\<forall>nd nd'. f nd = Inr nd' \<longrightarrow>
        children nd' = children nd \<and> parent nd' = parent nd \<and> kind nd' = kind nd)"

lemma update_node_facts:
  assumes "update_node n f d = Inr d'" and "keeps_links f"
  shows "children_of d' x = children_of d x" and "parent_of d' x = parent_of d x"
    and "kind_of d' x = kind_of d x"
    and "dom (nodes d') = dom (nodes d)" and "next_ptr d' = next_ptr d"
  using assms
  by (auto simp: update_node_def keeps_links_def children_of_def parent_of_def kind_of_def
      split: option.splits sum.splits if_splits)

lemma wf_update_node [wf_rules]:
  assumes "wf_dom d" and "update_node n f d = Inr d'" and "keeps_links f"
  shows "wf_dom d'"
  using assms wf_domD [OF assms(1)] unfolding wf_dom_def
  by (simp add: update_node_facts [OF assms(2,3)])

lemma keeps_links_ops [simp]:
  "keeps_links (node_set_attribute k v)"
  "keeps_links (\<lambda>nd. Inr (node_set_class_name v nd))"
  "keeps_links (node_add_event_listener ev cb)"
  "keeps_links (node_assign_style pv)"
  by (auto simp: keeps_links_def node_set_attribute_def node_set_class_name_def
      node_add_event_listener_def node_assign_style_def Let_def split: pval.splits if_splits)

lemma parent_of_unallocated [simp]: "nodes d x = None \<Longrightarrow> parent_of d x = None"
  by (simp add: parent_of_def)

lemma children_of_clear_children [host_simps]:
  "children_of (clear_children p d) x = (if x = p then [] else children_of d x)"
  by (auto simp: clear_children_def host_simps)

lemma parent_of_clear_children [host_simps]:
  "parent_of (clear_children p d) x =
     (if x \<in> set (children_of d p) then None else parent_of d x)"
  by (auto simp: clear_children_def host_simps)

lemma clear_children_facts [simp]:
  "kind_of (clear_children p d) x = kind_of d x"
  "dom (nodes (clear_children p d)) = dom (nodes d)"
  "next_ptr (clear_children p d) = next_ptr d"
  by (auto simp: clear_children_def)

lemma wf_clear_children [wf_rules]:
  assumes wf: "wf_dom d"
  shows "wf_dom (clear_children p d)"
  using wf_domD [OF wf] unfolding wf_dom_def
  by (auto simp: host_simps)

subsection \<open>Frame lemmas\<close>

lemma nodes_set_children_other [simp]: "x \<noteq> p \<Longrightarrow> nodes (set_children p cs d) x = nodes d x"
  by (simp add: set_children_def host_simps)

lemma nodes_set_parent_other [simp]: "x \<noteq> c \<Longrightarrow> nodes (set_parent c q d) x = nodes d x"
  by (simp add: set_parent_def host_simps)

lemma nodes_fold_set_parent_other [simp]:
  "x \<notin> set ns \<Longrightarrow> nodes (fold (\<lambda>n. set_parent n q) ns d) x = nodes d x"
  by (induction ns arbitrary: d) auto

lemma nodes_detach_other:
  "x \<noteq> c \<Longrightarrow> parent_of d c \<noteq> Some x \<Longrightarrow> nodes (detach c d) x = nodes d x"
  by (auto simp: detach_def split: option.splits)

lemma nodes_insert_node_other:
  assumes "x \<noteq> p" "x \<noteq> c" "x \<notin> set (children_of d c)" "parent_of d c \<noteq> Some x"
  shows "nodes (insert_node p c r d) x = nodes d x"
  using assms by (auto simp: insert_node_def Let_def nodes_detach_other)

lemma nodes_update_node_other:
  "update_node n f d = Inr d' \<Longrightarrow> x \<noteq> n \<Longrightarrow> nodes d' x = nodes d x"
  by (auto simp: update_node_def split: option.splits sum.splits)

text \<open>Parents of allocated nodes are allocated, hence below \<open>next_ptr\<close>.\<close>

lemma wf_parent_below:
  assumes "wf_dom d" "parent_of d x = Some q"
  shows "q < next_ptr d"
proof -
  have "x \<in> set (children_of d q)" using wf_domD(3) [OF assms(1)] assms(2) by simp
  then have "q \<in> dom (nodes d)" by (rule children_of_allocated)
  then show ?thesis using wf_domD(1) [OF assms(1), of q] by (meson not_le)
qed

lemma wf_child_below:
  assumes "wf_dom d" "x \<in> set (children_of d q)"
  shows "x < next_ptr d"
proof -
  have "parent_of d x = Some q" using wf_domD(3) [OF assms(1)] assms(2) by simp
  then have "x \<in> dom (nodes d)" by (rule parent_of_allocated)
  then show ?thesis using wf_domD(1) [OF assms(1), of x] by (meson not_le)
qed

lemma inclusive_ancestors_root:
  "parent_of d p = None \<Longrightarrow> inclusive_ancestors (Suc k) d p = [p]"
  by simp

end
