(* ===== verification/Dom_Generator.thy ===== *)
theory Dom_Generator
  imports Dom_Host
begin

text \<open>
  The reconciliation engine, class \<open>DOMGenerator\<close> of \<open>src/native-app.js\<close>
  (lines 2--113). Its state is the host document together with the reference registry
  \<open>this.refs\<close>; the unused field \<open>this.state\<close> is omitted. \<open>createElement\<close> is the
  mutual recursion \<open>create_element\<close>/\<open>create_children\<close> (the second is the
  \<open>forEach\<close> over children shared by the array and the tagged case);
  \<open>updateElement\<close> is \<open>update_element\<close>, \<open>render\<close> is \<open>render\<close>. Every call
  returns an \<open>exc\<close> value: an exception keeps the state reached when it was thrown,
  as JavaScript does (no rollback).
\<close>

record engine =
  doc :: dom
  refs :: "string \<rightharpoonup> ptr"

text \<open>
  The value passed to \<open>updateElement\<close> as \<open>oldElement\<close>: a live node, or one of the
  primitive values the function's \<open>typeof\<close> tests allow for, or \<open>null\<close>/\<open>undefined\<close>.
\<close>

datatype live = LNode ptr | LStr string | LNum int | LNull

subsection \<open>Creation\<close>

text \<open>The property switch of \<open>createElement\<close> (lines 31--44), for one entry.\<close>

definition apply_prop :: "ptr \<Rightarrow> string \<times> pval \<Rightarrow> dom \<Rightarrow> dom_error + dom" where
  "apply_prop n kv d =
     (case kv of (k, v) \<Rightarrow>
        if k = ''className'' then set_class_name n (js_string v) d
        else if k = ''onclick'' \<or> starts_with ''on'' k then
          add_event_listener n (ascii_lower (drop 2 k)) v d
        else if k = ''style'' \<and> js_is_object v then assign_style n v d
        else (case v of
                PBool b \<Rightarrow> if b then set_attribute n k k d else Inr d
              | _ \<Rightarrow> set_attribute n k (js_string v) d))"

definition apply_props :: "ptr \<Rightarrow> (string \<times> pval) list \<Rightarrow> dom \<Rightarrow> (dom_error, unit, dom) exc" where
  "apply_props n ps = for_each (apply_prop n) ps"

text \<open>\<open>if (ref) this.refs[ref] = element\<close>: the empty string is falsy.\<close>

definition register_ref :: "string option \<Rightarrow> ptr \<Rightarrow> engine \<Rightarrow> engine" where
  "register_ref r n e =
     (case r of
        None \<Rightarrow> e
      | Some nm \<Rightarrow> if nm = [] then e else e\<lparr>refs := (refs e)(nm \<mapsto> n)\<rparr>)"

fun create_element :: "jelem \<Rightarrow> engine \<Rightarrow> (dom_error, ptr option, engine) exc"
and create_children :: "ptr \<Rightarrow> jelem list \<Rightarrow> engine \<Rightarrow> (dom_error, unit, engine) exc" where
  "create_element (JStr s) e =
     (case create_text_node s (doc e) of (n, d) \<Rightarrow> Inr (Some n, e\<lparr>doc := d\<rparr>))"
| "create_element (JNum i) e =
     (case create_text_node (string_of_int i) (doc e) of (n, d) \<Rightarrow> Inr (Some n, e\<lparr>doc := d\<rparr>))"
| "create_element (JArr xs) e =
     (case create_document_fragment (doc e) of (f, d) \<Rightarrow>
        (case create_children f xs (e\<lparr>doc := d\<rparr>) of
           Inl ex \<Rightarrow> Inl ex
         | Inr (_, e') \<Rightarrow> Inr (Some f, e')))"
| "create_element (JObj t ps cs r) e =
     (case t of
        None \<Rightarrow> Inr (None, e)
      | Some tg \<Rightarrow>
         if tg = [] then Inr (None, e)
         else (case create_element_node tg (doc e) of
            Inl err \<Rightarrow> Inl (err, e)
          | Inr (n, d1) \<Rightarrow>
             (case apply_props n ps d1 of
                Inl (err, d2) \<Rightarrow> Inl (err, e\<lparr>doc := d2\<rparr>)
              | Inr (_, d2) \<Rightarrow>
                 (case create_children n cs (e\<lparr>doc := d2\<rparr>) of
                    Inl ex \<Rightarrow> Inl ex
                  | Inr (_, e3) \<Rightarrow> Inr (Some n, register_ref r n e3)))))"
| "create_element JNull e = Inr (None, e)"
| "create_element JUndef e = Inr (None, e)"
| "create_element (JBool b) e = Inr (None, e)"
| "create_element (JFun h) e = Inr (None, e)"
| "create_children p [] e = Inr ((), e)"
| "create_children p (x # xs) e =
     (case create_element x e of
        Inl ex \<Rightarrow> Inl ex
      | Inr (None, e1) \<Rightarrow> create_children p xs e1
      | Inr (Some c, e1) \<Rightarrow>
         (case append_child p c (doc e1) of
            Inl err \<Rightarrow> Inl (err, e1)
          | Inr (_, d2) \<Rightarrow> create_children p xs (e1\<lparr>doc := d2\<rparr>)))"

subsection \<open>Update\<close>

fun live_truthy :: "live \<Rightarrow> bool" where
  "live_truthy (LNode _) = True"
| "live_truthy (LStr s) = (s \<noteq> [])"
| "live_truthy (LNum i) = (i \<noteq> 0)"
| "live_truthy LNull = False"

fun live_is_primitive :: "live \<Rightarrow> bool" where
  "live_is_primitive (LStr _) = True"
| "live_is_primitive (LNum _) = True"
| "live_is_primitive _ = False"

text \<open>\<open>oldElement !== newJsonElement\<close> negated: only equal primitives are identical; a
  live node is never the description object.\<close>

fun strict_eq :: "live \<Rightarrow> jelem \<Rightarrow> bool" where
  "strict_eq (LStr a) (JStr b) = (a = b)"
| "strict_eq (LNum a) (JNum b) = (a = b)"
| "strict_eq _ _ = False"

text \<open>\<open>oldElement.tagName\<close>: \<open>undefined\<close> for primitives and non-elements.\<close>

fun live_tag_name :: "dom \<Rightarrow> live \<Rightarrow> string option" where
  "live_tag_name d (LNode n) = tag_name d n"
| "live_tag_name d _ = None"

text \<open>\<open>parent.replaceChild(this.createElement(newJsonElement, parent), oldElement)\<close>:
  the arguments are evaluated first; a \<open>null\<close> new node or a non-node old value is a
  \<open>TypeError\<close> of the host.\<close>

definition replace_with_new :: "jelem \<Rightarrow> live \<Rightarrow> ptr \<Rightarrow> engine \<Rightarrow> (dom_error, live, engine) exc" where
  "replace_with_new j old p e =
     (case create_element j e of
        Inl ex \<Rightarrow> Inl ex
      | Inr (r, e1) \<Rightarrow>
         (case (r, old) of
            (Some c, LNode m) \<Rightarrow>
              (case replace_child p c m (doc e1) of
                 Inl err \<Rightarrow> Inl (err, e1)
               | Inr (m', d2) \<Rightarrow> Inr (LNode m', e1\<lparr>doc := d2\<rparr>))
          | _ \<Rightarrow> Inl (TypeError, e1)))"

text \<open>The property loop of \<open>updateElement\<close> (lines 94--102), for one entry.\<close>

definition patch_prop :: "ptr \<Rightarrow> string \<times> pval \<Rightarrow> dom \<Rightarrow> dom_error + dom" where
  "patch_prop n kv d =
     (case kv of (k, v) \<Rightarrow>
        if k = ''className'' then set_class_name n (js_string v) d
        else if \<not> starts_with ''on'' k then set_attribute n k (js_string v) d
        else Inr d)"

text \<open>
  \<open>updateElement(oldElement, newJsonElement, parent)\<close>, lines 63--105, branch by
  branch. A primitive \<open>oldElement\<close> only reaches the property loop with a description
  that has no \<open>props\<close> (every other description is replaced first), so the last branch
  returns it untouched.
\<close>

definition update_element :: "live \<Rightarrow> jelem \<Rightarrow> ptr \<Rightarrow> engine \<Rightarrow> (dom_error, live, engine) exc" where
  "update_element old j p e =
     (if \<not> live_truthy old then
        (case create_element j e of
           Inl ex \<Rightarrow> Inl ex
         | Inr (None, e1) \<Rightarrow> Inl (TypeError, e1)
         | Inr (Some c, e1) \<Rightarrow>
            (case append_child p c (doc e1) of
               Inl err \<Rightarrow> Inl (err, e1)
             | Inr (c', d2) \<Rightarrow> Inr (LNode c', e1\<lparr>doc := d2\<rparr>)))
      else if \<not> elem_truthy j then
        (case old of
           LNode m \<Rightarrow>
             (case remove_child p m (doc e) of
                Inl err \<Rightarrow> Inl (err, e)
              | Inr (m', d') \<Rightarrow> Inr (LNode m', e\<lparr>doc := d'\<rparr>))
         | _ \<Rightarrow> Inl (TypeError, e))
      else if (live_is_primitive old \<or> elem_is_primitive j) \<and> \<not> strict_eq old j then
        replace_with_new j old p e
      else if live_tag_name (doc e) old \<noteq> elem_tag_upper j then
        replace_with_new j old p e
      else
        (case old of
           LNode m \<Rightarrow>
             (case for_each (patch_prop m) (elem_props j) (doc e) of
                Inl (err, d') \<Rightarrow> Inl (err, e\<lparr>doc := d'\<rparr>)
              | Inr (_, d') \<Rightarrow> Inr (old, e\<lparr>doc := d'\<rparr>))
         | _ \<Rightarrow> Inr (old, e)))"

subsection \<open>Render\<close>

text \<open>
  \<open>render(jsonElement, container)\<close>, lines 108--112: the new tree is created
  \<^emph>\<open>before\<close> the container is emptied, then appended.
\<close>

definition render :: "jelem \<Rightarrow> ptr \<Rightarrow> engine \<Rightarrow> (dom_error, unit, engine) exc" where
  "render j c e =
     (case create_element j e of
        Inl ex \<Rightarrow> Inl ex
      | Inr (r, e1) \<Rightarrow>
         (let e2 = e1\<lparr>doc := clear_children c (doc e1)\<rparr> in
          case r of
            None \<Rightarrow> Inr ((), e2)
          | Some n \<Rightarrow>
             (case append_child c n (doc e2) of
                Inl err \<Rightarrow> Inl (err, e2)
              | Inr (_, d3) \<Rightarrow> Inr ((), e2\<lparr>doc := d3\<rparr>))))"

end
