(* ===== verification/Create_Frame.thy ===== *)
theory Create_Frame
  imports Dom_Generator
begin

text \<open>
  What \<open>createElement\<close> does to the document, whether it returns or throws: it keeps
  \<open>wf_dom\<close>, it only allocates (every node that existed before is unchanged,
  \<open>grows\<close>), and a returned node is new and has no parent. The children loop
  changes its parent only by appending new nodes to its child list (\<open>grows_at\<close>).
  The proof is one computation induction over the mutual recursion; the lemmas before
  it describe one step each (allocation, property application, appending a fresh child).
\<close>

subsection \<open>Node-local edits\<close>

definition node_local :: "ptr \<Rightarrow> dom \<Rightarrow> dom \<Rightarrow> bool" where
  "node_local n d d' \<longleftrightarrow>
     next_ptr d' = next_ptr d \<and> dom (nodes d') = dom (nodes d) \<and>
     children_of d' = children_of d \<and> parent_of d' = parent_of d \<and> kind_of d' = kind_of d \<and>
     (\<forall>x. x \<noteq> n \<longrightarrow> nodes d' x = nodes d x)"

lemma node_local_refl [simp]: "node_local n d d"
  by (simp add: node_local_def)

lemma node_local_trans: "node_local n d1 d2 \<Longrightarrow> node_local n d2 d3 \<Longrightarrow> node_local n d1 d3"
  by (simp add: node_local_def)

lemma node_local_update_node:
  "update_node n f d = Inr d' \<Longrightarrow> keeps_links f \<Longrightarrow> node_local n d d'"
  by (auto simp: node_local_def update_node_facts nodes_update_node_other fun_eq_iff)

lemma wf_node_local: "wf_dom d \<Longrightarrow> node_local n d d' \<Longrightarrow> wf_dom d'"
  by (simp add: wf_dom_def node_local_def)

lemma apply_prop_node_local: "apply_prop n kv d = Inr d' \<Longrightarrow> node_local n d d'"
  by (auto simp: apply_prop_def set_class_name_def add_event_listener_def assign_style_def
      set_attribute_def split: prod.splits if_splits pval.splits intro: node_local_update_node)

lemma apply_props_node_local: "node_local n d (exc_state (apply_props n ps d))"
  unfolding apply_props_def
  by (rule for_each_invariant [where I = "node_local n d"])
    (auto intro: node_local_trans apply_prop_node_local)

subsection \<open>Growth of the document\<close>

definition grows :: "dom \<Rightarrow> dom \<Rightarrow> bool" where
  "grows d d' \<longleftrightarrow> next_ptr d \<le> next_ptr d' \<and> (\<forall>x < next_ptr d. nodes d' x = nodes d x)"

definition grows_at :: "ptr \<Rightarrow> dom \<Rightarrow> dom \<Rightarrow> bool" where
  "grows_at p d d' \<longleftrightarrow>
     next_ptr d \<le> next_ptr d' \<and> (\<forall>x < next_ptr d. x \<noteq> p \<longrightarrow> nodes d' x = nodes d x) \<and>
     nodes d' p = map_option (\<lambda>nd. nd\<lparr>children := children_of d' p\<rparr>) (nodes d p) \<and>
     (\<exists>cs. children_of d' p = children_of d p @ cs \<and> (\<forall>c \<in> set cs. next_ptr d \<le> c))"

lemma grows_refl [simp]: "grows d d"
  by (simp add: grows_def)

lemma grows_trans: "grows d1 d2 \<Longrightarrow> grows d2 d3 \<Longrightarrow> grows d1 d3"
  by (auto simp: grows_def)

lemma grows_at_refl [simp]: "grows_at p d d"
  by (cases "nodes d p") (auto simp: grows_at_def children_of_def)

lemma grows_at_trans: "grows_at p d1 d2 \<Longrightarrow> grows_at p d2 d3 \<Longrightarrow> grows_at p d1 d3"
  unfolding grows_at_def
  by (auto simp: option.map_comp o_def) (metis append.assoc order_trans)

lemma grows_grows_at: "grows d d' \<Longrightarrow> p < next_ptr d \<Longrightarrow> grows_at p d d'"
  unfolding grows_def grows_at_def
  by (cases "nodes d p") (auto simp: children_of_def)

lemma grows_at_grows: "grows d0 d1 \<Longrightarrow> grows_at p d1 d2 \<Longrightarrow> next_ptr d0 \<le> p \<Longrightarrow> grows d0 d2"
  by (auto simp: grows_def grows_at_def)

lemma grows_grows_at_trans: "grows d0 d1 \<Longrightarrow> grows_at p d1 d2 \<Longrightarrow> p < next_ptr d0 \<Longrightarrow> grows_at p d0 d2"
  by (meson grows_at_trans grows_grows_at)

lemma alloc_grows: "alloc k d = (n, d') \<Longrightarrow> grows d d'"
  by (auto simp: grows_def alloc_def)

lemma alloc_new:
  assumes "alloc k d = (n, d')"
  shows "n = next_ptr d" "n \<in> dom (nodes d')" "parent_of d' n = None" "kind_of d' n = Some k"
    "children_of d' n = []" "next_ptr d' = Suc n"
  using assms by (auto simp: alloc_def parent_of_def kind_of_def children_of_def new_node_def)

lemma grows_node_local:
  "grows d0 d1 \<Longrightarrow> node_local n d1 d2 \<Longrightarrow> next_ptr d0 \<le> n \<Longrightarrow> grows d0 d2"
  by (auto simp: node_local_def grows_def)

lemma nodes_set_children:
  "nodes (set_children q cs d) x =
     (if x = q then map_option (\<lambda>nd. nd\<lparr>children := cs\<rparr>) (nodes d q) else nodes d x)"
  by (simp add: set_children_def host_simps)

lemma nodes_insert_node_at_parent:
  assumes "p \<noteq> c" "p \<notin> set (children_of d c)"
  shows "nodes (insert_node p c r d) p =
           map_option (\<lambda>nd. nd\<lparr>children := children_of (insert_node p c r d) p\<rparr>) (nodes d p)"
  using assms
  by (cases "nodes d p")
    (auto simp: insert_node_def Let_def nodes_set_children host_simps detach_def option.map_comp o_def
      split: option.splits)

subsection \<open>Appending a fresh child\<close>

lemma ancestors_of_root:
  assumes "p \<in> dom (nodes d)" "parent_of d p = None" "wf_dom d"
  shows "is_inclusive_ancestor d a p \<longleftrightarrow> a = p"
proof -
  have "p < next_ptr d" using wf_domD(1) [OF assms(3), of p] assms(1) by (meson not_le)
  then obtain k where "next_ptr d = Suc k" by (cases "next_ptr d") auto
  with assms(2) show ?thesis by (simp add: is_inclusive_ancestor_def)
qed

lemma append_to_root:
  assumes wf: "wf_dom d" and p: "p \<in> dom (nodes d)" "parent_of d p = None" "accepts_children d p"
    and c: "c \<in> dom (nodes d)" "c \<noteq> p"
  shows "append_child p c d = Inr (c, insert_node p c None d)"
  using ancestors_of_root [OF p(1,2) wf] p c
  by (auto simp: append_child_def insert_check_def)

text \<open>Children of a node created after \<open>d0\<close> were created after \<open>d0\<close> too.\<close>

lemma children_of_new_node:
  assumes wf0: "wf_dom d0" and wf1: "wf_dom d1" and g: "grows d0 d1"
    and c: "next_ptr d0 \<le> c" and y: "y \<in> set (children_of d1 c)"
  shows "next_ptr d0 \<le> y"
proof (rule ccontr)
  assume "\<not> next_ptr d0 \<le> y"
  then have "nodes d1 y = nodes d0 y" using g by (simp add: grows_def)
  then have "parent_of d0 y = parent_of d1 y" by (simp add: parent_of_def)
  also have "\<dots> = Some c" using wf_domD(3) [OF wf1] y by simp
  finally have "c < next_ptr d0" by (rule wf_parent_below [OF wf0])
  with c show False by simp
qed

lemma insert_fresh_child:
  assumes wf0: "wf_dom d0" and wf1: "wf_dom d1" and g: "grows d0 d1"
    and p: "p < next_ptr d0" "p \<in> dom (nodes d1)" "parent_of d1 p = None"
    and c: "next_ptr d0 \<le> c" "c \<in> dom (nodes d1)" "parent_of d1 c = None"
  shows "grows_at p d0 (insert_node p c None d1)"
    and "wf_dom (insert_node p c None d1)" and "parent_of (insert_node p c None d1) p = None"
proof -
  let ?d2 = "insert_node p c None d1"
  have cp: "c \<noteq> p" using p(1) c(1) by simp
  have pc: "p \<noteq> c" using p(1) c(1) by simp
  have new: "next_ptr d0 \<le> y" if "y \<in> set (children_of d1 c)" for y
    using children_of_new_node [OF wf0 wf1 g c(1) that] .
  have p_nc: "p \<notin> set (children_of d1 c)" using new p(1) by fastforce
  show "wf_dom ?d2" using wf_insert_node [OF wf1 p(2) c(2)] .
  show "parent_of ?d2 p = None"
  proof (cases "kind_of d1 c = Some FragmentNode")
    case True
    then show ?thesis using p_nc p(3) by (simp add: insert_node_fragment_facts)
  next
    case False
    then show ?thesis using cp p(3) by (simp add: insert_node_plain_facts host_simps)
  qed
  have ch: "children_of ?d2 p = children_of d1 p @
              (if kind_of d1 c = Some FragmentNode then children_of d1 c else [c])"
    using cp p(2) c(3)
    by (auto simp: insert_node_fragment_facts insert_node_plain_facts host_simps
        splice_before_def)
  have old_p: "nodes d1 p = nodes d0 p" and old_ch: "children_of d1 p = children_of d0 p"
    using g p(1) by (auto simp: grows_def children_of_def)
  show "grows_at p d0 ?d2"
    unfolding grows_at_def
  proof (intro conjI allI impI)
    show "next_ptr d0 \<le> next_ptr ?d2" using g by (simp add: grows_def)
  next
    fix x assume "x < next_ptr d0" "x \<noteq> p"
    moreover have "x \<noteq> c" "x \<notin> set (children_of d1 c)" using \<open>x < next_ptr d0\<close> c(1) new
      by fastforce+
    ultimately show "nodes ?d2 x = nodes d0 x"
      using g c(3) by (simp add: nodes_insert_node_other grows_def)
  next
    show "nodes ?d2 p = map_option (\<lambda>nd. nd\<lparr>children := children_of ?d2 p\<rparr>) (nodes d0 p)"
      using nodes_insert_node_at_parent [OF pc p_nc] old_p by simp
  next
    show "\<exists>cs. children_of ?d2 p = children_of d0 p @ cs \<and> (\<forall>c\<in>set cs. next_ptr d0 \<le> c)"
      using ch old_ch new c(1) by auto
  qed
qed

subsection \<open>Pre- and postconditions\<close>

lemma doc_register_ref [simp]: "doc (register_ref r n e) = doc e"
  by (simp add: register_ref_def split: option.splits)

definition create_post :: "engine \<Rightarrow> (dom_error, ptr option, engine) exc \<Rightarrow> bool" where
  "create_post e res \<longleftrightarrow>
     wf_dom (doc (exc_state res)) \<and> grows (doc e) (doc (exc_state res)) \<and>
     (\<forall>n e'. res = Inr (Some n, e') \<longrightarrow>
        next_ptr (doc e) \<le> n \<and> n \<in> dom (nodes (doc e')) \<and> parent_of (doc e') n = None)"

definition children_pre :: "ptr \<Rightarrow> engine \<Rightarrow> bool" where
  "children_pre p e \<longleftrightarrow>
     wf_dom (doc e) \<and> p \<in> dom (nodes (doc e)) \<and> parent_of (doc e) p = None \<and>
     accepts_children (doc e) p"

definition children_post :: "ptr \<Rightarrow> engine \<Rightarrow> (dom_error, unit, engine) exc \<Rightarrow> bool" where
  "children_post p e res \<longleftrightarrow>
     wf_dom (doc (exc_state res)) \<and> grows_at p (doc e) (doc (exc_state res)) \<and>
     parent_of (doc (exc_state res)) p = None"

lemma wf_below: "wf_dom d \<Longrightarrow> p \<in> dom (nodes d) \<Longrightarrow> p < next_ptr d"
  using wf_domD(1) by (meson not_le)

lemma grows_at_dom: "grows_at p d d' \<Longrightarrow> p \<in> dom (nodes d) \<Longrightarrow> p \<in> dom (nodes d')"
  by (auto simp: grows_at_def)

lemma grows_at_kind: "grows_at p d d' \<Longrightarrow> kind_of d' p = kind_of d p"
  by (auto simp: grows_at_def kind_of_def option.map_comp o_def)

lemma grows_parent_of: "grows d d' \<Longrightarrow> x < next_ptr d \<Longrightarrow> parent_of d' x = parent_of d x"
  by (simp add: grows_def parent_of_def)

lemma grows_kind_of: "grows d d' \<Longrightarrow> x < next_ptr d \<Longrightarrow> kind_of d' x = kind_of d x"
  by (simp add: grows_def kind_of_def)

lemma grows_dom: "grows d d' \<Longrightarrow> x < next_ptr d \<Longrightarrow> x \<in> dom (nodes d') \<longleftrightarrow> x \<in> dom (nodes d)"
  by (simp add: grows_def domIff)

text \<open>The children loop started on a fresh parentless node.\<close>

lemma children_from_alloc:
  assumes wf: "wf_dom d0" and a: "alloc k d0 = (n, d1)" and nl: "node_local n d1 d2"
    and k: "can_have_children k"
  shows "children_pre n (e\<lparr>doc := d2\<rparr>)" and "grows d0 d2"
proof -
  have wf1: "wf_dom d1" by (rule wf_alloc [OF wf a])
  from nl have l: "dom (nodes d2) = dom (nodes d1)" "parent_of d2 = parent_of d1"
    "kind_of d2 = kind_of d1"
    by (simp_all add: node_local_def)
  have w2: "wf_dom d2" by (rule wf_node_local [OF wf1 nl])
  have n1: "n \<in> dom (nodes d1)" "parent_of d1 n = None" "kind_of d1 n = Some k"
    using alloc_new [OF a] by simp_all
  show "children_pre n (e\<lparr>doc := d2\<rparr>)"
    unfolding children_pre_def accepts_children_def using w2 n1 l k by simp
  show "grows d0 d2"
    using grows_node_local [OF alloc_grows [OF a] nl] alloc_new(1) [OF a] by simp
qed

lemma children_result:
  assumes "children_post n e1 res" "grows d0 (doc e1)" "next_ptr d0 \<le> n"
  shows "wf_dom (doc (exc_state res))" and "grows d0 (doc (exc_state res))"
  using assms by (auto simp: children_post_def intro: grows_at_grows)

text \<open>One step of the children loop: after a child has been created, the loop's
  parent is still a parentless node that accepts children, and appending a created node
  to it succeeds and only appends.\<close>

lemma children_pre_kept:
  assumes pre: "children_pre p e" and cp: "create_post e res" and res: "res = Inr (r, e1)"
  shows "children_pre p e1" and "grows (doc e) (doc e1)"
proof -
  have wf0: "wf_dom (doc e)" and pdom: "p \<in> dom (nodes (doc e))"
    and proot: "parent_of (doc e) p = None" and pacc: "accepts_children (doc e) p"
    using pre by (simp_all add: children_pre_def)
  have pN: "p < next_ptr (doc e)" by (rule wf_below [OF wf0 pdom])
  have wf1: "wf_dom (doc e1)" and g1: "grows (doc e) (doc e1)"
    using cp res by (simp_all add: create_post_def)
  then show "children_pre p e1"
    using pN pdom proot pacc
    by (simp add: children_pre_def grows_dom grows_parent_of accepts_children_def grows_kind_of)
  show "grows (doc e) (doc e1)" by (fact g1)
qed

lemma append_created:
  assumes pre: "children_pre p e" and cp: "create_post e res" and res: "res = Inr (Some c, e1)"
  shows "append_child p c (doc e1) = Inr (c, insert_node p c None (doc e1))"
    and "children_pre p (e1\<lparr>doc := insert_node p c None (doc e1)\<rparr>)"
    and "grows_at p (doc e) (insert_node p c None (doc e1))"
proof -
  have wf0: "wf_dom (doc e)" and pdom: "p \<in> dom (nodes (doc e))"
    using pre by (simp_all add: children_pre_def)
  have pN: "p < next_ptr (doc e)" by (rule wf_below [OF wf0 pdom])
  have pre1: "children_pre p e1" and g1: "grows (doc e) (doc e1)"
    using children_pre_kept [OF pre cp res] by simp_all
  have wf1: "wf_dom (doc e1)" and p1: "p \<in> dom (nodes (doc e1))" "parent_of (doc e1) p = None"
    "accepts_children (doc e1) p"
    using pre1 by (simp_all add: children_pre_def)
  have c: "next_ptr (doc e) \<le> c" "c \<in> dom (nodes (doc e1))" "parent_of (doc e1) c = None"
    using cp res by (simp_all add: create_post_def)
  show "append_child p c (doc e1) = Inr (c, insert_node p c None (doc e1))"
    using append_to_root [OF wf1 p1 c(2)] c(1) pN by simp
  have ins: "grows_at p (doc e) (insert_node p c None (doc e1))"
    "wf_dom (insert_node p c None (doc e1))" "parent_of (insert_node p c None (doc e1)) p = None"
    using insert_fresh_child [OF wf0 wf1 g1 pN p1(1,2) c] by simp_all
  show "children_pre p (e1\<lparr>doc := insert_node p c None (doc e1)\<rparr>)"
    using ins p1 by (simp add: children_pre_def accepts_children_def)
  show "grows_at p (doc e) (insert_node p c None (doc e1))" by (fact ins(1))
qed

subsection \<open>The creation frame\<close>

lemma create_frame:
  shows "wf_dom (doc e) \<Longrightarrow> create_post e (create_element j e)"
    and "children_pre p e \<Longrightarrow> children_post p e (create_children p xs e)"
proof (induction j e and p xs e rule: create_element_create_children.induct)
  case (1 s e)
  obtain n d where a: "alloc (TextNode s) (doc e) = (n, d)" by fastforce
  then show ?case using 1 wf_alloc [OF 1 a] alloc_grows [OF a] alloc_new [OF a]
    by (simp add: create_post_def create_text_node_def)
next
  case (2 i e)
  obtain n d where a: "alloc (TextNode (string_of_int i)) (doc e) = (n, d)" by fastforce
  then show ?case using 2 wf_alloc [OF 2 a] alloc_grows [OF a] alloc_new [OF a]
    by (simp add: create_post_def create_text_node_def)
next
  case (3 xs e)
  obtain f d where a: "alloc FragmentNode (doc e) = (f, d)" by fastforce
  have pre: "children_pre f (e\<lparr>doc := d\<rparr>)" and g: "grows (doc e) d"
    using children_from_alloc [OF "3.prems" a node_local_refl] by simp_all
  have post: "children_post f (e\<lparr>doc := d\<rparr>) (create_children f xs (e\<lparr>doc := d\<rparr>))"
    using "3.IH" [of f d] a pre by (simp add: create_document_fragment_def)
  have f: "next_ptr (doc e) \<le> f" using alloc_new(1) [OF a] by simp
  have res: "wf_dom (doc (exc_state (create_children f xs (e\<lparr>doc := d\<rparr>))))"
     "grows (doc e) (doc (exc_state (create_children f xs (e\<lparr>doc := d\<rparr>))))"
    using children_result [OF post, of "doc e"] g f by simp_all
  have fd: "f \<in> dom (nodes (doc (exc_state (create_children f xs (e\<lparr>doc := d\<rparr>)))))"
    using post pre grows_at_dom [of f d] by (simp add: children_post_def children_pre_def)
  show ?case using res fd post f a
    by (auto simp: create_post_def create_document_fragment_def children_post_def
        split: sum.splits prod.splits)
next
  case (4 t ps cs r e)
  show ?case
  proof (cases "\<exists>tg. t = Some tg \<and> tg \<noteq> [] \<and> valid_element_name tg")
    case False
    then show ?thesis using "4.prems"
      by (cases t) (auto simp: create_post_def create_element_node_def)
  next
    case True
    then obtain tg where tg: "t = Some tg" "tg \<noteq> []" "valid_element_name tg" by blast
    obtain n d1 where a: "alloc (ElementNode (ascii_lower tg)) (doc e) = (n, d1)" by fastforce
    have cen: "create_element_node tg (doc e) = Inr (n, d1)"
      using tg a by (simp add: create_element_node_def)
    let ?ap = "apply_props n ps d1"
    have nl: "node_local n d1 (exc_state ?ap)" by (rule apply_props_node_local)
    have wf1: "wf_dom d1" by (rule wf_alloc [OF "4.prems" a])
    have n: "next_ptr (doc e) \<le> n" using alloc_new(1) [OF a] by simp
    have gap: "grows (doc e) (exc_state ?ap)"
      using children_from_alloc(2) [OF "4.prems" a nl] by simp
    show ?thesis
    proof (cases ?ap)
      case (Inl x)
      then obtain err d2 where ap: "?ap = Inl (err, d2)" by (cases x) auto
      then show ?thesis
        using tg cen wf_node_local [OF wf1 nl] gap
        by (simp add: create_post_def)
    next
      case (Inr y)
      then obtain d2 where ap: "?ap = Inr ((), d2)" by (cases y) auto
      have pre: "children_pre n (e\<lparr>doc := d2\<rparr>)"
        using children_from_alloc(1) [OF "4.prems" a nl] ap by simp
      let ?cc = "create_children n cs (e\<lparr>doc := d2\<rparr>)"
      have post: "children_post n (e\<lparr>doc := d2\<rparr>) ?cc"
        using "4.IH" [OF tg(1,2) cen refl ap refl] pre by simp
      have res: "wf_dom (doc (exc_state ?cc))" "grows (doc e) (doc (exc_state ?cc))"
        using children_result [OF post, of "doc e"] gap ap n by simp_all
      have nd: "n \<in> dom (nodes (doc (exc_state ?cc)))"
        using post pre grows_at_dom [of n d2] by (simp add: children_post_def children_pre_def)
      show ?thesis using tg cen ap res nd post n
        by (auto simp: create_post_def children_post_def register_ref_def
            split: sum.splits prod.splits option.splits)
    qed
  qed
next
  case (5 e) then show ?case by (simp add: create_post_def)
next
  case (6 e) then show ?case by (simp add: create_post_def)
next
  case (7 b e) then show ?case by (simp add: create_post_def)
next
  case (8 h e) then show ?case by (simp add: create_post_def)
next
  case (9 p e) then show ?case by (simp add: children_pre_def children_post_def)
next
  case (10 p x xs e)
  have pre: "children_pre p e" by fact
  then have wf0: "wf_dom (doc e)" and pdom: "p \<in> dom (nodes (doc e))"
    and proot: "parent_of (doc e) p = None"
    by (simp_all add: children_pre_def)
  have pN: "p < next_ptr (doc e)" by (rule wf_below [OF wf0 pdom])
  have cp: "create_post e (create_element x e)" by (rule "10.IH"(1) [OF wf0])
  show ?case
  proof (cases "create_element x e")
    case (Inl ex)
    then show ?thesis using cp pN proot
      by (cases ex) (auto simp: create_post_def children_post_def grows_grows_at
          grows_parent_of)
  next
    case (Inr y)
    then obtain r e1 where ce: "create_element x e = Inr (r, e1)" by (cases y) auto
    have pre1: "children_pre p e1" and g1: "grows (doc e) (doc e1)"
      using children_pre_kept [OF pre cp ce] by simp_all
    show ?thesis
    proof (cases r)
      case None
      have "children_post p e1 (create_children p xs e1)"
        using "10.IH"(2) [OF ce [unfolded None] refl refl pre1] .
      then show ?thesis using ce None g1 pN
        by (auto simp: children_post_def intro: grows_grows_at_trans)
    next
      case (Some c)
      let ?d2 = "insert_node p c None (doc e1)"
      note ap = append_created [OF pre cp ce [unfolded Some]]
      have "children_post p (e1\<lparr>doc := ?d2\<rparr>) (create_children p xs (e1\<lparr>doc := ?d2\<rparr>))"
        using "10.IH"(3) [OF ce [unfolded Some] refl refl ap(1) refl ap(2)] .
      then show ?thesis using ce Some ap
        by (auto simp: children_post_def intro: grows_at_trans)
    qed
  qed
qed

end
