(* ===== verification/Engine_Props.thy ===== *)
theory Engine_Props
  imports Create_Frame
begin

text \<open>
  Frame and invariant lemmas for the three entry points of \<open>DOMGenerator\<close>
  (\<open>createElement\<close>, \<open>updateElement\<close>, \<open>render\<close>) and for the host operations they
  call: every one keeps \<open>wf_dom\<close> whether it returns or throws; the property patch of
  \<open>updateElement\<close> only edits the patched node; ancestor chains of existing nodes stay
  among existing nodes, so a node created later is never an ancestor of an older one (the
  hierarchy check of \<open>replaceChild\<close> passes for fresh nodes).
\<close>

definition parents_below :: "nat \<Rightarrow> dom \<Rightarrow> bool" where
  "parents_below N d \<longleftrightarrow> (\<forall>x q. x < N \<longrightarrow> parent_of d x = Some q \<longrightarrow> q < N)"

subsection \<open>Host operations keep the invariant\<close>

lemma wf_append_child [wf_rules]:
  "wf_dom d \<Longrightarrow> append_child p c d = Inr (c', d') \<Longrightarrow> wf_dom d'"
  by (auto simp: append_child_def insert_check_def intro: wf_insert_node split: option.splits if_splits)

lemma wf_remove_child [wf_rules]:
  "wf_dom d \<Longrightarrow> remove_child p c d = Inr (c', d') \<Longrightarrow> wf_dom d'"
  by (auto simp: remove_child_def intro: wf_detach split: if_splits)

lemma wf_replace_child [wf_rules]:
  assumes wf: "wf_dom d" and rc: "replace_child p c old d = Inr (old', d')"
  shows "wf_dom d'"
proof -
  from rc have p: "p \<in> dom (nodes d)" "c \<in> dom (nodes d)"
    and d': "\<exists>r. d' = insert_node p c r (detach old d)"
    by (auto simp: replace_child_def Let_def split: if_splits)
  then obtain r where "d' = insert_node p c r (detach old d)" by blast
  then show ?thesis using wf_insert_node [OF wf_detach [OF wf, of old], of p c r] p by simp
qed

subsection \<open>The property patch of \<open>updateElement\<close>\<close>

lemma patch_prop_node_local: "patch_prop n kv d = Inr d' \<Longrightarrow> node_local n d d'"
  by (auto simp: patch_prop_def set_class_name_def set_attribute_def
      split: prod.splits if_splits intro: node_local_update_node)

lemma patch_props_node_local: "node_local n d (exc_state (for_each (patch_prop n) ps d))"
  by (rule for_each_invariant [where I = "node_local n d"])
    (auto intro: node_local_trans patch_prop_node_local)

lemma patch_props_wf:
  "wf_dom d \<Longrightarrow> for_each (patch_prop n) ps d = r \<Longrightarrow> wf_dom (exc_state r)"
  using wf_node_local [OF _ patch_props_node_local] by blast

subsection \<open>The entry points keep the invariant\<close>

lemma create_element_wf: "wf_dom (doc e) \<Longrightarrow> wf_dom (doc (exc_state (create_element j e)))"
  using create_frame(1) by (simp add: create_post_def)

lemma create_element_grows: "wf_dom (doc e) \<Longrightarrow> grows (doc e) (doc (exc_state (create_element j e)))"
  using create_frame(1) by (simp add: create_post_def)

lemma create_element_new:
  "wf_dom (doc e) \<Longrightarrow> create_element j e = Inr (Some n, e') \<Longrightarrow>
     next_ptr (doc e) \<le> n \<and> n \<in> dom (nodes (doc e')) \<and> parent_of (doc e') n = None"
  using create_frame(1) [of e j] by (simp add: create_post_def)

lemma replace_with_new_wf:
  "wf_dom (doc e) \<Longrightarrow> wf_dom (doc (exc_state (replace_with_new j old p e)))"
  using create_element_wf [of e j]
  by (auto simp: replace_with_new_def intro: wf_replace_child
      split: sum.splits prod.splits option.splits live.splits)

lemma wf_exc_if:
  "wf_dom (doc (exc_state x)) \<Longrightarrow> wf_dom (doc (exc_state y)) \<Longrightarrow>
     wf_dom (doc (exc_state (if b then x else y)))"
  by simp

lemma update_element_wf:
  assumes wf: "wf_dom (doc e)"
  shows "wf_dom (doc (exc_state (update_element old j p e)))"
proof -
  have c: "wf_dom (doc (exc_state (create_element j e)))" by (rule create_element_wf [OF wf])
  have b1: "wf_dom (doc (exc_state (case create_element j e of
           Inl ex \<Rightarrow> Inl ex
         | Inr (None, e1) \<Rightarrow> Inl (TypeError, e1)
         | Inr (Some c, e1) \<Rightarrow>
            (case append_child p c (doc e1) of
               Inl err \<Rightarrow> Inl (err, e1)
             | Inr (c', d2) \<Rightarrow> Inr (LNode c', e1\<lparr>doc := d2\<rparr>)))))"
  proof (cases "create_element j e" rule: exc_cases)
    case (Exc err s)
    then show ?thesis using c by simp
  next
    case (Ret v s)
    then show ?thesis using c
      by (cases v; cases "append_child p (the v) (doc s)") (auto intro: wf_append_child)
  qed
  have b2: "wf_dom (doc (exc_state (case old of
           LNode m \<Rightarrow>
             (case remove_child p m (doc e) of
                Inl err \<Rightarrow> Inl (err, e)
              | Inr (m', d') \<Rightarrow> Inr (LNode m', e\<lparr>doc := d'\<rparr>))
         | _ \<Rightarrow> Inl (TypeError, e))))"
    using wf by (cases old; cases "remove_child p (case old of LNode m \<Rightarrow> m) (doc e)")
      (auto intro: wf_remove_child)
  have b3: "wf_dom (doc (exc_state (case old of
           LNode m \<Rightarrow>
             (case for_each (patch_prop m) (elem_props j) (doc e) of
                Inl (err, d') \<Rightarrow> Inl (err, e\<lparr>doc := d'\<rparr>)
              | Inr (_, d') \<Rightarrow> Inr (old, e\<lparr>doc := d'\<rparr>))
         | _ \<Rightarrow> Inr (old, e))))"
  proof (cases old)
    case (LNode m)
    have "wf_dom (exc_state (for_each (patch_prop m) (elem_props j) (doc e)))"
      using patch_props_wf [OF wf refl] .
    then show ?thesis using LNode
      by (cases "for_each (patch_prop m) (elem_props j) (doc e)" rule: exc_cases) auto
  qed (use wf in simp_all)
  have b4: "wf_dom (doc (exc_state (replace_with_new j old p e)))"
    by (rule replace_with_new_wf [OF wf])
  show ?thesis
    unfolding update_element_def by (intro wf_exc_if b1 b2 b3 b4)
qed

lemma render_wf:
  assumes wf: "wf_dom (doc e)"
  shows "wf_dom (doc (exc_state (render j c e)))"
proof (cases "create_element j e" rule: exc_cases)
  case (Exc err s)
  then show ?thesis using create_element_wf [OF wf, of j] by (simp add: render_def)
next
  case (Ret r e1)
  have w1: "wf_dom (doc e1)" using create_element_wf [OF wf, of j] Ret by simp
  have w2: "wf_dom (clear_children c (doc e1))" by (rule wf_clear_children [OF w1])
  show ?thesis
  proof (cases r)
    case None
    then show ?thesis using Ret w2 by (simp add: render_def)
  next
    case (Some n)
    then show ?thesis using Ret w2
      by (cases "append_child c n (clear_children c (doc e1))")
        (auto simp: render_def intro: wf_append_child)
  qed
qed

subsection \<open>Ancestors of old nodes\<close>

lemma ancestors_below:
  assumes pb: "parents_below N d"
  shows "p < N \<Longrightarrow> set (inclusive_ancestors k d p) \<subseteq> {..<N}"
proof (induction k arbitrary: p)
  case 0
  then show ?case by simp
next
  case (Suc k)
  show ?case
  proof (cases "parent_of d p")
    case None
    with Suc.prems show ?thesis by simp
  next
    case (Some q)
    with pb Suc.prems have "q < N" by (auto simp: parents_below_def)
    with Suc.IH Some Suc.prems show ?thesis by simp
  qed
qed

lemma parents_below_wf: "wf_dom d \<Longrightarrow> parents_below (next_ptr d) d"
  by (auto simp: parents_below_def intro: wf_parent_below)

lemma parents_below_grows: "wf_dom d \<Longrightarrow> grows d d' \<Longrightarrow> parents_below (next_ptr d) d'"
  using parents_below_wf [of d] by (auto simp: parents_below_def grows_parent_of)

lemma parents_below_clear:
  "parents_below N d \<Longrightarrow> parents_below N (clear_children c d)"
  by (auto simp: parents_below_def host_simps split: if_splits)

lemma fresh_not_ancestor:
  "parents_below N d \<Longrightarrow> p < N \<Longrightarrow> N \<le> c \<Longrightarrow> \<not> is_inclusive_ancestor d c p"
  using ancestors_below [of N d p "next_ptr d"] by (auto simp: is_inclusive_ancestor_def)

lemma alloc_parents_below:
  "wf_dom d \<Longrightarrow> alloc k d = (n, d') \<Longrightarrow> parents_below (next_ptr d) d'"
  by (rule parents_below_grows [OF _ alloc_grows])

lemma element_kind_of_tag:
  "tag_name d m = Some T \<Longrightarrow> \<exists>t nd. nodes d m = Some nd \<and> kind nd = ElementNode t"
  by (auto simp: tag_name_def kind_of_def split: option.splits node_kind.splits)

end
