(* ===== verification/Engine_Order.thy ===== *)
theory Engine_Order
  imports Engine_Props
begin

text \<open>
  Allocation order of the document: every node's parent was allocated before it
  (\<open>ptr_ordered\<close>, parent pointers decrease). \<open>createElement\<close>, \<open>updateElement\<close> and
  \<open>render\<close> keep this order, because they only ever hang a node created during the call
  (or the children of such a fragment) under a node that existed before it. On an
  ordered document the ancestor walk \<open>inclusive_ancestors\<close> of the host's hierarchy
  check, run with fuel \<open>next_ptr\<close>, always ends at a root rather than by exhausting its
  fuel, and computes exactly the reflexive-transitive closure of the parent relation.
\<close>

definition ptr_ordered :: "dom \<Rightarrow> bool" where
  "ptr_ordered d \<longleftrightarrow> (\<forall>x q. parent_of d x = Some q \<longrightarrow> q < x)"

lemma ptr_orderedD: "ptr_ordered d \<Longrightarrow> parent_of d x = Some q \<Longrightarrow> q < x"
  by (simp add: ptr_ordered_def)

lemma ptr_orderedI: "(\<And>x q. parent_of d x = Some q \<Longrightarrow> q < x) \<Longrightarrow> ptr_ordered d"
  by (simp add: ptr_ordered_def)

text \<open>On a well-formed document the order is a check of the allocated pointers.\<close>

lemma ptr_ordered_code:
  assumes "wf_dom d"
  shows "ptr_ordered d \<longleftrightarrow>
           list_all (\<lambda>x. case parent_of d x of None \<Rightarrow> True | Some q \<Rightarrow> q < x) [0..<next_ptr d]"
proof
  assume "ptr_ordered d"
  then show "list_all (\<lambda>x. case parent_of d x of None \<Rightarrow> True | Some q \<Rightarrow> q < x) [0..<next_ptr d]"
    by (auto simp: list_all_iff ptr_ordered_def split: option.splits)
next
  assume l: "list_all (\<lambda>x. case parent_of d x of None \<Rightarrow> True | Some q \<Rightarrow> q < x) [0..<next_ptr d]"
  show "ptr_ordered d"
  proof (rule ptr_orderedI)
    fix x q assume pq: "parent_of d x = Some q"
    have "x < next_ptr d" using wf_below [OF assms parent_of_allocated [OF pq]] .
    then have "case parent_of d x of None \<Rightarrow> True | Some q \<Rightarrow> q < x"
      using l by (simp add: list_all_iff)
    then show "q < x" using pq by simp
  qed
qed

subsection \<open>The host operations and the order\<close>

lemma ordered_alloc: "ptr_ordered d \<Longrightarrow> alloc k d = (n, d') \<Longrightarrow> ptr_ordered d'"
  using alloc_facts(3) [of k d n d']
  by (auto simp: ptr_ordered_def parent_of_def new_node_def split: if_splits)

lemma ordered_node_local: "node_local n d d' \<Longrightarrow> ptr_ordered d \<Longrightarrow> ptr_ordered d'"
  by (simp add: node_local_def ptr_ordered_def)

lemma ordered_detach: "ptr_ordered d \<Longrightarrow> ptr_ordered (detach c d)"
  by (auto simp: ptr_ordered_def host_simps)

lemma ordered_clear: "ptr_ordered d \<Longrightarrow> ptr_ordered (clear_children c d)"
  by (auto simp: ptr_ordered_def host_simps split: if_splits)

lemma children_of_detach_subset: "set (children_of (detach m d) x) \<subseteq> set (children_of d x)"
  by (cases "parent_of d m") (auto simp: host_simps dest: set_remove1_subset [THEN subsetD])

lemma ordered_insert:
  assumes o: "ptr_ordered d" and pc: "p < c" and ch: "\<forall>y\<in>set (children_of d c). p < y"
  shows "ptr_ordered (insert_node p c r d)"
proof (cases "kind_of d c = Some FragmentNode")
  case True
  then show ?thesis using o ch
    by (auto simp: ptr_ordered_def insert_node_fragment_facts)
next
  case False
  then show ?thesis using o pc
    by (auto simp: ptr_ordered_def insert_node_plain_facts host_simps)
qed

text \<open>Hanging a node created after \<open>d0\<close> under a node of \<open>d0\<close> keeps the order.\<close>

lemma ordered_insert_new:
  assumes wf0: "wf_dom d0" and wf1: "wf_dom d1" and g: "grows d0 d1"
    and p: "p < next_ptr d0" and c: "next_ptr d0 \<le> c"
    and o: "ptr_ordered d" and sub: "set (children_of d c) \<subseteq> set (children_of d1 c)"
  shows "ptr_ordered (insert_node p c r d)"
proof (rule ordered_insert [OF o])
  show "p < c" using p c by simp
  show "\<forall>y\<in>set (children_of d c). p < y"
    using sub children_of_new_node [OF wf0 wf1 g c] p by fastforce
qed

subsection \<open>\<open>createElement\<close> keeps the order\<close>

lemma create_ordered:
  shows "wf_dom (doc e) \<Longrightarrow> ptr_ordered (doc e) \<Longrightarrow>
           ptr_ordered (doc (exc_state (create_element j e)))"
    and "children_pre p e \<Longrightarrow> ptr_ordered (doc e) \<Longrightarrow>
           ptr_ordered (doc (exc_state (create_children p xs e)))"
proof (induction j e and p xs e rule: create_element_create_children.induct)
  case (1 s e)
  obtain n d where a: "alloc (TextNode s) (doc e) = (n, d)" by fastforce
  then show ?case using ordered_alloc [OF "1.prems"(2) a] by (simp add: create_text_node_def)
next
  case (2 i e)
  obtain n d where a: "alloc (TextNode (string_of_int i)) (doc e) = (n, d)" by fastforce
  then show ?case using ordered_alloc [OF "2.prems"(2) a] by (simp add: create_text_node_def)
next
  case (3 xs e)
  obtain f d where a: "alloc FragmentNode (doc e) = (f, d)" by fastforce
  have pre: "children_pre f (e\<lparr>doc := d\<rparr>)"
    using children_from_alloc(1) [OF "3.prems"(1) a node_local_refl] by simp
  have ih: "ptr_ordered (doc (exc_state (create_children f xs (e\<lparr>doc := d\<rparr>))))"
    using "3.IH" [of f d] a pre ordered_alloc [OF "3.prems"(2) a]
    by (simp add: create_document_fragment_def)
  have "create_element (JArr xs) e =
      (case create_children f xs (e\<lparr>doc := d\<rparr>) of Inl ex \<Rightarrow> Inl ex | Inr (_, e') \<Rightarrow> Inr (Some f, e'))"
    using a by (simp add: create_document_fragment_def)
  then show ?case using ih by (auto split: sum.split_asm)
next
  case (4 t ps cs r e)
  show ?case
  proof (cases "\<exists>tg. t = Some tg \<and> tg \<noteq> []")
    case False
    then show ?thesis using "4.prems" by (cases t) auto
  next
    case True
    then obtain tg where tg: "t = Some tg" "tg \<noteq> []" by blast
    show ?thesis
    proof (cases "create_element_node tg (doc e)")
      case (Inl err)
      then show ?thesis using tg "4.prems" by simp
    next
      case (Inr nd1)
      then obtain n d1 where cen: "create_element_node tg (doc e) = Inr (n, d1)" by (cases nd1) auto
      have a: "alloc (ElementNode (ascii_lower tg)) (doc e) = (n, d1)"
        using cen by (auto simp: create_element_node_def split: if_splits)
      have o1: "ptr_ordered (exc_state (apply_props n ps d1))"
        using ordered_node_local [OF apply_props_node_local ordered_alloc [OF "4.prems"(2) a]] .
      show ?thesis
      proof (cases "apply_props n ps d1" rule: exc_cases)
        case (Exc err d2)
        then show ?thesis using tg cen o1 by simp
      next
        case (Ret u d2)
        have pre: "children_pre n (e\<lparr>doc := d2\<rparr>)"
          using children_from_alloc(1) [OF "4.prems"(1) a apply_props_node_local [of n d1 ps]] Ret
          by simp
        have ih: "ptr_ordered (doc (exc_state (create_children n cs (e\<lparr>doc := d2\<rparr>))))"
          using "4.IH" [OF tg cen refl Ret [unfolded unit_eq [of u]] refl] pre o1 Ret by simp
        have "create_element (JObj t ps cs r) e =
            (case create_children n cs (e\<lparr>doc := d2\<rparr>) of
               Inl ex \<Rightarrow> Inl ex | Inr (_, e3) \<Rightarrow> Inr (Some n, register_ref r n e3))"
          using tg cen Ret by (simp add: unit_eq [of u])
        then show ?thesis using ih by (auto split: sum.split_asm)
      qed
    qed
  qed
next
  case (5 e) then show ?case by simp
next
  case (6 e) then show ?case by simp
next
  case (7 b e) then show ?case by simp
next
  case (8 h e) then show ?case by simp
next
  case (9 p e) then show ?case by simp
next
  case (10 p x xs e)
  have pre: "children_pre p e" by fact
  then have wf0: "wf_dom (doc e)" and pdom: "p \<in> dom (nodes (doc e))"
    by (simp_all add: children_pre_def)
  have cp: "create_post e (create_element x e)" by (rule create_frame(1) [OF wf0])
  have o1: "ptr_ordered (doc (exc_state (create_element x e)))"
    by (rule "10.IH"(1) [OF wf0 "10.prems"(2)])
  show ?case
  proof (cases "create_element x e" rule: exc_cases)
    case (Exc err e1)
    then show ?thesis using o1 by simp
  next
    case (Ret r e1)
    have pre1: "children_pre p e1" using children_pre_kept(1) [OF pre cp Ret] .
    show ?thesis
    proof (cases r)
      case None
      then show ?thesis using "10.IH"(2) [OF Ret [unfolded None] refl refl pre1] o1 Ret by simp
    next
      case (Some c)
      let ?d2 = "insert_node p c None (doc e1)"
      note ap = append_created [OF pre cp Ret [unfolded Some]]
      have post: "wf_dom (doc e1)" "grows (doc e) (doc e1)" "next_ptr (doc e) \<le> c"
        using cp Ret Some by (simp_all add: create_post_def)
      have o2: "ptr_ordered ?d2"
        using ordered_insert_new [OF wf0 post(1,2) wf_below [OF wf0 pdom] post(3)] o1 Ret by simp
      show ?thesis
        using "10.IH"(3) [OF Ret [unfolded Some] refl refl ap(1) refl ap(2)] o2 Ret Some ap(1)
        by simp
    qed
  qed
qed

subsection \<open>\<open>updateElement\<close> and \<open>render\<close> keep the order\<close>

text \<open>Inserting the node a call of \<open>createElement\<close> returned under a node that existed
  before the call, into a document derived from the call's result by removals.\<close>

lemma ordered_attach_created:
  assumes wf: "wf_dom (doc e)" and p: "p \<in> dom (nodes (doc e))"
    and ce: "create_element j e = Inr (Some c, e1)"
    and od: "ptr_ordered d" and sub: "set (children_of d c) \<subseteq> set (children_of (doc e1) c)"
  shows "ptr_ordered (insert_node p c r d)"
proof -
  have post: "wf_dom (doc e1)" "grows (doc e) (doc e1)" "next_ptr (doc e) \<le> c"
    using create_frame(1) [OF wf, of j] ce by (simp_all add: create_post_def)
  show ?thesis by (rule ordered_insert_new [OF wf post(1,2) wf_below [OF wf p] post(3) od sub])
qed

lemma replace_with_new_ordered:
  assumes wf: "wf_dom (doc e)" and o: "ptr_ordered (doc e)" and p: "p \<in> dom (nodes (doc e))"
  shows "ptr_ordered (doc (exc_state (replace_with_new j old p e)))"
proof (cases "create_element j e" rule: exc_cases)
  case (Exc err e1)
  then show ?thesis using create_ordered(1) [OF wf o, of j] by (simp add: replace_with_new_def)
next
  case (Ret r e1)
  have o1: "ptr_ordered (doc e1)" using create_ordered(1) [OF wf o, of j] Ret by simp
  show ?thesis
  proof (cases "\<exists>c m. r = Some c \<and> old = LNode m")
    case False
    then show ?thesis using Ret o1
      by (cases r; cases old) (auto simp: replace_with_new_def)
  next
    case True
    then obtain c m where cm: "r = Some c" "old = LNode m" by blast
    have ins: "ptr_ordered (insert_node p c q (detach m (doc e1)))" for q
      using ordered_attach_created [OF wf p Ret [unfolded cm(1)] ordered_detach [OF o1]
          children_of_detach_subset] .
    show ?thesis using Ret cm o1 ins
      by (auto simp: replace_with_new_def replace_child_def Let_def split: sum.splits)
  qed
qed

lemma update_element_ordered:
  assumes wf: "wf_dom (doc e)" and o: "ptr_ordered (doc e)" and p: "p \<in> dom (nodes (doc e))"
  shows "ptr_ordered (doc (exc_state (update_element old j p e)))"
proof -
  have b1: "ptr_ordered (doc (exc_state (case create_element j e of
           Inl ex \<Rightarrow> Inl ex
         | Inr (None, e1) \<Rightarrow> Inl (TypeError, e1)
         | Inr (Some c, e1) \<Rightarrow>
            (case append_child p c (doc e1) of
               Inl err \<Rightarrow> Inl (err, e1)
             | Inr (c', d2) \<Rightarrow> Inr (LNode c', e1\<lparr>doc := d2\<rparr>)))))"
  proof (cases "create_element j e" rule: exc_cases)
    case (Exc err e1)
    then show ?thesis using create_ordered(1) [OF wf o, of j] by simp
  next
    case (Ret r e1)
    have o1: "ptr_ordered (doc e1)" using create_ordered(1) [OF wf o, of j] Ret by simp
    show ?thesis
    proof (cases r)
      case None
      then show ?thesis using Ret o1 by simp
    next
      case (Some c)
      have "ptr_ordered (insert_node p c None (doc e1))"
        using ordered_attach_created [OF wf p Ret [unfolded Some] o1 subset_refl] .
      then show ?thesis using Ret Some o1
        by (auto simp: append_child_def split: option.splits)
    qed
  qed
  have b2: "ptr_ordered (doc (exc_state (case old of
           LNode m \<Rightarrow>
             (case remove_child p m (doc e) of
                Inl err \<Rightarrow> Inl (err, e)
              | Inr (m', d') \<Rightarrow> Inr (LNode m', e\<lparr>doc := d'\<rparr>))
         | _ \<Rightarrow> Inl (TypeError, e))))"
    using o ordered_detach [OF o]
    by (cases old) (auto simp: remove_child_def)
  have b3: "ptr_ordered (doc (exc_state (case old of
           LNode m \<Rightarrow>
             (case for_each (patch_prop m) (elem_props j) (doc e) of
                Inl (err, d') \<Rightarrow> Inl (err, e\<lparr>doc := d'\<rparr>)
              | Inr (_, d') \<Rightarrow> Inr (old, e\<lparr>doc := d'\<rparr>))
         | _ \<Rightarrow> Inr (old, e))))"
  proof (cases old)
    case (LNode m)
    have "ptr_ordered (exc_state (for_each (patch_prop m) (elem_props j) (doc e)))"
      by (rule ordered_node_local [OF patch_props_node_local o])
    then show ?thesis using LNode
      by (cases "for_each (patch_prop m) (elem_props j) (doc e)" rule: exc_cases) auto
  qed (use o in simp_all)
  have b4: "ptr_ordered (doc (exc_state (replace_with_new j old p e)))"
    by (rule replace_with_new_ordered [OF wf o p])
  show ?thesis
    unfolding update_element_def using b1 b2 b3 b4 by simp
qed

lemma render_ordered:
  assumes wf: "wf_dom (doc e)" and o: "ptr_ordered (doc e)" and c: "c \<in> dom (nodes (doc e))"
  shows "ptr_ordered (doc (exc_state (render j c e)))"
proof (cases "create_element j e" rule: exc_cases)
  case (Exc err e1)
  then show ?thesis using create_ordered(1) [OF wf o, of j] by (simp add: render_def)
next
  case (Ret r e1)
  have o2: "ptr_ordered (clear_children c (doc e1))"
    using ordered_clear create_ordered(1) [OF wf o, of j] Ret by simp
  show ?thesis
  proof (cases r)
    case None
    then show ?thesis using Ret o2 by (simp add: render_def)
  next
    case (Some n)
    have "set (children_of (clear_children c (doc e1)) n) \<subseteq> set (children_of (doc e1) n)"
      by (simp add: host_simps)
    then have "ptr_ordered (insert_node c n None (clear_children c (doc e1)))"
      using ordered_attach_created [OF wf c Ret [unfolded Some] o2] by blast
    then show ?thesis using Ret Some o2
      by (auto simp: render_def append_child_def Let_def split: option.splits)
  qed
qed

subsection \<open>The ancestor walk on an ordered document\<close>

text \<open>Each step of the walk goes to a smaller pointer, so fuel above the start pointer is
  never exhausted: the walk stops at a parentless node, and it has visited exactly the
  nodes reachable by parent links.\<close>

lemma ancestors_walk:
  assumes o: "ptr_ordered d"
  shows "x < k \<Longrightarrow> inclusive_ancestors k d x \<noteq> [] \<and>
           parent_of d (last (inclusive_ancestors k d x)) = None \<and>
           set (inclusive_ancestors k d x) = {a. (x, a) \<in> {(y, q). parent_of d y = Some q}\<^sup>*}"
proof (induction k arbitrary: x)
  case 0
  then show ?case by simp
next
  case (Suc k)
  let ?R = "{(y, q). parent_of d y = Some q}"
  show ?case
  proof (cases "parent_of d x")
    case None
    have "{a. (x, a) \<in> ?R\<^sup>*} = {x}"
      using None by (auto elim: converse_rtranclE)
    then show ?thesis using None by simp
  next
    case (Some q)
    have qk: "q < k" using ptr_orderedD [OF o Some] Suc.prems by simp
    have "{a. (x, a) \<in> ?R\<^sup>*} = insert x {a. (q, a) \<in> ?R\<^sup>*}"
      using Some by (auto elim: converse_rtranclE intro: converse_rtrancl_into_rtrancl)
    then show ?thesis using Suc.IH [OF qk] Some by simp
  qed
qed

end
