(* ===== verification/Examples.thy ===== *)
theory Examples
  imports Engine_Order
begin

text \<open>
  Concrete documents used to instantiate the properties: the page the program renders
  into (\<open><div id="app"></div>\<close>, node 0 of an empty document) and the same page after
  rendering a list into it. The lemma bundle \<open>eval_defs\<close> lets \<open>simp\<close> evaluate the
  engine on them.
\<close>

definition empty_dom :: dom where
  "empty_dom = \<lparr>nodes = Map.empty, next_ptr = 0\<rparr>"

definition app_engine :: engine where
  "app_engine = \<lparr>doc = snd (alloc (ElementNode ''div'') empty_dom), refs = Map.empty\<rparr>"

definition list_engine :: engine where
  "list_engine = exc_state (render (JObj (Some ''ul'') [] [JStr ''a''] None) 0 app_engine)"

lemmas eval_defs = app_engine_def list_engine_def empty_dom_def alloc_def new_node_def render_def
  create_text_node_def create_document_fragment_def create_element_node_def
  valid_element_name_def valid_attribute_name_def name_forbidden_char_def is_ascii_alpha_def
  is_ascii_whitespace_def ascii_lower_def ascii_lower_char_def ascii_upper_def ascii_upper_char_def
  apply_props_def apply_prop_def patch_prop_def starts_with_def set_attribute_def set_class_name_def
  add_event_listener_def assign_style_def update_node_def node_set_attribute_def
  node_set_class_name_def node_add_event_listener_def node_assign_style_def register_ref_def
  append_child_def remove_child_def replace_child_def insert_check_def insert_node_def
  accepts_children_def kind_of_def children_of_def parent_of_def is_inclusive_ancestor_def
  detach_def set_children_def set_parent_def map_node_def clear_children_def splice_before_def
  tag_name_def update_element_def replace_with_new_def attrs_of_def

text \<open>A call evaluated by \<open>code_simp\<close> to a returned node, read back as an equation.\<close>

lemma returns_node:
  "(case r of Inr (Some n, _) \<Rightarrow> n = k | _ \<Rightarrow> False) \<Longrightarrow> r = Inr (Some k, exc_state r)"
  by (auto split: sum.splits option.splits prod.splits)

lemma throws_error:
  "(case r of Inl (err, _) \<Rightarrow> err = x | _ \<Rightarrow> False) \<Longrightarrow> r = Inl (x, exc_state r)"
  by (auto split: sum.splits prod.splits)

lemma wf_empty_dom: "wf_dom empty_dom"
  by (simp add: wf_dom_def empty_dom_def children_of_def parent_of_def)

lemma wf_app_engine: "wf_dom (doc app_engine)"
  using wf_alloc [OF wf_empty_dom prod.collapse [symmetric]] by (simp add: app_engine_def)

lemma wf_list_engine: "wf_dom (doc list_engine)"
  unfolding list_engine_def by (rule render_wf [OF wf_app_engine])

lemma app_engine_facts:
  "tag_name (doc app_engine) 0 = Some ''DIV''" "accepts_children (doc app_engine) 0"
  "0 \<in> dom (nodes (doc app_engine))" "parent_of (doc app_engine) 0 = None"
  "next_ptr (doc app_engine) = 1"
  by code_simp+

lemma list_engine_facts:
  "parent_of (doc list_engine) 1 = Some 0" "children_of (doc list_engine) 0 = [1]"
  "accepts_children (doc list_engine) 0" "next_ptr (doc list_engine) = 3"
  "parent_of (doc list_engine) 2 = Some 1" "accepts_children (doc list_engine) 1"
  by code_simp+

lemma ordered_app_engine: "ptr_ordered (doc app_engine)"
  unfolding ptr_ordered_code [OF wf_app_engine] by code_simp

lemma ordered_list_engine: "ptr_ordered (doc list_engine)"
  unfolding ptr_ordered_code [OF wf_list_engine] by code_simp

end
