(* ===== verification/Engine_Liveness.thy ===== *)
theory Engine_Liveness
  imports Engine_Props
begin

text \<open>
  When the engine returns. \<open>createElement\<close> only throws where the host rejects
  something: an element name (\<open>document.createElement\<close>), an attribute name
  (\<open>setAttribute\<close>) or a listener that is not an object (\<open>addEventListener\<close>); appending
  a created node to its fresh parent never fails. \<open>valid_desc\<close> says that a description
  avoids the three, and on such descriptions \<open>createElement\<close> and \<open>render\<close> return.
\<close>

text \<open>Values \<open>addEventListener\<close> accepts as a callback.\<close>

fun listener_value_ok :: "pval \<Rightarrow> bool" where
  "listener_value_ok PNull = True"
| "listener_value_ok PUndef = True"
| "listener_value_ok (PFun _) = True"
| "listener_value_ok (PObj _) = True"
| "listener_value_ok _ = False"

text \<open>A property the switch of \<open>createElement\<close> applies without an exception.\<close>

definition valid_prop :: "string \<times> pval \<Rightarrow> bool" where
  "valid_prop kv =
     (case kv of (k, v) \<Rightarrow>
        if k = ''className'' then True
        else if k = ''onclick'' \<or> starts_with ''on'' k then listener_value_ok v
        else if k = ''style'' \<and> js_is_object v then True
        else (case v of PBool False \<Rightarrow> True | _ \<Rightarrow> valid_attribute_name k))"

fun valid_desc :: "jelem \<Rightarrow> bool"
and valid_descs :: "jelem list \<Rightarrow> bool" where
  "valid_desc (JArr xs) = valid_descs xs"
| "valid_desc (JObj t ps cs r) =
     (case t of
        None \<Rightarrow> True
      | Some tg \<Rightarrow> tg = [] \<or> (valid_element_name tg \<and> list_all valid_prop ps \<and> valid_descs cs))"
| "valid_desc _ = True"
| "valid_descs [] = True"
| "valid_descs (x # xs) = (valid_desc x \<and> valid_descs xs)"

subsection \<open>Properties\<close>

lemma apply_prop_total:
  assumes k: "kind_of d n = Some (ElementNode t)" and v: "valid_prop kv"
  shows "\<exists>d'. apply_prop n kv d = Inr d'"
proof -
  obtain nd where nd: "nodes d n = Some nd" "kind nd = ElementNode t"
    using k by (auto simp: kind_of_def)
  obtain key v where kv: "kv = (key, v)" by fastforce
  show ?thesis
    using nd v
    by (cases v) (auto simp: kv apply_prop_def valid_prop_def set_class_name_def set_attribute_def
        add_event_listener_def assign_style_def update_node_def node_set_attribute_def
        node_add_event_listener_def node_assign_style_def Let_def split: pval.splits if_splits)
qed

lemma apply_props_total:
  "kind_of d n = Some (ElementNode t) \<Longrightarrow> list_all valid_prop ps \<Longrightarrow>
     \<exists>d'. apply_props n ps d = Inr ((), d')"
proof (induction ps arbitrary: d)
  case Nil
  then show ?case by (simp add: apply_props_def)
next
  case (Cons kv ps)
  have "valid_prop kv" using Cons.prems(2) by simp
  then obtain d1 where d1: "apply_prop n kv d = Inr d1"
    using apply_prop_total [OF Cons.prems(1)] by blast
  have "kind_of d1 n = Some (ElementNode t)"
    using apply_prop_node_local [OF d1] Cons.prems(1) by (simp add: node_local_def)
  then obtain d' where "apply_props n ps d1 = Inr ((), d')"
    using Cons.IH Cons.prems(2) by auto
  then show ?case using d1 by (simp add: apply_props_def)
qed

lemma create_total:
  shows "wf_dom (doc e) \<Longrightarrow> valid_desc j \<Longrightarrow> \<exists>r e'. create_element j e = Inr (r, e')"
    and "children_pre p e \<Longrightarrow> valid_descs xs \<Longrightarrow> \<exists>e'. create_children p xs e = Inr ((), e')"
proof (induction j e and p xs e rule: create_element_create_children.induct)
  case (1 s e) then show ?case by (simp add: create_text_node_def split: prod.splits)
next
  case (2 i e) then show ?case by (simp add: create_text_node_def split: prod.splits)
next
  case (3 xs e)
  obtain f d where a: "alloc FragmentNode (doc e) = (f, d)" by fastforce
  have pre: "children_pre f (e\<lparr>doc := d\<rparr>)"
    using children_from_alloc(1) [OF "3.prems"(1) a node_local_refl] by simp
  obtain e' where "create_children f xs (e\<lparr>doc := d\<rparr>) = Inr ((), e')"
    using "3.IH" [of f d] a pre "3.prems"(2) by (auto simp: create_document_fragment_def)
  then show ?case using a by (simp add: create_document_fragment_def)
next
  case (4 t ps cs r e)
  show ?case
  proof (cases "\<exists>tg. t = Some tg \<and> tg \<noteq> []")
    case False
    then show ?thesis by (cases t) auto
  next
    case True
    then obtain tg where tg: "t = Some tg" "tg \<noteq> []" by blast
    have v: "valid_element_name tg" "list_all valid_prop ps" "valid_descs cs"
      using "4.prems"(2) tg by simp_all
    obtain n d1 where a: "alloc (ElementNode (ascii_lower tg)) (doc e) = (n, d1)" by fastforce
    have cen: "create_element_node tg (doc e) = Inr (n, d1)"
      using v(1) a by (simp add: create_element_node_def)
    have k: "kind_of d1 n = Some (ElementNode (ascii_lower tg))" using alloc_new(4) [OF a] .
    obtain d2 where ap: "apply_props n ps d1 = Inr ((), d2)"
      using apply_props_total [OF k v(2)] by blast
    have nl: "node_local n d1 d2" using apply_props_node_local [of n d1 ps] ap by simp
    have pre: "children_pre n (e\<lparr>doc := d2\<rparr>)"
      using children_from_alloc(1) [OF "4.prems"(1) a nl] by simp
    obtain e3 where "create_children n cs (e\<lparr>doc := d2\<rparr>) = Inr ((), e3)"
      using "4.IH" [OF tg cen refl ap refl pre v(3)] by blast
    then show ?thesis using tg cen ap by simp
  qed
next
  case (5 e) then show ?case by simp
next
  case (6 e) then show ?case by simp
next
  case (7 b e) then show ?case by simp
next
  case (8 h e) then show ?case by simp
next
  case (9 p e) then show ?case by simp
next
  case (10 p x xs e)
  have pre: "children_pre p e" and vx: "valid_desc x" and vxs: "valid_descs xs"
    using "10.prems" by simp_all
  have wf0: "wf_dom (doc e)" using pre by (simp add: children_pre_def)
  have cp: "create_post e (create_element x e)" by (rule create_frame(1) [OF wf0])
  obtain r e1 where ce: "create_element x e = Inr (r, e1)"
    using "10.IH"(1) [OF wf0 vx] by blast
  show ?case
  proof (cases r)
    case None
    have "children_pre p e1" using children_pre_kept(1) [OF pre cp ce] .
    then show ?thesis using "10.IH"(2) [OF ce [unfolded None] refl refl] vxs ce None by simp
  next
    case (Some c)
    note ap = append_created [OF pre cp ce [unfolded Some]]
    obtain e' where "create_children p xs (e1\<lparr>doc := insert_node p c None (doc e1)\<rparr>) = Inr ((), e')"
      using "10.IH"(3) [OF ce [unfolded Some] refl refl ap(1) refl ap(2) vxs] by blast
    then show ?thesis using ce Some ap(1) by simp
  qed
qed

subsection \<open>Render\<close>

text \<open>What \<open>render\<close> starts from once the new tree exists: the container is an old
  node, still in the document and accepting children, and the created node is new.\<close>

lemma render_setup:
  assumes wf: "wf_dom (doc e)" and c: "c \<in> dom (nodes (doc e))"
    and ce: "create_element j e = Inr (r, e1)"
  shows "wf_dom (doc e1)" and "grows (doc e) (doc e1)" and "c < next_ptr (doc e)"
    and "c \<in> dom (nodes (doc e1))" and "accepts_children (doc e1) c = accepts_children (doc e) c"
    and "children_of (doc e1) c = children_of (doc e) c"
    and "parents_below (next_ptr (doc e)) (doc e1)"
proof -
  show w1: "wf_dom (doc e1)" using create_element_wf [OF wf, of j] ce by simp
  show g: "grows (doc e) (doc e1)" using create_element_grows [OF wf, of j] ce by simp
  show cN: "c < next_ptr (doc e)" by (rule wf_below [OF wf c])
  show "c \<in> dom (nodes (doc e1))" using g cN c by (simp add: grows_dom)
  show "accepts_children (doc e1) c = accepts_children (doc e) c"
    using g cN by (simp add: accepts_children_def grows_kind_of)
  show "children_of (doc e1) c = children_of (doc e) c"
    using g cN by (simp add: grows_def children_of_def)
  show "parents_below (next_ptr (doc e)) (doc e1)" by (rule parents_below_grows [OF wf g])
qed

lemma render_append:
  assumes wf: "wf_dom (doc e)" and c: "c \<in> dom (nodes (doc e))" "accepts_children (doc e) c"
    and ce: "create_element j e = Inr (Some n, e1)"
  shows "append_child c n (clear_children c (doc e1)) =
           Inr (n, insert_node c n None (clear_children c (doc e1)))"
proof -
  note s = render_setup [OF wf c(1) ce]
  have n: "next_ptr (doc e) \<le> n" "n \<in> dom (nodes (doc e1))"
    using create_element_new [OF wf ce] by simp_all
  have "\<not> is_inclusive_ancestor (clear_children c (doc e1)) n c"
    using fresh_not_ancestor [OF parents_below_clear [OF s(7)] s(3) n(1)] .
  moreover have "nodes (clear_children c (doc e1)) c \<noteq> None"
    "nodes (clear_children c (doc e1)) n \<noteq> None"
    using s(4) n(2) clear_children_facts(2) [of c "doc e1"] by (blast dest: domD)+
  moreover have "accepts_children (clear_children c (doc e1)) c"
    using s(5) c(2) by (simp add: accepts_children_def)
  ultimately show ?thesis
    by (simp add: append_child_def insert_check_def)
qed

lemma render_total:
  assumes wf: "wf_dom (doc e)" and c: "c \<in> dom (nodes (doc e))" "accepts_children (doc e) c"
    and v: "valid_desc j"
  shows "\<exists>e'. render j c e = Inr ((), e')"
proof -
  obtain r e1 where ce: "create_element j e = Inr (r, e1)" using create_total(1) [OF wf v] by blast
  show ?thesis
  proof (cases r)
    case None
    then show ?thesis using ce by (simp add: render_def)
  next
    case (Some n)
    then show ?thesis using render_append [OF wf c ce [unfolded Some]] ce by (simp add: render_def)
  qed
qed

text \<open>After a \<open>render\<close> that returns, the container's former children are detached
  and each of its children is a node created by this call.\<close>

lemma render_replaces_children:
  assumes wf: "wf_dom (doc e)" and c: "c \<in> dom (nodes (doc e))"
    and rr: "render j c e = Inr ((), e')"
  shows "(\<forall>x \<in> set (children_of (doc e) c). parent_of (doc e') x = None) \<and>
         (\<forall>y \<in> set (children_of (doc e') c). next_ptr (doc e) \<le> y)"
proof -
  obtain r e1 where ce: "create_element j e = Inr (r, e1)"
    using rr by (cases "create_element j e" rule: exc_cases) (auto simp: render_def)
  note s = render_setup [OF wf c ce]
  let ?N = "next_ptr (doc e)" and ?d2 = "clear_children c (doc e1)"
  have old_below: "x < ?N" if "x \<in> set (children_of (doc e) c)" for x
    using wf_child_below [OF wf that] .
  have cleared: "parent_of ?d2 x = None" if "x \<in> set (children_of (doc e) c)" for x
    using that s(6) by (simp add: host_simps)
  show ?thesis
  proof (cases r)
    case None
    then have "e' = e1\<lparr>doc := ?d2\<rparr>" using rr ce by (simp add: render_def)
    then show ?thesis using cleared by (simp add: host_simps)
  next
    case (Some n)
    have n: "?N \<le> n" "parent_of (doc e1) n = None"
      using create_element_new [OF wf ce [unfolded Some]] by simp_all
    have e': "e' = e1\<lparr>doc := insert_node c n None ?d2\<rparr>"
      using rr ce Some
      by (auto simp: render_def append_child_def Let_def split: sum.splits option.splits)
    have cn: "c \<noteq> n" using s(3) n(1) by simp
    have fresh: "?N \<le> y" if "y \<in> set (children_of ?d2 n)" for y
      using children_of_new_node [OF wf s(1,2) n(1)] that cn by (simp add: host_simps)
    have pn: "parent_of ?d2 n = None"
      using n(2) by (simp add: host_simps)
    show ?thesis
    proof (cases "kind_of ?d2 n = Some FragmentNode")
      case True
      have "x \<notin> set (children_of ?d2 n)" if "x \<in> set (children_of (doc e) c)" for x
        using fresh old_below [OF that] by fastforce
      moreover have "children_of ?d2 c = []" by (simp add: host_simps)
      ultimately show ?thesis
        using e' fresh cleared
        by (auto simp: insert_node_fragment_facts [OF True] simp del: children_of_clear_children)
    next
      case False
      have "n \<notin> set (children_of (doc e) c)" using old_below n(1) by fastforce
      then show ?thesis
        using e' cleared n(1) cn pn
        by (auto simp: insert_node_plain_facts [OF False] host_simps splice_before_def)
    qed
  qed
qed

end
