(* ===== verification/Engine_Bounds.thy ===== *)
theory Engine_Bounds
  imports Create_Frame
begin

text \<open>
  Which node \<open>createElement\<close> returns, and how many nodes it allocates. \<open>desc_size j\<close> counts the nodes the
  description stands for: one per string or number, one per array (its fragment) and one
  per tagged object with a non-empty tag, with their children; the values rendered as
  nothing count zero. A call that returns allocates exactly that many nodes, one that
  throws at most that many.
\<close>

fun desc_size :: "jelem \<Rightarrow> nat"
and descs_size :: "jelem list \<Rightarrow> nat" where
  "desc_size (JStr _) = 1"
| "desc_size (JNum _) = 1"
| "desc_size (JArr xs) = Suc (descs_size xs)"
| "desc_size (JObj t ps cs r) =
     (case t of None \<Rightarrow> 0 | Some tg \<Rightarrow> if tg = [] then 0 else Suc (descs_size cs))"
| "desc_size _ = 0"
| "descs_size [] = 0"
| "descs_size (x # xs) = desc_size x + descs_size xs"

text \<open>The kind of node a description stands for: the type switch at the top of
  \<open>createElement\<close> (text for strings and numbers, a fragment for arrays, an element
  named by the lower-cased tag for tagged objects, nothing for the rest).\<close>

fun desc_kind :: "jelem \<Rightarrow> node_kind option" where
  "desc_kind (JStr s) = Some (TextNode s)"
| "desc_kind (JNum i) = Some (TextNode (string_of_int i))"
| "desc_kind (JArr _) = Some FragmentNode"
| "desc_kind (JObj t _ _ _) =
     (case t of None \<Rightarrow> None | Some tg \<Rightarrow> if tg = [] then None else Some (ElementNode (ascii_lower tg)))"
| "desc_kind _ = None"

definition allocates :: "nat \<Rightarrow> engine \<Rightarrow> ('e, 'a, engine) exc \<Rightarrow> bool" where
  "allocates k e res \<longleftrightarrow>
     next_ptr (doc (exc_state res)) \<le> next_ptr (doc e) + k \<and>
     (\<forall>v e'. res = Inr (v, e') \<longrightarrow> next_ptr (doc e') = next_ptr (doc e) + k)"

lemma apply_props_next_ptr: "next_ptr (exc_state (apply_props n ps d)) = next_ptr d"
  using apply_props_node_local [of n d ps] by (simp add: node_local_def)

lemma create_allocates:
  shows "allocates (desc_size j) e (create_element j e)"
    and "allocates (descs_size xs) e (create_children p xs e)"
proof (induction j e and p xs e rule: create_element_create_children.induct)
  case (1 s e)
  then show ?case by (simp add: create_text_node_def alloc_def allocates_def)
next
  case (2 i e)
  then show ?case by (simp add: create_text_node_def alloc_def allocates_def)
next
  case (3 xs e)
  obtain f d where a: "create_document_fragment (doc e) = (f, d)" by fastforce
  have n: "next_ptr (doc (e\<lparr>doc := d\<rparr>)) = next_ptr (doc e) + 1"
    using a by (auto simp: create_document_fragment_def alloc_def)
  have ih: "allocates (descs_size xs) (e\<lparr>doc := d\<rparr>) (create_children f xs (e\<lparr>doc := d\<rparr>))"
    using "3.IH" [of f d] a by (simp add: create_document_fragment_def)
  have "allocates (1 + descs_size xs) e (create_children f xs (e\<lparr>doc := d\<rparr>))"
    using n ih unfolding allocates_def by auto
  moreover have "create_element (JArr xs) e =
      (case create_children f xs (e\<lparr>doc := d\<rparr>) of Inl ex \<Rightarrow> Inl ex | Inr (_, e') \<Rightarrow> Inr (Some f, e'))"
    using a by simp
  ultimately show ?case by (auto simp: allocates_def split: sum.split_asm)
next
  case (4 t ps cs r e)
  show ?case
  proof (cases "\<exists>tg. t = Some tg \<and> tg \<noteq> []")
    case False
    then show ?thesis by (cases t) (auto simp: allocates_def)
  next
    case True
    then obtain tg where tg: "t = Some tg" "tg \<noteq> []" by blast
    show ?thesis
    proof (cases "create_element_node tg (doc e)")
      case (Inl err)
      then show ?thesis using tg by (simp add: allocates_def)
    next
      case (Inr nd1)
      then obtain n d1 where cen: "create_element_node tg (doc e) = Inr (n, d1)" by (cases nd1) auto
      have n1: "next_ptr d1 = next_ptr (doc e) + 1"
        using cen by (auto simp: create_element_node_def alloc_def split: if_splits)
      have ap: "next_ptr (exc_state (apply_props n ps d1)) = next_ptr d1"
        by (rule apply_props_next_ptr)
      show ?thesis
      proof (cases "apply_props n ps d1" rule: exc_cases)
        case (Exc err d2)
        then show ?thesis using tg cen ap n1 by (simp add: allocates_def)
      next
        case (Ret u d2)
        have n2: "next_ptr (doc (e\<lparr>doc := d2\<rparr>)) = next_ptr (doc e) + 1"
          using ap n1 Ret by simp
        have ih: "allocates (descs_size cs) (e\<lparr>doc := d2\<rparr>) (create_children n cs (e\<lparr>doc := d2\<rparr>))"
          using "4.IH" [OF tg cen refl Ret [unfolded unit_eq [of u]] refl] .
        have "allocates (1 + descs_size cs) e (create_children n cs (e\<lparr>doc := d2\<rparr>))"
          using n2 ih unfolding allocates_def by auto
        moreover have "create_element (JObj t ps cs r) e =
            (case create_children n cs (e\<lparr>doc := d2\<rparr>) of
               Inl ex \<Rightarrow> Inl ex | Inr (_, e3) \<Rightarrow> Inr (Some n, register_ref r n e3))"
          using tg cen Ret by (simp add: unit_eq [of u])
        ultimately show ?thesis using tg by (auto simp: allocates_def split: sum.split_asm)
      qed
    qed
  qed
next
  case (5 e) then show ?case by (simp add: allocates_def)
next
  case (6 e) then show ?case by (simp add: allocates_def)
next
  case (7 b e) then show ?case by (simp add: allocates_def)
next
  case (8 h e) then show ?case by (simp add: allocates_def)
next
  case (9 p e) then show ?case by (simp add: allocates_def)
next
  case (10 p x xs e)
  show ?case
  proof (cases "create_element x e" rule: exc_cases)
    case (Exc err e1)
    then show ?thesis using "10.IH"(1) by (simp add: allocates_def)
  next
    case (Ret r e1)
    have n1: "next_ptr (doc e1) = next_ptr (doc e) + desc_size x"
      using "10.IH"(1) Ret by (simp add: allocates_def)
    show ?thesis
    proof (cases r)
      case None
      have "allocates (descs_size xs) e1 (create_children p xs e1)"
        using "10.IH"(2) [OF Ret [unfolded None] refl refl] .
      then have "allocates (desc_size x + descs_size xs) e (create_children p xs e1)"
        using n1 unfolding allocates_def by auto
      then show ?thesis using Ret None by simp
    next
      case (Some c)
      show ?thesis
      proof (cases "append_child p c (doc e1)")
        case (Inl err)
        then show ?thesis using Ret Some n1 by (simp add: allocates_def)
      next
        case (Inr cd)
        then obtain c' d2 where ac: "append_child p c (doc e1) = Inr (c', d2)" by (cases cd) auto
        have n2: "next_ptr (doc (e1\<lparr>doc := d2\<rparr>)) = next_ptr (doc e) + desc_size x"
          using ac n1 by (auto simp: append_child_def split: option.splits)
        have "allocates (descs_size xs) (e1\<lparr>doc := d2\<rparr>) (create_children p xs (e1\<lparr>doc := d2\<rparr>))"
          using "10.IH"(3) [OF Ret [unfolded Some] refl refl ac refl] .
        then have "allocates (desc_size x + descs_size xs) e (create_children p xs (e1\<lparr>doc := d2\<rparr>))"
          using n2 unfolding allocates_def by auto
        then show ?thesis using Ret Some ac by simp
      qed
    qed
  qed
qed

text \<open>A returned node has the kind its description's type dictates; the children loop
  and \<open>register_ref\<close> leave it unchanged.\<close>

lemma create_kind:
  assumes wf: "wf_dom (doc e)" and ce: "create_element j e = Inr (r, e')"
  shows "(case r of
            None \<Rightarrow> desc_kind j = None
          | Some n \<Rightarrow> kind_of (doc e') n = desc_kind j \<and> desc_kind j \<noteq> None)"
proof (cases j)
  case (JStr s)
  obtain n d where a: "alloc (TextNode s) (doc e) = (n, d)" by fastforce
  then show ?thesis using ce JStr alloc_new(4) [OF a] by (auto simp: create_text_node_def)
next
  case (JNum i)
  obtain n d where a: "alloc (TextNode (string_of_int i)) (doc e) = (n, d)" by fastforce
  then show ?thesis using ce JNum alloc_new(4) [OF a] by (auto simp: create_text_node_def)
next
  case (JArr xs)
  obtain f d where a: "alloc FragmentNode (doc e) = (f, d)" by fastforce
  have pre: "children_pre f (e\<lparr>doc := d\<rparr>)"
    using children_from_alloc(1) [OF wf a node_local_refl] by simp
  have cc: "create_children f xs (e\<lparr>doc := d\<rparr>) = Inr ((), e')" and r: "r = Some f"
    using ce JArr a by (auto simp: create_document_fragment_def split: sum.splits)
  have "grows_at f d (doc e')"
    using create_frame(2) [OF pre, of xs] cc by (simp add: children_post_def)
  then show ?thesis using r JArr grows_at_kind alloc_new(4) [OF a] by simp
next
  case (JObj t ps cs rr)
  show ?thesis
  proof (cases "\<exists>tg. t = Some tg \<and> tg \<noteq> []")
    case False
    then show ?thesis using ce JObj by (cases t) auto
  next
    case True
    then obtain tg where tg: "t = Some tg" "tg \<noteq> []" by blast
    obtain n d1 where cen: "create_element_node tg (doc e) = Inr (n, d1)"
      using ce JObj tg by (auto split: sum.splits)
    have a: "alloc (ElementNode (ascii_lower tg)) (doc e) = (n, d1)"
      using cen by (auto simp: create_element_node_def split: if_splits)
    obtain d2 where ap: "apply_props n ps d1 = Inr ((), d2)"
      using ce JObj tg cen by (auto split: sum.splits)
    obtain e3 where cc: "create_children n cs (e\<lparr>doc := d2\<rparr>) = Inr ((), e3)"
      and res: "r = Some n" "e' = register_ref rr n e3"
      using ce JObj tg cen ap by (auto split: sum.splits)
    have pre: "children_pre n (e\<lparr>doc := d2\<rparr>)"
      using children_from_alloc(1) [OF wf a apply_props_node_local [of n d1 ps]] ap by simp
    have "grows_at n d2 (doc e3)"
      using create_frame(2) [OF pre, of cs] cc by (simp add: children_post_def)
    moreover have "kind_of d2 n = kind_of d1 n"
      using apply_props_node_local [of n d1 ps] ap by (simp add: node_local_def)
    ultimately show ?thesis using res JObj tg alloc_new(4) [OF a] grows_at_kind by simp
  qed
qed (use ce in auto)

end
