(* ===== verification/Engine_Append.thy ===== *)
theory Engine_Append
  imports Engine_Liveness Engine_Bounds
begin

text \<open>
  Appending what \<open>createElement\<close> returned to a node that existed before the call, as
  \<open>updateElement\<close> does when \<open>oldElement\<close> is falsy (line 65): the host's checks pass
  (the new node cannot be an ancestor of an old one), and the parent's child list grows
  by the new node, or by the children of a fragment, which leave it.
\<close>

lemma append_created_node:
  assumes wf: "wf_dom (doc e)" and p: "p \<in> dom (nodes (doc e))" "accepts_children (doc e) p"
    and ce: "create_element j e = Inr (Some c, e1)"
  shows "append_child p c (doc e1) = Inr (c, insert_node p c None (doc e1))"
proof -
  note s = render_setup [OF wf p(1) ce]
  have c: "next_ptr (doc e) \<le> c" "c \<in> dom (nodes (doc e1))"
    using create_element_new [OF wf ce] by simp_all
  have "\<not> is_inclusive_ancestor (doc e1) c p"
    using fresh_not_ancestor [OF s(7) s(3) c(1)] .
  moreover have "nodes (doc e1) p \<noteq> None" "nodes (doc e1) c \<noteq> None"
    using s(4) c(2) by (blast dest: domD)+
  ultimately show ?thesis
    using s(5) p(2) by (simp add: append_child_def insert_check_def)
qed

lemma children_after_append:
  assumes wf: "wf_dom (doc e)" and p: "p \<in> dom (nodes (doc e))"
    and ce: "create_element j e = Inr (Some c, e1)"
  shows "children_of (insert_node p c None (doc e1)) p =
           children_of (doc e) p @
           (if kind_of (doc e1) c = Some FragmentNode then children_of (doc e1) c else [c])"
    and "kind_of (doc e1) c = Some FragmentNode \<Longrightarrow>
           children_of (insert_node p c None (doc e1)) c = [] \<and>
           c \<notin> set (children_of (doc e1) c)"
proof -
  note s = render_setup [OF wf p ce]
  have c: "next_ptr (doc e) \<le> c" "parent_of (doc e1) c = None"
    using create_element_new [OF wf ce] by simp_all
  have pc: "p \<noteq> c" using s(3) c(1) by simp
  show "children_of (insert_node p c None (doc e1)) p =
          children_of (doc e) p @
          (if kind_of (doc e1) c = Some FragmentNode then children_of (doc e1) c else [c])"
  proof (cases "kind_of (doc e1) c = Some FragmentNode")
    case True
    then show ?thesis using pc s(4,6)
      by (simp add: insert_node_fragment_facts splice_before_def)
  next
    case False
    then show ?thesis using s(4,6) c(2)
      by (simp add: insert_node_plain_facts host_simps splice_before_def)
  qed
  assume f: "kind_of (doc e1) c = Some FragmentNode"
  have "c \<notin> set (children_of (doc e1) c)"
    using wf_domD(3) [OF s(1)] c(2) by auto
  then show "children_of (insert_node p c None (doc e1)) c = [] \<and> c \<notin> set (children_of (doc e1) c)"
    using f pc by (simp add: insert_node_fragment_facts)
qed

text \<open>\<open>render\<close> changes no node's kind after creation.\<close>

lemma render_kind:
  assumes "create_element j e = Inr (r, e1)" "render j c e = Inr ((), e')"
  shows "kind_of (doc e') = kind_of (doc e1)"
  using assms
  by (auto simp: render_def Let_def append_child_def fun_eq_iff split: option.splits sum.splits)

text \<open>What \<open>render\<close> leaves in the container: nothing for a null result, the
  created node, or the children of a created fragment.\<close>

lemma render_children:
  assumes wf: "wf_dom (doc e)" and c: "c \<in> dom (nodes (doc e))" "accepts_children (doc e) c"
    and ce: "create_element j e = Inr (r, e1)" and rr: "render j c e = Inr ((), e')"
  shows "children_of (doc e') c =
           (case r of
              None \<Rightarrow> []
            | Some n \<Rightarrow> if kind_of (doc e1) n = Some FragmentNode then children_of (doc e1) n else [n])"
proof (cases r)
  case None
  then show ?thesis using ce rr by (auto simp: render_def host_simps)
next
  case (Some n)
  let ?d2 = "clear_children c (doc e1)"
  note s = render_setup [OF wf c(1) ce]
  have n: "next_ptr (doc e) \<le> n" "parent_of (doc e1) n = None"
    using create_element_new [OF wf ce [unfolded Some]] by simp_all
  have cn: "c \<noteq> n" using s(3) n(1) by simp
  have e': "doc e' = insert_node c n None ?d2"
    using rr ce Some render_append [OF wf c ce [unfolded Some]] by (auto simp: render_def)
  have pn: "parent_of ?d2 n = None" using n(2) by (simp add: host_simps)
  show ?thesis
  proof (cases "kind_of (doc e1) n = Some FragmentNode")
    case True
    then show ?thesis using e' Some cn s(4)
      by (simp add: insert_node_fragment_facts host_simps splice_before_def)
  next
    case False
    then show ?thesis using e' Some pn s(4)
      by (simp add: insert_node_plain_facts host_simps splice_before_def)
  qed
qed

text \<open>The children loop on items that are not arrays appends one node per item that is
  not rendered as nothing, in the items' order, each of the kind its item stands for.\<close>

lemma create_children_items:
  assumes "children_pre p e" "create_children p xs e = Inr ((), e')"
    "\<forall>x\<in>set xs. desc_kind x \<noteq> Some FragmentNode"
  shows "\<exists>cs. children_of (doc e') p = children_of (doc e) p @ cs \<and>
           map (kind_of (doc e')) cs = map desc_kind (filter (\<lambda>x. desc_kind x \<noteq> None) xs) \<and>
           (\<forall>c\<in>set cs. next_ptr (doc e) \<le> c)"
  using assms
proof (induction xs arbitrary: e)
  case Nil
  then show ?case by simp
next
  case (Cons x xs)
  have pre: "children_pre p e" by fact
  then have wf0: "wf_dom (doc e)" and pdom: "p \<in> dom (nodes (doc e))"
    by (simp_all add: children_pre_def)
  have pN: "p < next_ptr (doc e)" by (rule wf_below [OF wf0 pdom])
  have cp: "create_post e (create_element x e)" by (rule create_frame(1) [OF wf0])
  show ?case
  proof (cases "create_element x e" rule: exc_cases)
    case (Exc err e1)
    then show ?thesis using Cons.prems(2) by simp
  next
    case (Ret r e1)
    have pre1: "children_pre p e1" and g1: "grows (doc e) (doc e1)"
      using children_pre_kept [OF pre cp Ret] by simp_all
    have same: "children_of (doc e1) p = children_of (doc e) p"
      using g1 pN by (simp add: grows_def children_of_def)
    have N1: "next_ptr (doc e) \<le> next_ptr (doc e1)" using g1 by (simp add: grows_def)
    have rest: "\<forall>x\<in>set xs. desc_kind x \<noteq> Some FragmentNode" using Cons.prems(3) by simp
    show ?thesis
    proof (cases r)
      case None
      have "desc_kind x = None" using create_kind [OF wf0 Ret] None by simp
      moreover have "create_children p xs e1 = Inr ((), e')" using Cons.prems(2) Ret None by simp
      ultimately show ?thesis using Cons.IH [OF pre1 _ rest] same N1 by force
    next
      case (Some c)
      obtain k where k: "desc_kind x = Some k" "kind_of (doc e1) c = Some k"
        using create_kind [OF wf0 Ret] Some by auto
      have kf: "k \<noteq> FragmentNode" using Cons.prems(3) k(1) by auto
      let ?d2 = "insert_node p c None (doc e1)"
      note ap = append_created [OF pre cp Ret [unfolded Some]]
      have post: "next_ptr (doc e) \<le> c" "c \<in> dom (nodes (doc e1))" "parent_of (doc e1) c = None"
        "wf_dom (doc e1)"
        using cp Ret Some by (simp_all add: create_post_def)
      have cc: "create_children p xs (e1\<lparr>doc := ?d2\<rparr>) = Inr ((), e')"
        using Cons.prems(2) Ret Some ap(1) by simp
      obtain cs where cs: "children_of (doc e') p = children_of ?d2 p @ cs"
        "map (kind_of (doc e')) cs = map desc_kind (filter (\<lambda>x. desc_kind x \<noteq> None) xs)"
        "\<forall>c\<in>set cs. next_ptr ?d2 \<le> c"
        using Cons.IH [OF ap(2) cc rest] by auto
      have chp: "children_of ?d2 p = children_of (doc e1) p @ [c]"
        using k(2) kf post(3) children_pre_kept(1) [OF pre cp Ret]
        by (simp add: insert_node_plain_facts host_simps splice_before_def children_pre_def)
      have "grows_at p ?d2 (doc e')"
        using create_frame(2) [OF ap(2), of xs] cc by (simp add: children_post_def)
      moreover have "c < next_ptr ?d2" "c \<noteq> p"
        using wf_below [OF post(4) post(2)] post(1) pN by simp_all
      ultimately have "kind_of (doc e') c = kind_of ?d2 c"
        by (simp add: grows_at_def kind_of_def)
      then have "kind_of (doc e') c = Some k" using k(2) by simp
      then show ?thesis
        using cs chp same k(1) post(1) N1
        by (intro exI [of _ "c # cs"]) auto
    qed
  qed
qed

end
