(* ===== verification/Engine_Spec.thy ===== *)
theory Engine_Spec
  imports Examples Engine_Append
begin

text \<open>
  The properties of the reconciliation engine \<open>DOMGenerator\<close> that the design
  (\<open>spec.md\<close>, sections 4.2 and 8) states, each proved of the model of
  \<open>src/native-app.js\<close> and instantiated on the example documents. Where the code and
  the design disagree, the theorem states what the code does.
\<close>

subsection \<open>Invariant and frame\<close>

text \<open>C1: \<open>createElement\<close> only allocates: every node that existed before is
  unchanged (whether it returns or throws), and a returned node is new and has no
  parent yet.\<close>

theorem create_element_frame:
  assumes "wf_dom (doc e)"
  shows "grows (doc e) (doc (exc_state (create_element j e))) \<and>
         (\<forall>n e'. create_element j e = Inr (Some n, e') \<longrightarrow>
            next_ptr (doc e) \<le> n \<and> parent_of (doc e') n = None)"
  using create_element_grows [OF assms] create_element_new [OF assms] by blast

theorem create_element_frame_witness:
  "grows (doc app_engine) (doc (exc_state (create_element (JStr ''a'') app_engine))) \<and>
   next_ptr (doc app_engine) \<le> 1 \<and>
   parent_of (doc (exc_state (create_element (JStr ''a'') app_engine))) 1 = None"
proof -
  let ?c = "create_element (JStr ''a'') app_engine"
  have "?c = Inr (Some 1, exc_state ?c)" by (rule returns_node) code_simp
  then show ?thesis
    using create_element_frame [OF wf_app_engine, where j = "JStr ''a''"] by auto
qed

subsection \<open>Update\<close>

text \<open>C2: updating a live text node against a string always replaces it by a new text
  node, also when the string is the one it holds: a live node is never \<open>===\<close> to a
  string. The design's idempotent leaf update does not hold.\<close>

theorem update_text_replaces:
  assumes wf: "wf_dom (doc e)" and par: "parent_of (doc e) m = Some p"
    and acc: "accepts_children (doc e) p" and s: "s \<noteq> []"
  shows "\<exists>e'. update_element (LNode m) (JStr s) p e = Inr (LNode m, e') \<and>
           parent_of (doc e') m = None \<and>
           next_ptr (doc e) \<in> set (children_of (doc e') p) \<and>
           kind_of (doc e') (next_ptr (doc e)) = Some (TextNode s)"
proof -
  let ?N = "next_ptr (doc e)"
  obtain n d1 where a: "alloc (TextNode s) (doc e) = (n, d1)" by fastforce
  have nN: "n = ?N" using alloc_new(1) [OF a] .
  have mc: "m \<in> set (children_of (doc e) p)" using wf_domD(3) [OF wf] par by simp
  have pa: "p \<in> dom (nodes (doc e))" by (rule children_of_allocated [OF mc])
  have ma: "m \<in> dom (nodes (doc e))" by (rule parent_of_allocated [OF par])
  have pN: "p < ?N" and mN: "m < ?N" using wf_below [OF wf] pa ma by auto
  have g: "grows (doc e) d1" by (rule alloc_grows [OF a])
  have d1: "p \<in> dom (nodes d1)" "m \<in> dom (nodes d1)" "n \<in> dom (nodes d1)"
    "accepts_children d1 p" "parent_of d1 m = Some p" "kind_of d1 n = Some (TextNode s)"
    using g pN mN pa ma acc par alloc_new [OF a]
    by (simp_all add: grows_dom grows_parent_of accepts_children_def grows_kind_of)
  have na: "\<not> is_inclusive_ancestor d1 n p"
    using fresh_not_ancestor [OF alloc_parents_below [OF wf a] pN] nN by simp
  have "\<exists>r. replace_child p n m d1 = Inr (m, insert_node p n r (detach m d1))"
    using d1 na by (simp add: replace_child_def Let_def domIff) blast
  then obtain r where rc: "replace_child p n m d1 = Inr (m, insert_node p n r (detach m d1))" ..
  have ce: "create_element (JStr s) e = Inr (Some n, e\<lparr>doc := d1\<rparr>)"
    using a by (simp add: create_text_node_def)
  have nm: "n \<noteq> m" using mN nN by simp
  have nf: "kind_of (detach m d1) n \<noteq> Some FragmentNode" using d1(6) by simp
  let ?d2 = "insert_node p n r (detach m d1)"
  have ue: "update_element (LNode m) (JStr s) p e = Inr (LNode m, e\<lparr>doc := ?d2\<rparr>)"
    using s ce rc by (simp add: update_element_def replace_with_new_def)
  have "parent_of ?d2 m = None"
    using insert_node_plain_facts(2) [OF nf, of p r m] nm by (simp add: host_simps)
  moreover have "n \<in> set (children_of ?d2 p)"
    using insert_node_plain_facts(1) [OF nf, of p r p] d1(1) by simp
  moreover have "kind_of ?d2 n = Some (TextNode s)" using d1(6) by simp
  ultimately show ?thesis using ue nN by auto
qed

theorem update_text_replaces_witness:
  "\<exists>e'. update_element (LNode 2) (JStr ''a'') 1 list_engine = Inr (LNode 2, e') \<and>
     parent_of (doc e') 2 = None \<and> 3 \<in> set (children_of (doc e') 1) \<and>
     kind_of (doc e') 3 = Some (TextNode ''a'')"
  using update_text_replaces [OF wf_list_engine list_engine_facts(5,6), of "''a''"]
    list_engine_facts(4) by simp

text \<open>C3: updating a live child against an absent description removes it from its
  parent: the parent's child count decreases by exactly one and the removed node is
  returned, detached.\<close>

theorem update_falsy_removes:
  assumes wf: "wf_dom (doc e)" and par: "parent_of (doc e) m = Some p" and j: "\<not> elem_truthy j"
  shows "\<exists>e'. update_element (LNode m) j p e = Inr (LNode m, e') \<and>
           children_of (doc e') p = remove1 m (children_of (doc e) p) \<and>
           length (children_of (doc e') p) = length (children_of (doc e) p) - 1 \<and>
           parent_of (doc e') m = None"
proof -
  have mc: "m \<in> set (children_of (doc e) p)" using wf_domD(3) [OF wf] par by simp
  have pa: "p \<in> dom (nodes (doc e))" by (rule children_of_allocated [OF mc])
  have ma: "m \<in> dom (nodes (doc e))" by (rule parent_of_allocated [OF par])
  have "remove_child p m (doc e) = Inr (m, detach m (doc e))"
    using pa ma par by (auto simp: remove_child_def)
  then show ?thesis using j par mc
    by (auto simp: update_element_def host_simps length_remove1)
qed

theorem update_falsy_removes_witness:
  "\<exists>e'. update_element (LNode 1) JNull 0 list_engine = Inr (LNode 1, e') \<and>
     children_of (doc e') 0 = [] \<and> parent_of (doc e') 1 = None"
  using update_falsy_removes [OF wf_list_engine list_engine_facts(1), of JNull]
    list_engine_facts(2) by auto

text \<open>C4: on the same tag, the property patch writes a \<open>false\<close> boolean as the
  attribute value \<open>"false"\<close>: the patch does not apply the creation switch (which omits
  false booleans), contrary to the design.\<close>

theorem update_same_tag_false_attribute:
  assumes tag: "tag_name (doc e) m = Some (ascii_upper t)" and k: "valid_attribute_name k"
    "k \<noteq> ''className''" "\<not> starts_with ''on'' k"
  shows "\<exists>e'. update_element (LNode m) (JObj (Some t) [(k, PBool False)] cs r) p e =
               Inr (LNode m, e') \<and>
             map_of (attrs_of (doc e') m) (ascii_lower k) = Some ''false''"
proof -
  obtain t' nd where nd: "nodes (doc e) m = Some nd" "kind nd = ElementNode t'"
    using element_kind_of_tag [OF tag] by blast
  show ?thesis using tag k nd
    by (simp add: update_element_def patch_prop_def set_attribute_def update_node_def
        node_set_attribute_def attrs_of_def)
qed

theorem update_same_tag_false_attribute_witness:
  "\<exists>e'. update_element (LNode 0) (JObj (Some ''div'') [(''hidden'', PBool False)] [] None) 0
           app_engine = Inr (LNode 0, e') \<and>
         map_of (attrs_of (doc e') 0) ''hidden'' = Some ''false''"
proof -
  have "tag_name (doc app_engine) 0 = Some (ascii_upper ''div'')"
    "valid_attribute_name ''hidden''" "\<not> starts_with ''on'' ''hidden''"
    "ascii_lower ''hidden'' = ''hidden''"
    by code_simp+
  then show ?thesis
    using update_same_tag_false_attribute [of app_engine 0 "''div''" "''hidden''" "[]" None 0]
    by simp
qed

text \<open>C5: a description without a tag, reconciled against a live element, raises a
  \<open>TypeError\<close> (\<open>replaceChild\<close> is called with the \<open>null\<close> that \<open>createElement\<close>
  returns), leaving the document as it was. The design says malformed descriptions never
  raise.\<close>

theorem update_tagless_raises:
  assumes "tag_name (doc e) m \<noteq> None"
  shows "update_element (LNode m) (JObj None ps cs r) p e = Inl (TypeError, e)"
  using assms by (simp add: update_element_def replace_with_new_def)

theorem update_tagless_raises_witness:
  "update_element (LNode 0) (JObj None [] [] None) 0 app_engine = Inl (TypeError, app_engine)"
  using update_tagless_raises [of app_engine 0] app_engine_facts(1) by simp

text \<open>C6: removing a node that is not a child of the given parent raises
  \<open>NotFoundError\<close> and changes nothing.\<close>

theorem update_falsy_not_child:
  assumes "p \<in> dom (nodes (doc e))" "m \<in> dom (nodes (doc e))" "parent_of (doc e) m \<noteq> Some p"
    and "\<not> elem_truthy j"
  shows "update_element (LNode m) j p e = Inl (NotFoundError, e)"
  using assms by (auto simp: update_element_def remove_child_def)

theorem update_falsy_not_child_witness:
  "update_element (LNode 0) JNull 0 app_engine = Inl (NotFoundError, app_engine)"
  using update_falsy_not_child [of 0 app_engine 0 JNull] app_engine_facts(3,4) by simp

subsection \<open>Creation\<close>

text \<open>C7: a boolean property is a presence attribute: \<open>true\<close> sets the attribute with
  the property name as its value, \<open>false\<close> sets nothing.\<close>

theorem create_boolean_attribute:
  assumes t: "valid_element_name t" and k: "valid_attribute_name k"
    "k \<noteq> ''className''" "\<not> starts_with ''on'' k"
  shows "\<exists>n e'. create_element (JObj (Some t) [(k, PBool b)] [] None) e = Inr (Some n, e') \<and>
           attrs_of (doc e') n = (if b then [(ascii_lower k, k)] else [])"
proof -
  have "t \<noteq> []" using t by (simp add: valid_element_name_def)
  moreover have "k \<noteq> ''onclick''" using k(3) by (auto simp: starts_with_def)
  ultimately show ?thesis using t k
    by (simp add: create_element_node_def alloc_def apply_props_def apply_prop_def
        set_attribute_def update_node_def node_set_attribute_def new_node_def attrs_of_def
        register_ref_def)
qed

theorem create_boolean_attribute_witness:
  "\<exists>n e'. create_element (JObj (Some ''input'') [(''disabled'', PBool True)] [] None) app_engine
      = Inr (Some n, e') \<and> attrs_of (doc e') n = [(''disabled'', ''disabled'')]"
proof -
  have "valid_element_name ''input''" "valid_attribute_name ''disabled''"
    "\<not> starts_with ''on'' ''disabled''" "ascii_lower ''disabled'' = ''disabled''"
    by code_simp+
  then show ?thesis
    using create_boolean_attribute [of "''input''" "''disabled''" True app_engine] by simp
qed

text \<open>C8: creating a tagged description with a non-empty \<open>ref\<close> makes the registry
  resolve the name to the returned node, overwriting any earlier entry.\<close>

theorem create_registers_ref:
  assumes "create_element (JObj (Some t) ps cs (Some nm)) e = Inr (Some n, e')" "nm \<noteq> []"
  shows "refs e' nm = Some n"
  using assms
  by (auto simp: register_ref_def split: if_splits sum.splits prod.splits)

theorem create_registers_ref_witness:
  "refs (exc_state (create_element (JObj (Some ''div'') [] [] (Some ''x'')) app_engine)) ''x''
     = Some 1"
proof -
  let ?c = "create_element (JObj (Some ''div'') [] [] (Some ''x'')) app_engine"
  have "?c = Inr (Some 1, exc_state ?c)" by (rule returns_node) code_simp
  from create_registers_ref [OF this] show ?thesis by simp
qed

subsection \<open>Liveness and render\<close>

text \<open>C15: on a description whose tags and attribute names the host accepts and whose
  listeners are functions (\<open>valid_desc\<close>), \<open>createElement\<close> returns, and the document
  it leaves is well formed.\<close>

theorem create_element_returns:
  assumes "wf_dom (doc e)" and "valid_desc j"
  shows "\<exists>r e'. create_element j e = Inr (r, e') \<and> wf_dom (doc e')"
proof -
  obtain r e' where ce: "create_element j e = Inr (r, e')" using create_total(1) [OF assms] by blast
  moreover have "wf_dom (doc e')" using create_element_wf [OF assms(1), of j] ce by simp
  ultimately show ?thesis by blast
qed

theorem create_element_returns_witness:
  "\<exists>r e'. create_element (JObj (Some ''p'') [(''id'', PStr ''intro'')] [JStr ''hi''] None) app_engine
      = Inr (r, e') \<and> wf_dom (doc e')"
proof -
  have "valid_desc (JObj (Some ''p'') [(''id'', PStr ''intro'')] [JStr ''hi''] None)"
    by (simp add: valid_element_name_def valid_attribute_name_def name_forbidden_char_def
        is_ascii_alpha_def is_ascii_whitespace_def starts_with_def valid_prop_def)
  from create_element_returns [OF wf_app_engine this] show ?thesis .
qed

text \<open>C16: \<open>render\<close> of a valid description into a container that accepts children
  returns and rebuilds the container: every former child is detached, and the container's
  children are exactly what \<open>createElement\<close> returned for the description (nothing for
  a null result, the new node, or the items of a new fragment).\<close>

theorem render_rebuilds:
  assumes "wf_dom (doc e)" and "c \<in> dom (nodes (doc e))" "accepts_children (doc e) c"
    and "valid_desc j"
  shows "\<exists>r e1 e'. create_element j e = Inr (r, e1) \<and> render j c e = Inr ((), e') \<and>
           (\<forall>x \<in> set (children_of (doc e) c). parent_of (doc e') x = None) \<and>
           children_of (doc e') c =
             (case r of
                None \<Rightarrow> []
              | Some n \<Rightarrow> if kind_of (doc e1) n = Some FragmentNode then children_of (doc e1) n else [n])"
proof -
  obtain r e1 where ce: "create_element j e = Inr (r, e1)"
    using create_total(1) [OF assms(1,4)] by blast
  obtain e' where rr: "render j c e = Inr ((), e')" using render_total [OF assms] by blast
  show ?thesis
    using ce rr render_replaces_children [OF assms(1,2) rr] render_children [OF assms(1-3) ce rr]
    by blast
qed

theorem render_rebuilds_witness:
  "\<exists>e'. render (JStr ''b'') 0 list_engine = Inr ((), e') \<and>
     parent_of (doc e') 1 = None \<and> children_of (doc e') 0 = [3]"
proof -
  have d0: "0 \<in> dom (nodes (doc list_engine))"
    using list_engine_facts(1) parent_of_allocated wf_parent_below
    by (metis wf_domD(3) wf_list_engine children_of_allocated)
  have ce: "create_element (JStr ''b'') list_engine =
      Inr (Some 3, exc_state (create_element (JStr ''b'') list_engine))"
    by (rule returns_node) code_simp
  have k: "kind_of (doc (exc_state (create_element (JStr ''b'') list_engine))) 3 = Some (TextNode ''b'')"
    by code_simp
  show ?thesis
    using render_rebuilds [OF wf_list_engine d0 list_engine_facts(3), where j = "JStr ''b''"]
      ce k list_engine_facts(2) by auto
qed

text \<open>C17: \<open>render\<close> creates the new tree before it empties the container, so when
  creation throws, the exception propagates and the container keeps all its children (the
  design says the container is cleared first).\<close>

theorem render_failure_keeps_container:
  assumes wf: "wf_dom (doc e)" and c: "c \<in> dom (nodes (doc e))"
    and ce: "create_element j e = Inl (err, e1)"
  shows "render j c e = Inl (err, e1) \<and> children_of (doc e1) c = children_of (doc e) c \<and>
         (\<forall>x \<in> set (children_of (doc e) c). parent_of (doc e1) x = Some c)"
proof -
  have g: "grows (doc e) (doc e1)" using create_element_grows [OF wf, of j] ce by simp
  have w1: "wf_dom (doc e1)" using create_element_wf [OF wf, of j] ce by simp
  have same: "children_of (doc e1) c = children_of (doc e) c"
    using g wf_below [OF wf c] by (simp add: grows_def children_of_def)
  have "parent_of (doc e1) x = Some c" if "x \<in> set (children_of (doc e) c)" for x
  proof -
    have "x \<in> set (children_of (doc e1) c)" using that same by simp
    then show ?thesis using wf_domD(3) [OF w1] by simp
  qed
  then show ?thesis using ce same by (simp add: render_def)
qed

theorem render_failure_keeps_container_witness:
  "render (JObj (Some ''p'') [(''bad name'', PStr ''x'')] [] None) 0 list_engine =
     Inl (InvalidCharacterError,
          exc_state (create_element (JObj (Some ''p'') [(''bad name'', PStr ''x'')] [] None) list_engine)) \<and>
   children_of (doc (exc_state (create_element (JObj (Some ''p'') [(''bad name'', PStr ''x'')] [] None)
      list_engine))) 0 = [1]"
proof -
  let ?c = "create_element (JObj (Some ''p'') [(''bad name'', PStr ''x'')] [] None) list_engine"
  have ce: "?c = Inl (InvalidCharacterError, exc_state ?c)" by (rule throws_error) code_simp
  have "0 \<in> dom (nodes (doc list_engine))"
    by (metis wf_domD(3) wf_list_engine children_of_allocated list_engine_facts(1))
  from render_failure_keeps_container [OF wf_list_engine this ce]
  show ?thesis using list_engine_facts(2) by simp
qed

subsection \<open>Allocation\<close>

text \<open>C22: \<open>createElement\<close> allocates at most \<open>desc_size j\<close> nodes, one per string,
  number, array and tagged object of the description, and exactly that many when it
  returns.\<close>

theorem create_element_allocates:
  "next_ptr (doc (exc_state (create_element j e))) \<le> next_ptr (doc e) + desc_size j \<and>
   (create_element j e = Inr (r, e') \<longrightarrow> next_ptr (doc e') = next_ptr (doc e) + desc_size j)"
  using create_allocates(1) [of j e] by (simp add: allocates_def)

theorem create_element_allocates_witness:
  "next_ptr (doc (exc_state (create_element
      (JArr [JStr ''a'', JObj (Some ''span'') [] [JStr ''b''] None]) app_engine))) = 5"
proof -
  let ?c = "create_element (JArr [JStr ''a'', JObj (Some ''span'') [] [JStr ''b''] None]) app_engine"
  have "?c = Inr (Some 1, exc_state ?c)" by (rule returns_node) code_simp
  with create_element_allocates [of "JArr [JStr ''a'', JObj (Some ''span'') [] [JStr ''b''] None]"
      app_engine "Some 1" "exc_state ?c"]
  show ?thesis using app_engine_facts(5) by simp
qed

subsection \<open>Allocation order\<close>

text \<open>C23: on a well-formed document whose parent pointers are all smaller than their
  children's, \<open>createElement\<close>, and \<open>updateElement\<close> and \<open>render\<close> called with a
  parent or container that exists, keep it so, whether they return or throw.\<close>

theorem engine_ops_keep_order:
  assumes "wf_dom (doc e)" "ptr_ordered (doc e)"
    and "p \<in> dom (nodes (doc e))" "c \<in> dom (nodes (doc e))"
  shows "ptr_ordered (doc (exc_state (create_element j e))) \<and>
         ptr_ordered (doc (exc_state (update_element old j p e))) \<and>
         ptr_ordered (doc (exc_state (render j c e)))"
  using create_ordered(1) [OF assms(1,2)] update_element_ordered [OF assms(1,2,3)]
    render_ordered [OF assms(1,2,4)] by blast

theorem engine_ops_keep_order_witness:
  "ptr_ordered (doc (exc_state (create_element (JStr ''a'') list_engine))) \<and>
   ptr_ordered (doc (exc_state (update_element LNull (JStr ''a'') 1 list_engine))) \<and>
   ptr_ordered (doc (exc_state (render (JStr ''a'') 0 list_engine)))"
proof -
  have "0 \<in> dom (nodes (doc list_engine))" "1 \<in> dom (nodes (doc list_engine))"
    using list_engine_facts(1,5) by (auto dest: parent_of_allocated children_of_allocated
        simp: wf_domD(3) [OF wf_list_engine, symmetric])
  then show ?thesis
    using engine_ops_keep_order [OF wf_list_engine ordered_list_engine, where j = "JStr ''a''"
        and old = LNull and p = 1 and c = 0] by blast
qed

subsection \<open>The type of the returned node\<close>

text \<open>C24: when \<open>createElement\<close> returns, its result follows the description's type:
  a string or number gives a text node holding its text, an array a document fragment, a
  tagged object with a non-empty tag an element whose name is the tag in lower case,
  and every other value (\<open>null\<close>, \<open>undefined\<close>, booleans, functions, untagged objects)
  no node.\<close>

theorem create_element_kind:
  assumes "wf_dom (doc e)" "create_element j e = Inr (r, e')"
  shows "(r = None \<longleftrightarrow> desc_kind j = None) \<and>
         (\<forall>n. r = Some n \<longrightarrow> kind_of (doc e') n = desc_kind j)"
  using create_kind [OF assms] by (cases r) auto

lemma ascii_lower_span: "ascii_lower ''SPAN'' = ''span''"
  by code_simp

lemma ascii_lower_span': "ascii_lower ''span'' = ''span''"
  by code_simp

theorem create_element_kind_witness:
  "kind_of (doc (exc_state (create_element (JObj (Some ''SPAN'') [] [JStr ''x''] None) app_engine))) 1
     = Some (ElementNode ''span'')"
proof -
  let ?c = "create_element (JObj (Some ''SPAN'') [] [JStr ''x''] None) app_engine"
  have c: "?c = Inr (Some 1, exc_state ?c)" by (rule returns_node) code_simp
  have "kind_of (doc (exc_state ?c)) 1 = desc_kind (JObj (Some ''SPAN'') [] [JStr ''x''] None)"
    using create_element_kind [OF wf_app_engine c] by blast
  also have "\<dots> = Some (ElementNode ''span'')"
    using ascii_lower_span by simp
  finally show ?thesis .
qed

subsection \<open>Absent to present\<close>

text \<open>C26: updating a falsy \<open>oldElement\<close> against a valid description of one node
  (text or element) creates exactly one new node of the description's kind and appends
  it to the parent, after the parent's existing children, and returns it.\<close>

theorem update_absent_appends:
  assumes wf: "wf_dom (doc e)" and p: "p \<in> dom (nodes (doc e))" "accepts_children (doc e) p"
    and v: "valid_desc j" and k: "desc_kind j = Some k" "k \<noteq> FragmentNode"
    and old: "\<not> live_truthy old"
  shows "\<exists>c e'. update_element old j p e = Inr (LNode c, e') \<and>
           children_of (doc e') p = children_of (doc e) p @ [c] \<and>
           kind_of (doc e') c = Some k \<and> next_ptr (doc e) \<le> c"
proof -
  obtain r e1 where ce: "create_element j e = Inr (r, e1)" using create_total(1) [OF wf v] by blast
  obtain c where r: "r = Some c" and kc: "kind_of (doc e1) c = Some k"
    using create_kind [OF wf ce] k by (cases r) auto
  note ce' = ce [unfolded r]
  have "update_element old j p e = Inr (LNode c, e1\<lparr>doc := insert_node p c None (doc e1)\<rparr>)"
    using append_created_node [OF wf p ce'] ce' old by (simp add: update_element_def)
  moreover have "children_of (insert_node p c None (doc e1)) p = children_of (doc e) p @ [c]"
    using children_after_append(1) [OF wf p(1) ce'] kc k(2) by simp
  moreover have "next_ptr (doc e) \<le> c" using create_element_new [OF wf ce'] by simp
  ultimately show ?thesis using kc by auto
qed

theorem update_absent_appends_witness:
  "\<exists>c e'. update_element LNull (JObj (Some ''div'') [] [] None) 0 app_engine = Inr (LNode c, e') \<and>
     children_of (doc e') 0 = [c] \<and> kind_of (doc e') c = Some (ElementNode ''div'')"
proof -
  have v: "valid_desc (JObj (Some ''div'') [] [] None)" and l: "ascii_lower ''div'' = ''div''"
    and ch: "children_of (doc app_engine) 0 = []"
    by code_simp+
  obtain c e' where r: "update_element LNull (JObj (Some ''div'') [] [] None) 0 app_engine =
      Inr (LNode c, e')" "children_of (doc e') 0 = children_of (doc app_engine) 0 @ [c]"
    "kind_of (doc e') c = Some (ElementNode ''div'')"
    using update_absent_appends [OF wf_app_engine app_engine_facts(3,2) v,
        of "ElementNode ''div''" LNull] l by auto
  then show ?thesis using ch by auto
qed

text \<open>C27: fragment flattening: updating a falsy \<open>oldElement\<close> against an array
  whose items are not arrays appends, directly under the parent and after its existing
  children, one new node per item that is not rendered as nothing, in the array's order
  and each of its item's kind; no wrapping node is added and the returned fragment is
  left empty.\<close>

theorem update_absent_fragment_flattens:
  assumes wf: "wf_dom (doc e)" and p: "p \<in> dom (nodes (doc e))" "accepts_children (doc e) p"
    and v: "valid_descs xs" and flat: "\<forall>x\<in>set xs. desc_kind x \<noteq> Some FragmentNode"
    and old: "\<not> live_truthy old"
  shows "\<exists>f e'. update_element old (JArr xs) p e = Inr (LNode f, e') \<and>
           (\<exists>cs. children_of (doc e') p = children_of (doc e) p @ cs \<and>
                 map (kind_of (doc e')) cs = map desc_kind (filter (\<lambda>x. desc_kind x \<noteq> None) xs) \<and>
                 (\<forall>c\<in>set cs. next_ptr (doc e) \<le> c)) \<and>
           f \<notin> set (children_of (doc e') p) \<and> children_of (doc e') f = []"
proof -
  obtain f d where a: "alloc FragmentNode (doc e) = (f, d)" by fastforce
  have pre: "children_pre f (e\<lparr>doc := d\<rparr>)"
    using children_from_alloc(1) [OF wf a node_local_refl] by simp
  obtain e1 where cc: "create_children f xs (e\<lparr>doc := d\<rparr>) = Inr ((), e1)"
    using create_total(2) [OF pre v] by blast
  have ce: "create_element (JArr xs) e = Inr (Some f, e1)"
    using a cc by (simp add: create_document_fragment_def)
  have N: "next_ptr d = Suc (next_ptr (doc e))" using alloc_new(1,6) [OF a] by simp
  obtain cs where cs: "children_of (doc e1) f = cs"
    "map (kind_of (doc e1)) cs = map desc_kind (filter (\<lambda>x. desc_kind x \<noteq> None) xs)"
    "\<forall>c\<in>set cs. next_ptr (doc e) \<le> c"
    using create_children_items [OF pre cc flat] alloc_new(5) [OF a] N by fastforce
  have kf: "kind_of (doc e1) f = Some FragmentNode"
    using create_kind [OF wf ce] by simp
  let ?d' = "insert_node p f None (doc e1)"
  have u: "update_element old (JArr xs) p e = Inr (LNode f, e1\<lparr>doc := ?d'\<rparr>)"
    using append_created_node [OF wf p ce] ce old by (simp add: update_element_def)
  have ch: "children_of ?d' p = children_of (doc e) p @ cs"
    using children_after_append(1) [OF wf p(1) ce] kf cs(1) by simp
  have fe: "children_of ?d' f = []" "f \<notin> set cs"
    using children_after_append(2) [OF wf p(1) ce kf] cs(1) by simp_all
  have "f \<notin> set (children_of (doc e) p)"
    using wf_child_below [OF wf] create_element_new [OF wf ce] by fastforce
  then have "f \<notin> set (children_of ?d' p)" using ch fe(2) by simp
  moreover have "kind_of ?d' = kind_of (doc e1)" by (simp add: fun_eq_iff)
  ultimately show ?thesis using u ch fe(1) cs(2,3) by auto
qed

theorem update_absent_fragment_flattens_witness:
  "\<exists>f e'. update_element LNull (JArr [JStr ''a'', JObj (Some ''span'') [] [JStr ''b''] None]) 0
           app_engine = Inr (LNode f, e') \<and>
         map (kind_of (doc e')) (children_of (doc e') 0) = [Some (TextNode ''a''), Some (ElementNode ''span'')]"
proof -
  have f: "children_of (doc app_engine) 0 = []"
    "valid_descs [JStr ''a'', JObj (Some ''span'') [] [JStr ''b''] None]"
    by code_simp+
  obtain f e' cs where r: "update_element LNull (JArr [JStr ''a'', JObj (Some ''span'') [] [JStr ''b''] None]) 0
           app_engine = Inr (LNode f, e')"
    "children_of (doc e') 0 = children_of (doc app_engine) 0 @ cs"
    "map (kind_of (doc e')) cs =
       map desc_kind (filter (\<lambda>x. desc_kind x \<noteq> None) [JStr ''a'', JObj (Some ''span'') [] [JStr ''b''] None])"
    using update_absent_fragment_flattens [OF wf_app_engine app_engine_facts(3,2) f(2), of LNull]
    by auto
  then show ?thesis using f(1) ascii_lower_span' by auto
qed

end
