(* ===== verification/App_Data.thy ===== *)
theory App_Data
  imports Prelude
begin

text \<open>
  The application data of \<open>src/native-app.js\<close>: the texts of the dashboard, the
  constant \<open>TABS\<close> (lines 116--244) and its multiplication for performance testing
  (lines 246--251). Non-ASCII texts are written as the UTF-8 bytes of the source literal,
  each named after its transliteration; the engine never inspects them. A device item is
  the record \<open>item\<close>, with the fields \<open>createEvent\<close> destructures; \<open>subtitle\<close> is
  \<open>None\<close> where the object has none, and \<open>slim\<close> is the destructuring default
  \<open>false\<close> where it is absent.
\<close>

subsection \<open>Texts\<close>

text \<open>Line 118: "vse".\<close>

definition ru_vse :: string where
  "ru_vse =
    [CHR 0xD0, CHR 0x92, CHR 0xD1, CHR 0x81, CHR 0xD0, CHR 0xB5]"

text \<open>Line 122: "osveshchenie".\<close>

definition ru_osveshchenie :: string where
  "ru_osveshchenie =
    [CHR 0xD0, CHR 0x9E, CHR 0xD1, CHR 0x81, CHR 0xD0, CHR 0xB2, CHR 0xD0, CHR 0xB5, CHR 0xD1, CHR 0x89,
     CHR 0xD0, CHR 0xB5, CHR 0xD0, CHR 0xBD, CHR 0xD0, CHR 0xB8, CHR 0xD0, CHR 0xB5]"

text \<open>Line 124: "vklyucheno".\<close>

definition ru_vklyucheno :: string where
  "ru_vklyucheno =
    [CHR 0xD0, CHR 0x92, CHR 0xD0, CHR 0xBA, CHR 0xD0, CHR 0xBB, CHR 0xD1, CHR 0x8E, CHR 0xD1, CHR 0x87,
     CHR 0xD0, CHR 0xB5, CHR 0xD0, CHR 0xBD, CHR 0xD0, CHR 0xBE]"

text \<open>Line 130: "vklyuchitsya v 17:00".\<close>

definition ru_vklyuchitsya_v_17_00 :: string where
  "ru_vklyuchitsya_v_17_00 =
    [CHR 0xD0, CHR 0x92, CHR 0xD0, CHR 0xBA, CHR 0xD0, CHR 0xBB, CHR 0xD1, CHR 0x8E, CHR 0xD1, CHR 0x87,
     CHR 0xD0, CHR 0xB8, CHR 0xD1, CHR 0x82, CHR 0xD1, CHR 0x81, CHR 0xD1, CHR 0x8F, CHR 0x20, CHR 0xD0,
     CHR 0xB2, CHR 0x20, CHR 0x31, CHR 0x37, CHR 0x3A, CHR 0x30, CHR 0x30]"

text \<open>Line 134: "temperatura".\<close>

definition ru_temperatura :: string where
  "ru_temperatura =
    [CHR 0xD0, CHR 0xA2, CHR 0xD0, CHR 0xB5, CHR 0xD0, CHR 0xBC, CHR 0xD0, CHR 0xBF, CHR 0xD0, CHR 0xB5,
     CHR 0xD1, CHR 0x80, CHR 0xD0, CHR 0xB0, CHR 0xD1, CHR 0x82, CHR 0xD1, CHR 0x83, CHR 0xD1, CHR 0x80,
     CHR 0xD0, CHR 0xB0]"

text \<open>Line 136: "vyklyucheno do 17:00".\<close>

definition ru_vyklyucheno_do_17_00 :: string where
  "ru_vyklyucheno_do_17_00 =
    [CHR 0xD0, CHR 0x92, CHR 0xD1, CHR 0x8B, CHR 0xD0, CHR 0xBA, CHR 0xD0, CHR 0xBB, CHR 0xD1, CHR 0x8E,
     CHR 0xD1, CHR 0x87, CHR 0xD0, CHR 0xB5, CHR 0xD0, CHR 0xBD, CHR 0xD0, CHR 0xBE, CHR 0x20, CHR 0xD0,
     CHR 0xB4, CHR 0xD0, CHR 0xBE, CHR 0x20, CHR 0x31, CHR 0x37, CHR 0x3A, CHR 0x30, CHR 0x30]"

text \<open>Line 171: "kukhnya".\<close>

definition ru_kukhnya :: string where
  "ru_kukhnya =
    [CHR 0xD0, CHR 0x9A, CHR 0xD1, CHR 0x83, CHR 0xD1, CHR 0x85, CHR 0xD0, CHR 0xBD, CHR 0xD1, CHR 0x8F]"

text \<open>Line 188: "zal".\<close>

definition ru_zal :: string where
  "ru_zal =
    [CHR 0xD0, CHR 0x97, CHR 0xD0, CHR 0xB0, CHR 0xD0, CHR 0xBB]"

text \<open>Line 194: "vyklyucheno".\<close>

definition ru_vyklyucheno :: string where
  "ru_vyklyucheno =
    [CHR 0xD0, CHR 0x92, CHR 0xD1, CHR 0x8B, CHR 0xD0, CHR 0xBA, CHR 0xD0, CHR 0xBB, CHR 0xD1, CHR 0x8E,
     CHR 0xD1, CHR 0x87, CHR 0xD0, CHR 0xB5, CHR 0xD0, CHR 0xBD, CHR 0xD0, CHR 0xBE]"

text \<open>Line 205: "lampochki".\<close>

definition ru_lampochki :: string where
  "ru_lampochki =
    [CHR 0xD0, CHR 0x9B, CHR 0xD0, CHR 0xB0, CHR 0xD0, CHR 0xBC, CHR 0xD0, CHR 0xBF, CHR 0xD0, CHR 0xBE,
     CHR 0xD1, CHR 0x87, CHR 0xD0, CHR 0xBA, CHR 0xD0, CHR 0xB8]"

text \<open>Line 234: "kamery".\<close>

definition ru_kamery :: string where
  "ru_kamery =
    [CHR 0xD0, CHR 0x9A, CHR 0xD0, CHR 0xB0, CHR 0xD0, CHR 0xBC, CHR 0xD0, CHR 0xB5, CHR 0xD1, CHR 0x80,
     CHR 0xD1, CHR 0x8B]"

text \<open>Line 405: "glavnoe".\<close>

definition ru_glavnoe :: string where
  "ru_glavnoe =
    [CHR 0xD0, CHR 0x93, CHR 0xD0, CHR 0xBB, CHR 0xD0, CHR 0xB0, CHR 0xD0, CHR 0xB2, CHR 0xD0, CHR 0xBD,
     CHR 0xD0, CHR 0xBE, CHR 0xD0, CHR 0xB5]"

text \<open>Line 424: "privet, gennadii!".\<close>

definition ru_privet_gennadii :: string where
  "ru_privet_gennadii =
    [CHR 0xD0, CHR 0x9F, CHR 0xD1, CHR 0x80, CHR 0xD0, CHR 0xB8, CHR 0xD0, CHR 0xB2, CHR 0xD0, CHR 0xB5,
     CHR 0xD1, CHR 0x82, CHR 0x2C, CHR 0x20, CHR 0xD0, CHR 0x93, CHR 0xD0, CHR 0xB5, CHR 0xD0, CHR 0xBD,
     CHR 0xD0, CHR 0xBD, CHR 0xD0, CHR 0xB0, CHR 0xD0, CHR 0xB4, CHR 0xD0, CHR 0xB8, CHR 0xD0, CHR 0xB9,
     CHR 0x21]"

text \<open>Line 431: "dveri i okna zakryty, signalizatsiya vklyuchena.".\<close>

definition ru_dveri_i_okna_zakryty_signalizatsiya_vklyuchena :: string where
  "ru_dveri_i_okna_zakryty_signalizatsiya_vklyuchena =
    [CHR 0xD0, CHR 0x94, CHR 0xD0, CHR 0xB2, CHR 0xD0, CHR 0xB5, CHR 0xD1, CHR 0x80, CHR 0xD0, CHR 0xB8,
     CHR 0x20, CHR 0xD0, CHR 0xB8, CHR 0x20, CHR 0xD0, CHR 0xBE, CHR 0xD0, CHR 0xBA, CHR 0xD0, CHR 0xBD,
     CHR 0xD0, CHR 0xB0, CHR 0x20, CHR 0xD0, CHR 0xB7, CHR 0xD0, CHR 0xB0, CHR 0xD0, CHR 0xBA, CHR 0xD1,
     CHR 0x80, CHR 0xD1, CHR 0x8B, CHR 0xD1, CHR 0x82, CHR 0xD1, CHR 0x8B, CHR 0x2C, CHR 0x20, CHR 0xD1,
     CHR 0x81, CHR 0xD0, CHR 0xB8, CHR 0xD0, CHR 0xB3, CHR 0xD0, CHR 0xBD, CHR 0xD0, CHR 0xB0, CHR 0xD0,
     CHR 0xBB, CHR 0xD0, CHR 0xB8, CHR 0xD0, CHR 0xB7, CHR 0xD0, CHR 0xB0, CHR 0xD1, CHR 0x86, CHR 0xD0,
     CHR 0xB8, CHR 0xD1, CHR 0x8F, CHR 0x20, CHR 0xD0, CHR 0xB2, CHR 0xD0, CHR 0xBA, CHR 0xD0, CHR 0xBB,
     CHR 0xD1, CHR 0x8E, CHR 0xD1, CHR 0x87, CHR 0xD0, CHR 0xB5, CHR 0xD0, CHR 0xBD, CHR 0xD0, CHR 0xB0,
     CHR 0x2E]"

text \<open>Line 450: "doma".\<close>

definition ru_doma :: string where
  "ru_doma =
    [CHR 0xD0, CHR 0x94, CHR 0xD0, CHR 0xBE, CHR 0xD0, CHR 0xBC, CHR 0xD0, CHR 0xB0]"

text \<open>Line 464: the degree sign.\<close>

definition degree_sign :: string where
  "degree_sign =
    [CHR 0xC2, CHR 0xB0]"

text \<open>Line 481: "za oknom".\<close>

definition ru_za_oknom :: string where
  "ru_za_oknom =
    [CHR 0xD0, CHR 0x97, CHR 0xD0, CHR 0xB0, CHR 0x20, CHR 0xD0, CHR 0xBE, CHR 0xD0, CHR 0xBA, CHR 0xD0,
     CHR 0xBD, CHR 0xD0, CHR 0xBE, CHR 0xD0, CHR 0xBC]"

text \<open>Line 503: "dozhd".\<close>

definition ru_dozhd :: string where
  "ru_dozhd =
    [CHR 0xD0, CHR 0x94, CHR 0xD0, CHR 0xBE, CHR 0xD0, CHR 0xB6, CHR 0xD0, CHR 0xB4, CHR 0xD1, CHR 0x8C]"

text \<open>Line 524: "nachnet okhlazhdat v 16:30".\<close>

definition ru_nachnet_okhlazhdat_v_16_30 :: string where
  "ru_nachnet_okhlazhdat_v_16_30 =
    [CHR 0xD0, CHR 0x9D, CHR 0xD0, CHR 0xB0, CHR 0xD1, CHR 0x87, CHR 0xD0, CHR 0xBD, CHR 0xD0, CHR 0xB5,
     CHR 0xD1, CHR 0x82, CHR 0x20, CHR 0xD0, CHR 0xBE, CHR 0xD1, CHR 0x85, CHR 0xD0, CHR 0xBB, CHR 0xD0,
     CHR 0xB0, CHR 0xD0, CHR 0xB6, CHR 0xD0, CHR 0xB4, CHR 0xD0, CHR 0xB0, CHR 0xD1, CHR 0x82, CHR 0xD1,
     CHR 0x8C, CHR 0x20, CHR 0xD0, CHR 0xB2, CHR 0x20, CHR 0x31, CHR 0x36, CHR 0x3A, CHR 0x33, CHR 0x30]"

text \<open>Line 556: "izbrannye stsenarii".\<close>

definition ru_izbrannye_stsenarii :: string where
  "ru_izbrannye_stsenarii =
    [CHR 0xD0, CHR 0x98, CHR 0xD0, CHR 0xB7, CHR 0xD0, CHR 0xB1, CHR 0xD1, CHR 0x80, CHR 0xD0, CHR 0xB0,
     CHR 0xD0, CHR 0xBD, CHR 0xD0, CHR 0xBD, CHR 0xD1, CHR 0x8B, CHR 0xD0, CHR 0xB5, CHR 0x20, CHR 0xD1,
     CHR 0x81, CHR 0xD1, CHR 0x86, CHR 0xD0, CHR 0xB5, CHR 0xD0, CHR 0xBD, CHR 0xD0, CHR 0xB0, CHR 0xD1,
     CHR 0x80, CHR 0xD0, CHR 0xB8, CHR 0xD0, CHR 0xB8]"

text \<open>Line 568: "vyklyuchit ves svet v dome i vo dvore".\<close>

definition ru_vyklyuchit_ves_svet_v_dome_i_vo_dvore :: string where
  "ru_vyklyuchit_ves_svet_v_dome_i_vo_dvore =
    [CHR 0xD0, CHR 0x92, CHR 0xD1, CHR 0x8B, CHR 0xD0, CHR 0xBA, CHR 0xD0, CHR 0xBB, CHR 0xD1, CHR 0x8E,
     CHR 0xD1, CHR 0x87, CHR 0xD0, CHR 0xB8, CHR 0xD1, CHR 0x82, CHR 0xD1, CHR 0x8C, CHR 0x20, CHR 0xD0,
     CHR 0xB2, CHR 0xD0, CHR 0xB5, CHR 0xD1, CHR 0x81, CHR 0xD1, CHR 0x8C, CHR 0x20, CHR 0xD1, CHR 0x81,
     CHR 0xD0, CHR 0xB2, CHR 0xD0, CHR 0xB5, CHR 0xD1, CHR 0x82, CHR 0x20, CHR 0xD0, CHR 0xB2, CHR 0x20,
     CHR 0xD0, CHR 0xB4, CHR 0xD0, CHR 0xBE, CHR 0xD0, CHR 0xBC, CHR 0xD0, CHR 0xB5, CHR 0x20, CHR 0xD0,
     CHR 0xB8, CHR 0x20, CHR 0xD0, CHR 0xB2, CHR 0xD0, CHR 0xBE, CHR 0x20, CHR 0xD0, CHR 0xB4, CHR 0xD0,
     CHR 0xB2, CHR 0xD0, CHR 0xBE, CHR 0xD1, CHR 0x80, CHR 0xD0, CHR 0xB5]"

text \<open>Line 573: "raspisanie".\<close>

definition ru_raspisanie :: string where
  "ru_raspisanie =
    [CHR 0xD0, CHR 0xA0, CHR 0xD0, CHR 0xB0, CHR 0xD1, CHR 0x81, CHR 0xD0, CHR 0xBF, CHR 0xD0, CHR 0xB8,
     CHR 0xD1, CHR 0x81, CHR 0xD0, CHR 0xB0, CHR 0xD0, CHR 0xBD, CHR 0xD0, CHR 0xB8, CHR 0xD0, CHR 0xB5]"

text \<open>Line 574: "ya ukhozhu".\<close>

definition ru_ya_ukhozhu :: string where
  "ru_ya_ukhozhu =
    [CHR 0xD0, CHR 0xAF, CHR 0x20, CHR 0xD1, CHR 0x83, CHR 0xD1, CHR 0x85, CHR 0xD0, CHR 0xBE, CHR 0xD0,
     CHR 0xB6, CHR 0xD1, CHR 0x83]"

text \<open>Line 580: "vklyuchit svet v koridore".\<close>

definition ru_vklyuchit_svet_v_koridore :: string where
  "ru_vklyuchit_svet_v_koridore =
    [CHR 0xD0, CHR 0x92, CHR 0xD0, CHR 0xBA, CHR 0xD0, CHR 0xBB, CHR 0xD1, CHR 0x8E, CHR 0xD1, CHR 0x87,
     CHR 0xD0, CHR 0xB8, CHR 0xD1, CHR 0x82, CHR 0xD1, CHR 0x8C, CHR 0x20, CHR 0xD1, CHR 0x81, CHR 0xD0,
     CHR 0xB2, CHR 0xD0, CHR 0xB5, CHR 0xD1, CHR 0x82, CHR 0x20, CHR 0xD0, CHR 0xB2, CHR 0x20, CHR 0xD0,
     CHR 0xBA, CHR 0xD0, CHR 0xBE, CHR 0xD1, CHR 0x80, CHR 0xD0, CHR 0xB8, CHR 0xD0, CHR 0xB4, CHR 0xD0,
     CHR 0xBE, CHR 0xD1, CHR 0x80, CHR 0xD0, CHR 0xB5]"

text \<open>Line 586: "nabrat goryachuyu vannu".\<close>

definition ru_nabrat_goryachuyu_vannu :: string where
  "ru_nabrat_goryachuyu_vannu =
    [CHR 0xD0, CHR 0x9D, CHR 0xD0, CHR 0xB0, CHR 0xD0, CHR 0xB1, CHR 0xD1, CHR 0x80, CHR 0xD0, CHR 0xB0,
     CHR 0xD1, CHR 0x82, CHR 0xD1, CHR 0x8C, CHR 0x20, CHR 0xD0, CHR 0xB3, CHR 0xD0, CHR 0xBE, CHR 0xD1,
     CHR 0x80, CHR 0xD1, CHR 0x8F, CHR 0xD1, CHR 0x87, CHR 0xD1, CHR 0x83, CHR 0xD1, CHR 0x8E, CHR 0x20,
     CHR 0xD0, CHR 0xB2, CHR 0xD0, CHR 0xB0, CHR 0xD0, CHR 0xBD, CHR 0xD0, CHR 0xBD, CHR 0xD1, CHR 0x83]"

text \<open>Line 587: "nachnetsya v 18:00".\<close>

definition ru_nachnetsya_v_18_00 :: string where
  "ru_nachnetsya_v_18_00 =
    [CHR 0xD0, CHR 0x9D, CHR 0xD0, CHR 0xB0, CHR 0xD1, CHR 0x87, CHR 0xD0, CHR 0xBD, CHR 0xD1, CHR 0x91,
     CHR 0xD1, CHR 0x82, CHR 0xD1, CHR 0x81, CHR 0xD1, CHR 0x8F, CHR 0x20, CHR 0xD0, CHR 0xB2, CHR 0x20,
     CHR 0x31, CHR 0x38, CHR 0x3A, CHR 0x30, CHR 0x30]"

text \<open>Line 593: "sdelat pol teplym vo vsei kvartire".\<close>

definition ru_sdelat_pol_teplym_vo_vsei_kvartire :: string where
  "ru_sdelat_pol_teplym_vo_vsei_kvartire =
    [CHR 0xD0, CHR 0xA1, CHR 0xD0, CHR 0xB4, CHR 0xD0, CHR 0xB5, CHR 0xD0, CHR 0xBB, CHR 0xD0, CHR 0xB0,
     CHR 0xD1, CHR 0x82, CHR 0xD1, CHR 0x8C, CHR 0x20, CHR 0xD0, CHR 0xBF, CHR 0xD0, CHR 0xBE, CHR 0xD0,
     CHR 0xBB, CHR 0x20, CHR 0xD1, CHR 0x82, CHR 0xD1, CHR 0x91, CHR 0xD0, CHR 0xBF, CHR 0xD0, CHR 0xBB,
     CHR 0xD1, CHR 0x8B, CHR 0xD0, CHR 0xBC, CHR 0x20, CHR 0xD0, CHR 0xB2, CHR 0xD0, CHR 0xBE, CHR 0x20,
     CHR 0xD0, CHR 0xB2, CHR 0xD1, CHR 0x81, CHR 0xD0, CHR 0xB5, CHR 0xD0, CHR 0xB9, CHR 0x20, CHR 0xD0,
     CHR 0xBA, CHR 0xD0, CHR 0xB2, CHR 0xD0, CHR 0xB0, CHR 0xD1, CHR 0x80, CHR 0xD1, CHR 0x82, CHR 0xD0,
     CHR 0xB8, CHR 0xD1, CHR 0x80, CHR 0xD0, CHR 0xB5]"

text \<open>Line 617: "izbrannye ustroistva".\<close>

definition ru_izbrannye_ustroistva :: string where
  "ru_izbrannye_ustroistva =
    [CHR 0xD0, CHR 0x98, CHR 0xD0, CHR 0xB7, CHR 0xD0, CHR 0xB1, CHR 0xD1, CHR 0x80, CHR 0xD0, CHR 0xB0,
     CHR 0xD0, CHR 0xBD, CHR 0xD0, CHR 0xBD, CHR 0xD1, CHR 0x8B, CHR 0xD0, CHR 0xB5, CHR 0x20, CHR 0xD1,
     CHR 0x83, CHR 0xD1, CHR 0x81, CHR 0xD1, CHR 0x82, CHR 0xD1, CHR 0x80, CHR 0xD0, CHR 0xBE, CHR 0xD0,
     CHR 0xB9, CHR 0xD1, CHR 0x81, CHR 0xD1, CHR 0x82, CHR 0xD0, CHR 0xB2, CHR 0xD0, CHR 0xB0]"

subsection \<open>Devices and tabs\<close>

record item =
  icon :: string
  icon_label :: string
  item_title :: string
  subtitle :: "string option"
  slim :: bool

record tab =
  tab_title :: string
  items :: "item list"

text \<open>An object \<open>{ icon, iconLabel, title, subtitle }\<close> of \<open>TABS\<close>.\<close>

definition data_item :: "string \<Rightarrow> string \<Rightarrow> string \<Rightarrow> string \<Rightarrow> item" where
  "data_item i l t s = \<lparr>icon = i, icon_label = l, item_title = t, subtitle = Some s, slim = False\<rparr>"

text \<open>\<open>const TABS = {...}\<close> as written, lines 116--244, in key order.\<close>

definition tabs_literal :: "(string \<times> tab) list" where
  "tabs_literal =
   [(''all'', \<lparr>tab_title = ru_vse, items =
      [data_item ''light2'' ru_osveshchenie ''Xiaomi Yeelight LED Smart Bulb''
         ru_vklyucheno,
       data_item ''light'' ru_osveshchenie ''D-Link Omna 180 Cam''
         ru_vklyuchitsya_v_17_00,
       data_item ''temp'' ru_temperatura ''Elgato Eve Degree Connected''
         ru_vyklyucheno_do_17_00,
       data_item ''light'' ru_osveshchenie ''LIFX Mini Day & Dusk A60 E27''
         ru_vklyuchitsya_v_17_00,
       data_item ''light2'' ru_osveshchenie ''Xiaomi Mi Air Purifier 2S''
         ru_vklyucheno,
       data_item ''light'' ru_osveshchenie ''Philips Zhirui''
         ru_vklyucheno,
       data_item ''light'' ru_osveshchenie ''Philips Zhirui''
         ru_vklyucheno,
       data_item ''light2'' ru_osveshchenie ''Xiaomi Mi Air Purifier 2S''
         ru_vklyucheno]\<rparr>),
    (''kitchen'', \<lparr>tab_title = ru_kukhnya, items =
      [data_item ''light2'' ru_osveshchenie ''Xiaomi Yeelight LED Smart Bulb''
         ru_vklyucheno,
       data_item ''temp'' ru_temperatura ''Elgato Eve Degree Connected''
         ru_vyklyucheno_do_17_00]\<rparr>),
    (''hall'', \<lparr>tab_title = ru_zal, items =
      [data_item ''light'' ru_osveshchenie ''Philips Zhirui''
         ru_vyklyucheno,
       data_item ''light2'' ru_osveshchenie ''Xiaomi Mi Air Purifier 2S''
         ru_vyklyucheno]\<rparr>),
    (''lights'', \<lparr>tab_title = ru_lampochki, items =
      [data_item ''light'' ru_osveshchenie ''D-Link Omna 180 Cam''
         ru_vklyuchitsya_v_17_00,
       data_item ''light'' ru_osveshchenie ''LIFX Mini Day & Dusk A60 E27''
         ru_vklyuchitsya_v_17_00,
       data_item ''light2'' ru_osveshchenie ''Xiaomi Mi Air Purifier 2S''
         ru_vklyucheno,
       data_item ''light'' ru_osveshchenie ''Philips Zhirui''
         ru_vklyucheno]\<rparr>),
    (''cameras'', \<lparr>tab_title = ru_kamery, items =
      [data_item ''light2'' ru_osveshchenie ''Xiaomi Mi Air Purifier 2S''
         ru_vklyucheno]\<rparr>)]"

text \<open>\<open>Math.pow(2, 6)\<close>.\<close>

definition multiplier :: nat where
  "multiplier = 2 ^ 6"

text \<open>Lines 247--249: \<open>TABS.all.items\<close> becomes 64 copies of the original items.\<close>

definition TABS :: "(string \<times> tab) list" where
  "TABS = AList.map_entry ''all''
     (\<lambda>t. t\<lparr>items := concat (replicate multiplier (items t))\<rparr>) tabs_literal"

text \<open>\<open>Object.keys(TABS)\<close>.\<close>

definition TABS_KEYS :: "string list" where
  "TABS_KEYS = map fst TABS"

subsection \<open>Facts about the data\<close>

lemma TABS_KEYS_eq: "TABS_KEYS = [''all'', ''kitchen'', ''hall'', ''lights'', ''cameras'']"
  by (simp add: TABS_KEYS_def TABS_def tabs_literal_def)

lemma distinct_TABS_KEYS: "distinct TABS_KEYS"
  by (simp add: TABS_KEYS_eq)

end
