(* ===== verification/App_State.thy ===== *)
theory App_State
  imports Prelude
begin

text \<open>
  The observable store, class \<open>AppState\<close> of \<open>src/native-app.js\<close> (lines 254--277).
  The state object is an association list in property order (JavaScript objects keep
  insertion order for the non-index keys the program uses); its values are strings, the
  only values the program stores (\<open>activeTab\<close>). Listeners are identified by a value
  of type \<open>'l\<close> compared by equality, as \<open>filter((l) => l !== listener)\<close> compares
  functions by identity. What a listener does is the parameter \<open>call\<close> of
  \<open>set_state\<close>: it acts on the rest of the program's state \<open>'w\<close> and may throw. A
  listener that reads the store through \<open>getState()\<close> during the notification reads
  the state it is passed, since \<open>this.state\<close> is assigned before the loop; the program's
  listener does not call \<open>setState\<close> again.
\<close>

type_synonym obj = "(string \<times> string) list"

record 'l store =
  state :: obj
  listeners :: "'l list"

text \<open>\<open>new AppState()\<close>.\<close>

definition new_app_state :: "'l store" where
  "new_app_state = \<lparr>state = [(''activeTab'', ''all'')], listeners = []\<rparr>"

text \<open>\<open>{ ...a, ...b }\<close>: the properties of \<open>a\<close> in order, then those of \<open>b\<close>
  assigned one by one; an existing key keeps its place, a new key is appended.\<close>

definition spread :: "obj \<Rightarrow> obj \<Rightarrow> obj" where
  "spread a b = foldl (\<lambda>acc (k, v). AList.update k v acc) a b"

text \<open>\<open>setState(newState)\<close>: the merge is stored first, then every listener
  subscribed when the loop starts is called in order with the new state; an exception of
  a listener ends the loop and leaves the new state in place.\<close>

definition set_state ::
  "('l \<Rightarrow> obj \<Rightarrow> 'w \<Rightarrow> ('e, unit, 'w) exc) \<Rightarrow> obj \<Rightarrow> 'l store \<Rightarrow> 'w \<Rightarrow>
     'l store \<times> ('e, unit, 'w) exc" where
  "set_state call ns s w =
     (let s' = s\<lparr>state := spread (state s) ns\<rparr>
      in (s', for_each_exc (\<lambda>l. call l (state s')) (listeners s) w))"

text \<open>\<open>subscribe(listener)\<close>, and the function it returns.\<close>

definition subscribe :: "'l \<Rightarrow> 'l store \<Rightarrow> 'l store" where
  "subscribe l s = s\<lparr>listeners := listeners s @ [l]\<rparr>"

definition unsubscribe :: "'l \<Rightarrow> 'l store \<Rightarrow> 'l store" where
  "unsubscribe l s = s\<lparr>listeners := filter (\<lambda>m. m \<noteq> l) (listeners s)\<rparr>"

definition get_state :: "'l store \<Rightarrow> obj" where
  "get_state s = state s"

text \<open>A listener that records each notification it receives, to observe the calls.\<close>

definition record_call :: "'l \<Rightarrow> obj \<Rightarrow> ('l \<times> obj) list \<Rightarrow> ('e, unit, ('l \<times> obj) list) exc" where
  "record_call l st tr = Inr ((), tr @ [(l, st)])"

subsection \<open>The shallow merge\<close>

lemma map_of_spread: "map_of (spread a b) = map_of a ++ map_of (rev b)"
proof (induction b arbitrary: a)
  case Nil
  then show ?case by (simp add: spread_def)
next
  case (Cons kv b)
  obtain k v where kv: "kv = (k, v)" by fastforce
  have "spread a (kv # b) = spread (AList.update k v a) b" by (simp add: spread_def kv)
  then have "map_of (spread a (kv # b)) = map_of (AList.update k v a) ++ map_of (rev b)"
    using Cons.IH by simp
  then show ?case using kv by (simp add: AList.update_conv' map_add_assoc [symmetric])
qed

lemma spread_keys:
  "\<exists>ks. map fst (spread a b) = map fst a @ ks \<and> set ks \<subseteq> fst ` set b"
proof (induction b arbitrary: a)
  case Nil
  then show ?case by (simp add: spread_def)
next
  case (Cons kv b)
  obtain k v where kv: "kv = (k, v)" by fastforce
  obtain ks where ks: "map fst (spread (AList.update k v a) b) = map fst (AList.update k v a) @ ks"
    "set ks \<subseteq> fst ` set b"
    using Cons.IH by blast
  have "spread a (kv # b) = spread (AList.update k v a) b" by (simp add: spread_def kv)
  then show ?case using ks kv
    by (cases "k \<in> set (map fst a)") (auto simp: AList.update_keys)
qed

lemma distinct_spread: "distinct (map fst a) \<Longrightarrow> distinct (map fst (spread a b))"
  by (induction b arbitrary: a) (auto simp: spread_def AList.distinct_update)

lemma for_each_exc_record:
  "for_each_exc (\<lambda>l. record_call l st) ls tr = Inr ((), tr @ map (\<lambda>l. (l, st)) ls)"
  by (induction ls arbitrary: tr) (simp_all add: record_call_def)

lemma map_of_rev_distinct: "distinct (map fst xs) \<Longrightarrow> map_of (rev xs) = map_of xs"
  by (induction xs) (auto simp: map_add_upd_left dom_map_of_conv_image_fst)

subsection \<open>Properties of the store\<close>

text \<open>C9: \<open>setState\<close> refines map override: read as a finite map, the new state
  is the old one overridden by the argument (whose keys are distinct, as an object's are).\<close>

theorem set_state_refines_merge:
  assumes "distinct (map fst ns)"
  shows "map_of (get_state (fst (set_state call ns s w))) = map_of (get_state s) ++ map_of ns"
  using assms by (simp add: set_state_def get_state_def Let_def map_of_spread map_of_rev_distinct)

theorem set_state_refines_merge_witness:
  "map_of (get_state (fst (set_state (record_call :: nat \<Rightarrow> obj \<Rightarrow> _ \<Rightarrow> (unit, unit, _) exc)
       [(''activeTab'', ''hall'')] new_app_state []))) ''activeTab'' = Some ''hall''"
proof -
  have "map_of (get_state (fst (set_state (record_call :: nat \<Rightarrow> obj \<Rightarrow> _ \<Rightarrow> (unit, unit, _) exc)
       [(''activeTab'', ''hall'')] new_app_state []))) =
      map_of (get_state (new_app_state :: nat store)) ++ map_of [(''activeTab'', ''hall'')]"
    using set_state_refines_merge [of "[(''activeTab'', ''hall'')]"
        "record_call :: nat \<Rightarrow> obj \<Rightarrow> _ \<Rightarrow> (unit, unit, _) exc" new_app_state "[]"]
    by simp
  from fun_cong [OF this, of "''activeTab''"] show ?thesis by simp
qed

text \<open>C10: \<open>setState\<close> calls every subscribed listener once per subscription, in
  subscription order, each with the complete merged state.\<close>

theorem set_state_notifies_in_order:
  "set_state record_call ns s tr =
     (s\<lparr>state := spread (state s) ns\<rparr>,
      Inr ((), tr @ map (\<lambda>l. (l, spread (state s) ns)) (listeners s)))"
  by (simp add: set_state_def for_each_exc_record)

text \<open>C11: the keys of the state stay distinct, and the keys already present keep
  their order: \<open>setState\<close> only appends the new keys of its argument.\<close>

theorem set_state_keys:
  assumes "distinct (map fst (get_state s))"
  shows "distinct (map fst (get_state (fst (set_state call ns s w)))) \<and>
         (\<exists>ks. map fst (get_state (fst (set_state call ns s w))) = map fst (get_state s) @ ks \<and>
               set ks \<subseteq> fst ` set ns)"
  using assms distinct_spread [of "state s" ns] spread_keys [of "state s" ns]
  by (simp add: set_state_def get_state_def Let_def)

theorem set_state_keys_witness:
  "distinct (map fst (get_state (fst (set_state (record_call :: nat \<Rightarrow> obj \<Rightarrow> _ \<Rightarrow> (unit, unit, _) exc)
       [(''page'', ''2'')] new_app_state [])))) \<and>
   map fst (get_state (fst (set_state (record_call :: nat \<Rightarrow> obj \<Rightarrow> _ \<Rightarrow> (unit, unit, _) exc)
       [(''page'', ''2'')] new_app_state []))) = [''activeTab'', ''page'']"
proof -
  have "distinct (map fst (get_state (new_app_state :: nat store)))"
    by (simp add: new_app_state_def get_state_def)
  from set_state_keys [OF this, of "record_call :: nat \<Rightarrow> obj \<Rightarrow> _ \<Rightarrow> (unit, unit, _) exc"
      "[(''page'', ''2'')]" "[]"]
  show ?thesis by (simp add: set_state_def get_state_def new_app_state_def spread_def)
qed

text \<open>C12: a subscribed listener is notified by every later \<open>setState\<close>, after the
  listeners subscribed before it and with the merged state; calling the returned
  unsubscribe function gives the store back, when the listener was not subscribed
  before.\<close>

theorem unsubscribe_subscribe:
  assumes "l \<notin> set (listeners s)"
  shows "snd (set_state record_call ns (subscribe l s) tr) =
           Inr ((), tr @ map (\<lambda>m. (m, spread (state s) ns)) (listeners s) @ [(l, spread (state s) ns)]) \<and>
         unsubscribe l (subscribe l s) = s"
proof
  show "snd (set_state record_call ns (subscribe l s) tr) =
          Inr ((), tr @ map (\<lambda>m. (m, spread (state s) ns)) (listeners s) @ [(l, spread (state s) ns)])"
    by (simp add: set_state_def subscribe_def for_each_exc_record)
  have "filter (\<lambda>m. m \<noteq> l) (listeners s) = listeners s"
    using assms by (auto simp: filter_id_conv)
  then show "unsubscribe l (subscribe l s) = s" by (simp add: unsubscribe_def subscribe_def)
qed

theorem unsubscribe_subscribe_witness:
  "snd (set_state record_call [(''activeTab'', ''hall'')] (subscribe (1::nat) new_app_state) []) =
     Inr ((), [(1, [(''activeTab'', ''hall'')])]) \<and>
   unsubscribe (1::nat) (subscribe 1 new_app_state) = new_app_state"
  using unsubscribe_subscribe [of "1::nat" new_app_state "[(''activeTab'', ''hall'')]" "[]"]
  by (simp add: new_app_state_def spread_def)

text \<open>C13: unsubscribing removes every registration of the listener: after subscribing
  the same listener twice, one unsubscribe leaves the store as unsubscribing once from the
  start would (the design leaves one-or-all open and asks for all).\<close>

theorem unsubscribe_removes_all:
  "unsubscribe l (subscribe l (subscribe l s)) = unsubscribe l s \<and>
   l \<notin> set (listeners (unsubscribe l s))"
  by (simp add: unsubscribe_def subscribe_def)

text \<open>C14: when the first listener throws, \<open>setState\<close> throws the same exception,
  the remaining listeners are not called and the merged state stays stored.\<close>

theorem set_state_listener_throws:
  assumes "listeners s = l # ls" and "call l (spread (state s) ns) w = Inl (err, w')"
  shows "set_state call ns s w = (s\<lparr>state := spread (state s) ns\<rparr>, Inl (err, w'))"
  using assms by (simp add: set_state_def)

theorem set_state_listener_throws_witness:
  "set_state (\<lambda>l st w. if l = (0::nat) then Inl (''boom'', w) else Inr ((), w @ [l]))
     [(''activeTab'', ''hall'')] (subscribe 1 (subscribe 0 new_app_state)) [] =
   (\<lparr>state = [(''activeTab'', ''hall'')], listeners = [0, 1]\<rparr>, Inl (''boom'', []))"
proof -
  have "listeners (subscribe 1 (subscribe 0 (new_app_state :: nat store))) = [0, 1]"
    by (simp add: subscribe_def new_app_state_def)
  from set_state_listener_throws [OF this,
      of "\<lambda>l st w. if l = (0::nat) then Inl (''boom'', w) else Inr ((), w @ [l])"]
  show ?thesis by (simp add: subscribe_def new_app_state_def spread_def)
qed

end
