(* ===== verification/App_View.thy ===== *)
theory App_View
  imports Element_Tree App_Data App_State
begin

text \<open>
  The description builders of \<open>src/native-app.js\<close> (lines 279--667): pure functions
  from data and state to element descriptions. \<open>createEvent\<close> is \<open>create_event\<close>,
  \<open>createHorizontalVirtualizedList\<close> is \<open>create_horizontal_virtualized_list\<close>,
  \<open>createMainComponent\<close> is \<open>create_main_component\<close>, written as its three sections and
  the per-tab \<open>option\<close> and \<open>li\<close> descriptions. Object literals become \<open>JObj\<close>
  with their properties in source order; a conditional spread of properties or children
  becomes a conditional list append. \<open>activeTab\<close> is the value read from the state
  with \<open>getState()\<close>, \<open>None\<close> when the state has no such key (JavaScript's
  \<open>undefined\<close>, which template literals print as \<open>"undefined"\<close>).
\<close>

text \<open>\<open>`${v}`\<close> for a value that may be \<open>undefined\<close>.\<close>

definition js_opt_string :: "string option \<Rightarrow> string" where
  "js_opt_string v = (case v of Some s \<Rightarrow> s | None \<Rightarrow> ''undefined'')"

subsection \<open>\<open>createEvent\<close>, lines 280--323\<close>

definition create_event :: "item \<Rightarrow> jelem" where
  "create_event it =
     JObj (Some ''li'')
       [(''className'', PStr (''event'' @ (if slim it then '' event_slim'' else '''')))]
       [JObj (Some ''button'') [(''className'', PStr ''event__button'')]
          ([JObj (Some ''span'')
              [(''className'', PStr (''event__icon event__icon_'' @ icon it)),
               (''role'', PStr ''img''),
               (''aria-label'', PStr (icon_label it))] [] None,
            JObj (Some ''h3'') [(''className'', PStr ''event__title'')] [JStr (item_title it)] None]
           @ (case subtitle it of
                Some s \<Rightarrow>
                  if s \<noteq> [] then
                    [JObj (Some ''span'') [(''className'', PStr ''event__subtitle'')] [JStr s] None]
                  else []
              | None \<Rightarrow> []))
          None]
       None"

subsection \<open>\<open>createHorizontalVirtualizedList\<close>, lines 325--381\<close>

text \<open>\<open>TABS[activeTab]?.items ?? []\<close>: a key that is not an own key of \<open>TABS\<close>
  (\<open>"undefined"\<close>, or a name inherited from \<open>Object.prototype\<close>, whose value has no
  \<open>items\<close>) gives the empty list.\<close>

definition tab_items :: "string option \<Rightarrow> item list" where
  "tab_items active =
     (case map_of TABS (js_opt_string active) of Some t \<Rightarrow> items t | None \<Rightarrow> [])"

definition create_horizontal_virtualized_list :: "string option \<Rightarrow> jelem" where
  "create_horizontal_virtualized_list active =
     JObj (Some ''div'') [(''className'', PStr ''section__panel-wrapper'')]
       [JObj (Some ''div'')
          [(''className'', PStr ''section__panel''),
           (''role'', PStr ''tabpanel''),
           (''id'', PStr (''panel_'' @ js_opt_string active)),
           (''aria-labelledby'', PStr (''tab_'' @ js_opt_string active))]
          [JObj (Some ''ul'') [(''className'', PStr ''section__panel-list'')]
             (map create_event (tab_items active)) None]
          (Some ''horizontalList''),
        JObj (Some ''button'')
          [(''className'', PStr ''section__arrow''),
           (''onclick'', PFun ScrollList)]
          [JObj (Some ''img'')
             [(''className'', PStr ''section__arrow_icon''),
              (''src'', PStr ''assets/images/arrow-left.svg'')] [] None]
          None]
       None"

subsection \<open>\<open>createMainComponent\<close>, lines 383--667\<close>

text \<open>A call \<open>createEvent({icon, iconLabel, title, subtitle, slim})\<close> with an object
  literal.\<close>

definition event_of ::
  "bool \<Rightarrow> string \<Rightarrow> string \<Rightarrow> string \<Rightarrow> string option \<Rightarrow> jelem" where
  "event_of sl i l t s =
     create_event \<lparr>icon = i, icon_label = l, item_title = t, subtitle = s, slim = sl\<rparr>"

text \<open>One of the two \<open>hero-dashboard__item\<close> entries (lines 439--509).\<close>

definition hero_item :: "string \<Rightarrow> jelem list \<Rightarrow> jelem" where
  "hero_item t details =
     JObj (Some ''li'') [(''className'', PStr ''hero-dashboard__item'')]
       [JObj (Some ''div'') [(''className'', PStr ''hero-dashboard__item-title'')] [JStr t] None,
        JObj (Some ''div'') [(''className'', PStr ''hero-dashboard__item-details'')] details None]
       None"

definition degree_span :: jelem where
  "degree_span = JObj (Some ''span'') [(''className'', PStr ''a11y-hidden'')] [JStr degree_sign] None"

text \<open>The hero section, lines 393--543.\<close>

definition main_hero :: jelem where
  "main_hero =
     JObj (Some ''section'') [(''className'', PStr ''section main__general'')]
       [JObj (Some ''h2'')
          [(''className'', PStr ''section__title section__title-header section__main-title'')]
          [JStr ru_glavnoe] None,
        JObj (Some ''div'') [(''className'', PStr ''hero-dashboard'')]
          [JObj (Some ''div'') [(''className'', PStr ''hero-dashboard__primary'')]
             [JObj (Some ''h3'') [(''className'', PStr ''hero-dashboard__title'')]
                [JStr ru_privet_gennadii] None,
              JObj (Some ''p'') [(''className'', PStr ''hero-dashboard__subtitle'')]
                [JStr ru_dveri_i_okna_zakryty_signalizatsiya_vklyuchena] None,
              JObj (Some ''ul'') [(''className'', PStr ''hero-dashboard__info'')]
                [hero_item ru_doma [JStr ''+23'', degree_span],
                 hero_item ru_za_oknom
                   [JStr ''+19'', degree_span,
                    JObj (Some ''div'')
                      [(''className'', PStr ''hero-dashboard__icon hero-dashboard__icon_rain''),
                       (''role'', PStr ''img''),
                       (''aria-label'', PStr ru_dozhd)] [] None]]
                None]
             None,
           JObj (Some ''ul'') [(''className'', PStr ''hero-dashboard__schedule'')]
             [event_of False ''temp'' ru_temperatura ''Philips Cooler''
                (Some ru_nachnet_okhlazhdat_v_16_30),
              event_of False ''light'' ru_osveshchenie ''Xiaomi Yeelight LED Smart Bulb''
                (Some ru_vklyuchitsya_v_17_00),
              event_of False ''light'' ru_osveshchenie ''Xiaomi Yeelight LED Smart Bulb''
                (Some ru_vklyuchitsya_v_17_00)]
             None]
          None]
       None"

text \<open>The scripts section, lines 545--598.\<close>

definition main_scripts :: jelem where
  "main_scripts =
     JObj (Some ''section'') [(''className'', PStr ''section main__scripts'')]
       [JObj (Some ''h2'') [(''className'', PStr ''section__title section__title-header'')]
          [JStr ru_izbrannye_stsenarii] None,
        JObj (Some ''ul'') [(''className'', PStr ''event-grid'')]
          [event_of True ''light2'' ru_osveshchenie ru_vyklyuchit_ves_svet_v_dome_i_vo_dvore None,
           event_of True ''schedule'' ru_raspisanie ru_ya_ukhozhu None,
           event_of True ''light2'' ru_osveshchenie ru_vklyuchit_svet_v_koridore None,
           event_of True ''temp2'' ru_temperatura ru_nabrat_goryachuyu_vannu
             (Some ru_nachnetsya_v_18_00),
           event_of True ''temp2'' ru_temperatura ru_sdelat_pol_teplym_vo_vsei_kvartire None]
          None]
       None"

text \<open>The \<open>option\<close> for one key of \<open>TABS\<close>, lines 627--634.\<close>

definition tab_option :: "string option \<Rightarrow> string \<Rightarrow> tab \<Rightarrow> jelem" where
  "tab_option active key t =
     JObj (Some ''option'')
       ([(''value'', PStr key)] @ (if Some key = active then [(''selected'', PBool True)] else []))
       [JStr (tab_title t)] None"

text \<open>The tab \<open>li\<close> for one key of \<open>TABS\<close>, lines 642--658.\<close>

definition tab_item :: "string option \<Rightarrow> string \<Rightarrow> tab \<Rightarrow> jelem" where
  "tab_item active key t =
     (let sel = (Some key = active) in
      JObj (Some ''li'')
        ([(''className'', PStr (''section__tab'' @ (if sel then '' section__tab_active'' else ''''))),
          (''role'', PStr ''tab''),
          (''aria-selected'', PStr (if sel then ''true'' else ''false''))]
         @ (if sel then [(''tabindex'', PStr ''0'')] else [])
         @ [(''id'', PStr (''tab_'' @ key)),
            (''aria-controls'', PStr (''panel_'' @ key)),
            (''onclick'', PFun (ClickTab key))])
        [JStr (tab_title t)] None)"

text \<open>The devices section, lines 600--664; \<open>TABS_KEYS.map(key => ... TABS[key] ...)\<close>
  runs over the entries of \<open>TABS\<close> in key order.\<close>

definition main_devices :: "string option \<Rightarrow> jelem" where
  "main_devices active =
     JObj (Some ''section'') [(''className'', PStr ''section main__devices'')]
       [JObj (Some ''div'') [(''className'', PStr ''section__title'')]
          [JObj (Some ''h2'') [(''className'', PStr ''section__title-header'')]
             [JStr ru_izbrannye_ustroistva] None,
           JObj (Some ''select'')
             [(''className'', PStr ''section__select''), (''onchange'', PFun SelectTab)]
             (map (\<lambda>(key, t). tab_option active key t) TABS) None,
           JObj (Some ''ul'') [(''className'', PStr ''section__tabs''), (''role'', PStr ''tablist'')]
             (map (\<lambda>(key, t). tab_item active key t) TABS) None]
          None,
        create_horizontal_virtualized_list active]
       None"

text \<open>\<open>createMainComponent(appState, domGenerator)\<close> on the state \<open>getState()\<close>
  returns.\<close>

definition create_main_component :: "obj \<Rightarrow> jelem" where
  "create_main_component st =
     (let active = map_of st ''activeTab'' in
      JObj (Some ''main'') [(''className'', PStr ''main'')]
        [main_hero, main_scripts, main_devices active] None)"

end
