(* ===== verification/App_Valid.thy ===== *)
theory App_Valid
  imports App_View Engine_Liveness Examples
begin

text \<open>
  The descriptions the program builds are valid (\<open>valid_desc\<close>): every tag is an
  element name \<open>document.createElement\<close> accepts, every attribute name one
  \<open>setAttribute\<close> accepts, every listener a function. The proofs evaluate the names by
  \<open>simp\<close> and treat the data-dependent parts (items, tab keys, texts) symbolically.
\<close>

lemma valid_descs_list_all: "valid_descs xs = list_all valid_desc xs"
  by (induction xs) simp_all

lemmas valid_name_defs = valid_element_name_def valid_attribute_name_def name_forbidden_char_def
  is_ascii_alpha_def is_ascii_whitespace_def starts_with_def valid_prop_def

lemma valid_create_event: "valid_desc (create_event it)"
  by (simp add: create_event_def valid_name_defs split: option.splits)

lemma valid_tab_option: "valid_desc (tab_option active key t)"
  by (simp add: tab_option_def valid_name_defs)

lemma valid_tab_item: "valid_desc (tab_item active key t)"
  by (simp add: tab_item_def valid_name_defs Let_def)

lemma valid_horizontal_list: "valid_desc (create_horizontal_virtualized_list active)"
  by (simp add: create_horizontal_virtualized_list_def valid_name_defs valid_descs_list_all
      list_all_iff valid_create_event)

lemma valid_main_hero: "valid_desc main_hero"
  by (simp add: main_hero_def hero_item_def degree_span_def event_of_def valid_create_event
      valid_name_defs)

lemma valid_main_scripts: "valid_desc main_scripts"
  by (simp add: main_scripts_def event_of_def valid_create_event valid_name_defs)

lemma valid_main_devices: "valid_desc (main_devices active)"
  by (simp add: main_devices_def valid_name_defs valid_descs_list_all list_all_iff
      valid_tab_option valid_tab_item valid_horizontal_list split_def)

lemma valid_main_component: "valid_desc (create_main_component st)"
  by (simp add: create_main_component_def Let_def valid_main_hero valid_main_scripts
      valid_main_devices valid_name_defs)

text \<open>C18: rendering the page \<open>createMainComponent\<close> builds, for any state of the
  store, into a container element of a well-formed document never throws.\<close>

theorem main_page_render_returns:
  assumes "wf_dom (doc e)" and "c \<in> dom (nodes (doc e))" and "accepts_children (doc e) c"
  shows "\<exists>e'. render (create_main_component st) c e = Inr ((), e')"
  using render_total [OF assms valid_main_component] .

theorem main_page_render_returns_witness:
  "\<exists>e'. render (create_main_component (get_state (new_app_state :: unit store))) 0 app_engine = Inr ((), e')"
  using main_page_render_returns [OF wf_app_engine app_engine_facts(3,2)] .

end
