(* ===== verification/Dom_Query.thy ===== *)
theory Dom_Query
  imports Engine_Order
begin

text \<open>
  The two host features the scroll-button timer of \<open>SmartHomeApp\<close> uses:
  \<open>element.querySelector(".cls")\<close>, the first descendant in tree order that is an
  element whose \<open>class\<close> attribute contains the token \<open>cls\<close>, and the setter
  \<open>element.style.prop = v\<close>. The walk over descendants is bounded by \<open>next_ptr\<close>, as
  the ancestor walk is; on a document ordered by allocation that fuel is enough (more
  fuel gives the same walk). Setting a style property changes nothing but that node's
  style (\<open>node_local\<close>).
\<close>

text \<open>The class attribute split at ASCII whitespace into its tokens.\<close>

fun split_on :: "(char \<Rightarrow> bool) \<Rightarrow> string \<Rightarrow> string list" where
  "split_on P [] = [[]]"
| "split_on P (c # cs) =
     (if P c then [] # split_on P cs
      else (case split_on P cs of [] \<Rightarrow> [[c]] | w # ws \<Rightarrow> (c # w) # ws))"

definition class_tokens :: "string \<Rightarrow> string list" where
  "class_tokens s = filter (\<lambda>w. w \<noteq> []) (split_on is_ascii_whitespace s)"

definition has_class :: "dom \<Rightarrow> string \<Rightarrow> ptr \<Rightarrow> bool" where
  "has_class d cls n =
     (case nodes d n of
        None \<Rightarrow> False
      | Some nd \<Rightarrow> is_element_kind (kind nd) \<and>
          (case map_of (attrs nd) ''class'' of None \<Rightarrow> False | Some v \<Rightarrow> cls \<in> set (class_tokens v)))"

text \<open>The descendants of a node in tree order (pre-order), with fuel.\<close>

fun descendants :: "nat \<Rightarrow> dom \<Rightarrow> ptr \<Rightarrow> ptr list" where
  "descendants 0 d n = []"
| "descendants (Suc k) d n = concat (map (\<lambda>c. c # descendants k d c) (children_of d n))"

definition query_selector_class :: "dom \<Rightarrow> ptr \<Rightarrow> string \<Rightarrow> ptr option" where
  "query_selector_class d n cls = find (has_class d cls) (descendants (next_ptr d) d n)"

definition set_style_property :: "ptr \<Rightarrow> string \<Rightarrow> string \<Rightarrow> dom \<Rightarrow> dom" where
  "set_style_property n k v = map_node n (\<lambda>nd. nd\<lparr>style := AList.update k v (style nd)\<rparr>)"

lemma set_style_node_local: "node_local n d (set_style_property n k v d)"
  by (auto simp: node_local_def set_style_property_def map_node_def children_of_def
      parent_of_def kind_of_def fun_eq_iff split: option.splits)

lemma set_style_nodes:
  "nodes (set_style_property n k v d) x =
     (if x = n then map_option (\<lambda>nd. nd\<lparr>style := AList.update k v (style nd)\<rparr>) (nodes d n)
      else nodes d x)"
  by (simp add: set_style_property_def host_simps)

lemma query_selector_class_found:
  "query_selector_class d n cls = Some x \<Longrightarrow> has_class d cls x \<and> x \<in> set (descendants (next_ptr d) d n)"
  by (auto simp: query_selector_class_def find_Some_iff)

text \<open>On an ordered document children have larger pointers than their parent, so the
  descendant walk from \<open>n\<close> needs at most \<open>next_ptr d - n\<close> steps of fuel.\<close>

lemma descendants_fuel:
  assumes wf: "wf_dom d" and o: "ptr_ordered d"
  shows "next_ptr d \<le> n + k \<Longrightarrow> descendants (k + m) d n = descendants k d n"
proof (induction k arbitrary: n)
  case 0
  then have "nodes d n = None" using wf_domD(1) [OF wf, of n] by auto
  then show ?case by (cases m) simp_all
next
  case (Suc k)
  have "descendants (k + m) d c = descendants k d c" if "c \<in> set (children_of d n)" for c
  proof -
    have "n < c" using ptr_orderedD [OF o] wf_domD(3) [OF wf] that by blast
    then show ?thesis using Suc.IH Suc.prems by simp
  qed
  then show ?case by (simp cong: map_cong)
qed

end
