(* ===== verification/Smart_Home.thy ===== *)
theory Smart_Home
  imports App_Valid Dom_Query Engine_Append
begin

text \<open>
  The class \<open>SmartHomeApp\<close> of \<open>src/native-app.js\<close> (lines 669--722) and the events
  its page reacts to. The application is the record \<open>smart_home\<close>: the store, the
  engine and the container. Its only listener is the closure of line 684, which re-renders
  the page from the state it is passed (equal to \<open>getState()\<close> during the
  notification). \<open>updateScrollButton\<close> schedules a timer whose callback sets the
  arrow's display style from a layout measurement; the callback is
  \<open>scroll_button_update\<close>, with the measurement as its boolean argument, and it may
  run between any two events. A user event is
  dispatched along the inclusive ancestors of its target computed when dispatch starts,
  calling at each node the matching listeners in registration order; an exception of a
  listener is reported and dispatch goes on, as in the DOM.
\<close>

text \<open>\<open>() => { this.render(); this.updateScrollButton(); }\<close>, line 684.\<close>

datatype app_listener = RenderOnChange

record smart_home =
  app_state :: "app_listener store"
  dom_generator :: engine
  container :: ptr

text \<open>\<open>SmartHomeApp.render()\<close>, lines 694--697, given the state \<open>getState()\<close> returns.\<close>

definition app_render_page :: "ptr \<Rightarrow> obj \<Rightarrow> engine \<Rightarrow> (dom_error, unit, engine) exc" where
  "app_render_page c st g = render (create_main_component st) c g"

definition app_listener_call ::
  "ptr \<Rightarrow> app_listener \<Rightarrow> obj \<Rightarrow> engine \<Rightarrow> (dom_error, unit, engine) exc" where
  "app_listener_call c l st g = (case l of RenderOnChange \<Rightarrow> app_render_page c st g)"

definition smart_home_render :: "smart_home \<Rightarrow> (dom_error, unit, smart_home) exc" where
  "smart_home_render a =
     (case app_render_page (container a) (get_state (app_state a)) (dom_generator a) of
        Inl (err, g) \<Rightarrow> Inl (err, a\<lparr>dom_generator := g\<rparr>)
      | Inr (_, g) \<Rightarrow> Inr ((), a\<lparr>dom_generator := g\<rparr>))"

text \<open>\<open>this.appState.setState(ns)\<close> in the running application.\<close>

definition app_set_state :: "obj \<Rightarrow> smart_home \<Rightarrow> (dom_error, unit, smart_home) exc" where
  "app_set_state ns a =
     (case set_state (app_listener_call (container a)) ns (app_state a) (dom_generator a) of
        (s', Inl (err, g)) \<Rightarrow> Inl (err, a\<lparr>app_state := s', dom_generator := g\<rparr>)
      | (s', Inr (_, g)) \<Rightarrow> Inr ((), a\<lparr>app_state := s', dom_generator := g\<rparr>))"

text \<open>\<open>if (tabFromUrl && TABS_KEYS.includes(tabFromUrl))\<close>, \<open>None\<close> when the query has
  no \<open>tab\<close> parameter.\<close>

definition url_tab_ok :: "string option \<Rightarrow> bool" where
  "url_tab_ok u = (case u of Some t \<Rightarrow> t \<noteq> [] \<and> t \<in> set TABS_KEYS | None \<Rightarrow> False)"

text \<open>
  \<open>new SmartHomeApp()\<close>, lines 671--692, on the page document \<open>d\<close> whose element
  \<open>#app\<close> is \<open>c\<close> and with the query parameter \<open>u\<close>: a fresh store and engine, the
  tab from the URL stored (no listener yet), the listener subscribed, the first render.
\<close>

definition smart_home_new :: "dom \<Rightarrow> ptr \<Rightarrow> string option \<Rightarrow> (dom_error, unit, smart_home) exc" where
  "smart_home_new d c u =
     (let a0 = \<lparr>app_state = new_app_state, dom_generator = \<lparr>doc = d, refs = Map.empty\<rparr>,
                container = c\<rparr>
      in case (if url_tab_ok u then app_set_state [(''activeTab'', the u)] a0 else Inr ((), a0)) of
           Inl ex \<Rightarrow> Inl ex
         | Inr (_, a1) \<Rightarrow>
             smart_home_render (a1\<lparr>app_state := subscribe RenderOnChange (app_state a1)\<rparr>))"

subsection \<open>Events\<close>

text \<open>A click on a node, or a change of a form control to a new value.\<close>

datatype ui_event = Click ptr | Change ptr string

fun event_type :: "ui_event \<Rightarrow> string" where
  "event_type (Click _) = ''click''"
| "event_type (Change _ _) = ''change''"

fun event_target :: "ui_event \<Rightarrow> ptr" where
  "event_target (Click t) = t"
| "event_target (Change t _) = t"

text \<open>What the program's closures do when called: the tab \<open>onclick\<close> and the select's
  \<open>onchange\<close> store the new tab (\<open>event.target.value\<close> is the value of the changed
  control); the arrow's \<open>onclick\<close> scrolls the list, a layout effect; other functions are
  not created by the program.\<close>

fun run_handler :: "handler \<Rightarrow> ui_event \<Rightarrow> smart_home \<Rightarrow> (dom_error, unit, smart_home) exc" where
  "run_handler (ClickTab k) ev a = app_set_state [(''activeTab'', k)] a"
| "run_handler SelectTab (Change t v) a = app_set_state [(''activeTab'', v)] a"
| "run_handler _ ev a = Inr ((), a)"

text \<open>The function listeners a node has for an event type, in registration order.\<close>

definition node_handlers :: "dom \<Rightarrow> ptr \<Rightarrow> string \<Rightarrow> handler list" where
  "node_handlers d p ty =
     (case nodes d p of
        None \<Rightarrow> []
      | Some nd \<Rightarrow> [h. (t, PFun h) \<leftarrow> node.listeners nd, t = ty])"

fun run_handlers :: "ui_event \<Rightarrow> handler list \<Rightarrow> smart_home \<Rightarrow> smart_home" where
  "run_handlers ev [] a = a"
| "run_handlers ev (h # hs) a = run_handlers ev hs (exc_state (run_handler h ev a))"

fun dispatch_path :: "ui_event \<Rightarrow> ptr list \<Rightarrow> smart_home \<Rightarrow> smart_home" where
  "dispatch_path ev [] a = a"
| "dispatch_path ev (p # ps) a =
     dispatch_path ev ps
       (run_handlers ev (node_handlers (doc (dom_generator a)) p (event_type ev)) a)"

definition dispatch_event :: "ui_event \<Rightarrow> smart_home \<Rightarrow> smart_home" where
  "dispatch_event ev a =
     (let d = doc (dom_generator a)
      in dispatch_path ev (inclusive_ancestors (next_ptr d) d (event_target ev)) a)"

subsection \<open>The scroll-button timer\<close>

text \<open>
  The callback of \<open>updateScrollButton\<close> (lines 699--711). \<open>has_right_scroll\<close> is
  \<open>listElement.scrollWidth > listElement.offsetWidth + listElement.scrollLeft\<close>, a
  layout measurement the model leaves free. The list is looked up in \<open>refs\<close>, the
  arrow by \<open>this.container.querySelector(".section__arrow")\<close>; when both exist the
  arrow's \<open>style.display\<close> is set.
\<close>

definition scroll_button_update :: "bool \<Rightarrow> smart_home \<Rightarrow> smart_home" where
  "scroll_button_update has_right_scroll a =
     (let g = dom_generator a; d = doc g
      in case (refs g ''horizontalList'', query_selector_class d (container a) ''section__arrow'') of
           (Some _, Some ar) \<Rightarrow>
             a\<lparr>dom_generator := g\<lparr>doc := set_style_property ar ''display''
                                           (if has_right_scroll then ''block'' else ''none'') d\<rparr>\<rparr>
         | _ \<Rightarrow> a)"

text \<open>The applications a page can reach: a constructed one, on a document ordered by
  allocation as a parsed page is, then any sequence of events and timer callbacks. Each
  render schedules one callback; letting one run at any moment over-approximates the
  timer queue, so what holds here holds for every real schedule.\<close>

inductive app_reachable :: "smart_home \<Rightarrow> bool" where
  init: "wf_dom d \<Longrightarrow> c \<in> dom (nodes d) \<Longrightarrow> accepts_children d c \<Longrightarrow>
           ptr_ordered d \<Longrightarrow> smart_home_new d c u = Inr ((), a) \<Longrightarrow> app_reachable a"
| step: "app_reachable a \<Longrightarrow> app_reachable (dispatch_event ev a)"
| timer: "app_reachable a \<Longrightarrow> app_reachable (scroll_button_update b a)"

text \<open>The page the program shows: the container's only child is the \<open><main>\<close>
  element that \<open>createMainComponent\<close> describes.\<close>

definition page_shown :: "ptr \<Rightarrow> engine \<Rightarrow> bool" where
  "page_shown c g \<longleftrightarrow>
     (case children_of (doc g) c of [n] \<Rightarrow> kind_of (doc g) n = Some (ElementNode ''main'') | _ \<Rightarrow> False)"

text \<open>The invariant of a running application: a well-formed document whose container
  shows the page, the one subscribed listener, a state with distinct keys.\<close>

definition app_ok :: "smart_home \<Rightarrow> bool" where
  "app_ok a \<longleftrightarrow>
     wf_dom (doc (dom_generator a)) \<and> container a \<in> dom (nodes (doc (dom_generator a))) \<and>
     accepts_children (doc (dom_generator a)) (container a) \<and>
     page_shown (container a) (dom_generator a) \<and>
     store.listeners (app_state a) = [RenderOnChange] \<and> distinct (map fst (get_state (app_state a)))"

subsection \<open>The page stays renderable\<close>

definition page_ok :: "ptr \<Rightarrow> engine \<Rightarrow> bool" where
  "page_ok c g \<longleftrightarrow> wf_dom (doc g) \<and> c \<in> dom (nodes (doc g)) \<and> accepts_children (doc g) c"

text \<open>A renderable page whose document is ordered by allocation (\<open>Engine_Order\<close>).\<close>

definition page_ordered :: "ptr \<Rightarrow> engine \<Rightarrow> bool" where
  "page_ordered c g \<longleftrightarrow> page_ok c g \<and> ptr_ordered (doc g)"

text \<open>A small page for the timer: the arrow button, registered as the list, rendered
  into \<open>#app\<close>.\<close>

definition arrow_app :: smart_home where
  "arrow_app =
     \<lparr>app_state = new_app_state,
      dom_generator = exc_state (render (JObj (Some ''button'') [(''className'', PStr ''section__arrow'')]
                                          [] (Some ''horizontalList'')) 0 app_engine),
      container = 0\<rparr>"

text \<open>A small running page for a click: a \<open><main>\<close> holding one tab \<open><li>\<close> whose
  \<open>onclick\<close> is the closure of line 653 for the key \<open>kitchen\<close>.\<close>

definition click_app :: smart_home where
  "click_app =
     \<lparr>app_state = subscribe RenderOnChange new_app_state,
      dom_generator = exc_state (render (JObj (Some ''main'') []
                                   [JObj (Some ''li'') [(''onclick'', PFun (ClickTab ''kitchen''))] [] None]
                                   None) 0 app_engine),
      container = 0\<rparr>"

lemma render_keeps_node:
  assumes wf: "wf_dom (doc e)" and c: "c \<in> dom (nodes (doc e))"
  shows "c \<in> dom (nodes (doc (exc_state (render j x e)))) \<and>
         kind_of (doc (exc_state (render j x e))) c = kind_of (doc e) c"
proof (cases "create_element j e" rule: exc_cases)
  case (Exc err e1)
  have "grows (doc e) (doc e1)" using create_element_grows [OF wf, of j] Exc by simp
  then show ?thesis using Exc c wf_below [OF wf c]
    by (simp add: render_def grows_dom grows_kind_of)
next
  case (Ret r e1)
  have "grows (doc e) (doc e1)" using create_element_grows [OF wf, of j] Ret by simp
  then have "c \<in> dom (nodes (doc e1)) \<and> kind_of (doc e1) c = kind_of (doc e) c"
    using c wf_below [OF wf c] by (simp add: grows_dom grows_kind_of)
  then show ?thesis using Ret
    by (auto simp: render_def append_child_def Let_def split: option.splits sum.splits)
qed

lemma render_page_ok: "page_ok c g \<Longrightarrow> page_ok c (exc_state (render j c g))"
  using render_wf [of g j c] render_keeps_node [of g c j c]
  by (simp add: page_ok_def accepts_children_def)

lemma render_page_ordered: "page_ordered c g \<Longrightarrow> page_ordered c (exc_state (render j c g))"
  using render_page_ok [of c g j] render_ordered [of g c j]
  by (simp add: page_ordered_def page_ok_def)

lemma main_lower: "ascii_lower ''main'' = ''main''"
  by code_simp

text \<open>Rendering the page into a renderable container returns and leaves exactly the new
  \<open><main>\<close> element in it.\<close>

lemma render_main:
  assumes "page_ok c g"
  shows "\<exists>n e1 g'. create_element (create_main_component st) g = Inr (Some n, e1) \<and>
           render (create_main_component st) c g = Inr ((), g') \<and>
           children_of (doc g') c = [n] \<and> page_ok c g' \<and> page_shown c g'"
proof -
  have wf: "wf_dom (doc g)" and c: "c \<in> dom (nodes (doc g))" "accepts_children (doc g) c"
    using assms by (simp_all add: page_ok_def)
  obtain r e1 where ce: "create_element (create_main_component st) g = Inr (r, e1)"
    using create_total(1) [OF wf valid_main_component] by blast
  have "desc_kind (create_main_component st) = Some (ElementNode ''main'')"
    by (simp add: create_main_component_def Let_def main_lower)
  then obtain n where r: "r = Some n" and k: "kind_of (doc e1) n = Some (ElementNode ''main'')"
    using create_kind [OF wf ce] by (cases r) auto
  obtain g' where rr: "render (create_main_component st) c g = Inr ((), g')"
    using render_total [OF wf c valid_main_component] by blast
  have ch: "children_of (doc g') c = [n]" using render_children [OF wf c ce rr] r k by simp
  have "kind_of (doc g') n = Some (ElementNode ''main'')" using render_kind [OF ce rr] k by simp
  moreover have "page_ok c g'" using render_page_ok [OF assms, of "create_main_component st"] rr by simp
  ultimately show ?thesis using ce r rr ch by (auto simp: page_shown_def)
qed

lemma render_page_shown:
  "page_ok c g \<and> page_shown c g \<Longrightarrow>
     page_ok c (exc_state (render (create_main_component st) c g)) \<and>
     page_shown c (exc_state (render (create_main_component st) c g))"
  using render_main [of c g st] by force

text \<open>Any property of the page that rendering it keeps is kept by a notification, by the
  handlers of an event and by a whole dispatch; the container never changes.\<close>

lemma set_state_page_inv:
  assumes r: "\<And>st g. P c g \<Longrightarrow> P c (exc_state (render (create_main_component st) c g))"
    and p: "P c g"
  shows "P c (exc_state (snd (set_state (app_listener_call c) ns s g)))"
proof -
  have "P c (exc_state (for_each_exc (\<lambda>l. app_listener_call c l st) ls g))" for st ls
    by (rule for_each_exc_invariant [where I = "P c", OF p])
      (simp add: app_listener_call_def app_render_page_def r split: app_listener.splits)
  then show ?thesis by (simp add: set_state_def Let_def)
qed

lemma set_state_page_ok:
  "page_ok c g \<Longrightarrow> page_ok c (exc_state (snd (set_state (app_listener_call c) ns s g)))"
  by (rule set_state_page_inv [where P = page_ok, OF render_page_ok])

lemma app_ok_page:
  "app_ok a \<longleftrightarrow> page_ok (container a) (dom_generator a) \<and> page_shown (container a) (dom_generator a) \<and>
     store.listeners (app_state a) = [RenderOnChange] \<and> distinct (map fst (get_state (app_state a)))"
  by (auto simp: app_ok_def page_ok_def)

lemma set_state_store:
  "fst (set_state call ns s w) = s\<lparr>state := spread (state s) ns\<rparr>"
  by (simp add: set_state_def Let_def)

lemma app_set_state_result:
  "exc_state (app_set_state ns a) =
     a\<lparr>app_state := fst (set_state (app_listener_call (container a)) ns (app_state a) (dom_generator a)),
       dom_generator := exc_state (snd (set_state (app_listener_call (container a)) ns (app_state a)
                                          (dom_generator a)))\<rparr>"
  by (simp add: app_set_state_def split: prod.splits sum.splits)

lemma app_set_state_ok: "app_ok a \<Longrightarrow> app_ok (exc_state (app_set_state ns a))"
  unfolding app_ok_page app_set_state_result
  using set_state_page_inv [where P = "\<lambda>c g. page_ok c g \<and> page_shown c g", OF render_page_shown]
    distinct_spread
  by (simp add: set_state_store get_state_def)

lemma smart_home_render_ok:
  "page_ok (container a) (dom_generator a) \<Longrightarrow> store.listeners (app_state a) = [RenderOnChange] \<Longrightarrow>
     distinct (map fst (get_state (app_state a))) \<Longrightarrow> app_ok (exc_state (smart_home_render a))"
  using render_main [of "container a" "dom_generator a" "get_state (app_state a)"]
  by (auto simp: app_ok_page smart_home_render_def app_render_page_def)

lemma run_handler_ok: "app_ok a \<Longrightarrow> app_ok (exc_state (run_handler h ev a))"
  by (cases h; cases ev) (simp_all add: app_set_state_ok)

text \<open>What every handler keeps, every dispatch keeps.\<close>

lemma dispatch_event_inv:
  assumes h: "\<And>h a. Q a \<Longrightarrow> Q (exc_state (run_handler h ev a))" and q: "Q a"
  shows "Q (dispatch_event ev a)"
proof -
  have hs: "Q a \<Longrightarrow> Q (run_handlers ev hs a)" for hs a
    by (induction hs arbitrary: a) (simp_all add: h)
  have "Q a \<Longrightarrow> Q (dispatch_path ev ps a)" for ps a
    by (induction ps arbitrary: a) (simp_all add: hs)
  then show ?thesis using q by (simp add: dispatch_event_def Let_def)
qed

lemma dispatch_event_ok: "app_ok a \<Longrightarrow> app_ok (dispatch_event ev a)"
  by (rule dispatch_event_inv [where Q = app_ok, OF run_handler_ok])

lemma app_set_state_page:
  assumes r: "\<And>c st g. P c g \<Longrightarrow> P c (exc_state (render (create_main_component st) c g))"
  shows "P (container a) (dom_generator a) \<Longrightarrow>
           P (container (exc_state (app_set_state ns a))) (dom_generator (exc_state (app_set_state ns a)))"
  unfolding app_set_state_result by (simp add: set_state_page_inv [where P = P, OF r])

lemma smart_home_render_page:
  assumes r: "\<And>c st g. P c g \<Longrightarrow> P c (exc_state (render (create_main_component st) c g))"
  shows "P (container a) (dom_generator a) \<Longrightarrow>
           P (container (exc_state (smart_home_render a))) (dom_generator (exc_state (smart_home_render a)))"
  using r [of "container a" "dom_generator a" "get_state (app_state a)"]
  by (auto simp: smart_home_render_def app_render_page_def split: sum.splits prod.splits)

lemma dispatch_event_page:
  assumes r: "\<And>c st g. P c g \<Longrightarrow> P c (exc_state (render (create_main_component st) c g))"
    and p: "P (container a) (dom_generator a)"
  shows "P (container (dispatch_event ev a)) (dom_generator (dispatch_event ev a))"
proof (rule dispatch_event_inv [where Q = "\<lambda>a. P (container a) (dom_generator a)", OF _ p])
  fix h and a' :: smart_home assume "P (container a') (dom_generator a')"
  then show "P (container (exc_state (run_handler h ev a'))) (dom_generator (exc_state (run_handler h ev a')))"
    by (cases h; cases ev) (simp_all add: app_set_state_page [where P = P, OF r])
qed

text \<open>The timer callback edits one node's style only.\<close>

lemma scroll_button_update_cases:
  "(dom_generator (scroll_button_update b a) = dom_generator a \<or>
    (\<exists>ar v. dom_generator (scroll_button_update b a) =
       (dom_generator a)\<lparr>doc := set_style_property ar ''display'' v (doc (dom_generator a))\<rparr>)) \<and>
   container (scroll_button_update b a) = container a \<and>
   app_state (scroll_button_update b a) = app_state a"
  by (auto simp: scroll_button_update_def Let_def split: option.splits)

lemma page_node_local:
  assumes "node_local n (doc g) d'"
  shows "page_ok c g \<Longrightarrow> page_ok c (g\<lparr>doc := d'\<rparr>)"
    and "page_ordered c g \<Longrightarrow> page_ordered c (g\<lparr>doc := d'\<rparr>)"
    and "page_shown c g \<Longrightarrow> page_shown c (g\<lparr>doc := d'\<rparr>)"
  using assms wf_node_local [OF _ assms] ordered_node_local [OF assms]
  by (auto simp: page_ordered_def page_ok_def page_shown_def node_local_def accepts_children_def
      split: list.splits)

lemma scroll_button_ok: "app_ok a \<Longrightarrow> app_ok (scroll_button_update b a)"
  using scroll_button_update_cases [of b a] page_node_local(1,3) [OF set_style_node_local]
  by (auto simp: app_ok_page)

lemma scroll_button_ordered:
  "page_ordered (container a) (dom_generator a) \<Longrightarrow>
     page_ordered (container (scroll_button_update b a)) (dom_generator (scroll_button_update b a))"
  using scroll_button_update_cases [of b a] page_node_local(2) [OF set_style_node_local]
  by auto

lemma smart_home_new_page:
  assumes r: "\<And>c st g. P c g \<Longrightarrow> P c (exc_state (render (create_main_component st) c g))"
    and p: "P c \<lparr>doc = d, refs = Map.empty\<rparr>"
  shows "P (container (exc_state (smart_home_new d c u))) (dom_generator (exc_state (smart_home_new d c u)))"
proof -
  let ?a0 = "\<lparr>app_state = new_app_state, dom_generator = \<lparr>doc = d, refs = Map.empty\<rparr>,
              container = c\<rparr>"
  let ?x = "if url_tab_ok u then app_set_state [(''activeTab'', the u)] ?a0 else Inr ((), ?a0)"
  have x: "P (container (exc_state ?x)) (dom_generator (exc_state ?x))"
    using app_set_state_page [where P = P, OF r, of ?a0] p by simp
  show ?thesis
  proof (cases ?x rule: exc_cases)
    case (Exc err a1)
    then show ?thesis using x by (simp add: smart_home_new_def)
  next
    case (Ret v a1)
    then show ?thesis
      using x smart_home_render_page [where P = P, OF r,
          of "a1\<lparr>app_state := subscribe RenderOnChange (app_state a1)\<rparr>"]
      by (simp add: smart_home_new_def)
  qed
qed

text \<open>Every reachable page is ordered by allocation, so the walks along parent links
  that \<open>dispatch_event\<close> and the hierarchy check run on it are complete.\<close>

lemma app_reachable_ordered:
  "app_reachable a \<Longrightarrow> page_ordered (container a) (dom_generator a)"
proof (induction rule: app_reachable.induct)
  case (init d c u a)
  then have "page_ordered c \<lparr>doc = d, refs = Map.empty\<rparr>"
    by (simp add: page_ordered_def page_ok_def)
  from smart_home_new_page [where P = page_ordered, OF render_page_ordered this, of u]
  show ?case using init.hyps(5) by simp
next
  case (step a ev)
  show ?case by (rule dispatch_event_page [where P = page_ordered, OF render_page_ordered step.IH])
next
  case (timer a b)
  show ?case by (rule scroll_button_ordered [OF timer.IH])
qed

lemma reachable_container_below:
  "app_reachable a \<Longrightarrow> container a < next_ptr (doc (dom_generator a))"
  using app_reachable_ordered [of a]
  by (auto simp: page_ordered_def page_ok_def intro: wf_below)

subsection \<open>Construction\<close>

lemma render_page_returns:
  "page_ok c g \<Longrightarrow> \<exists>g'. app_render_page c st g = Inr ((), g') \<and> page_ok c g' \<and> page_shown c g'"
  using render_main [of c g st] by (auto simp: app_render_page_def)

text \<open>The store of a new application before the first render, and that the constructor
  returns with the invariant established.\<close>

lemma smart_home_new_store:
  "\<exists>s. (if url_tab_ok u then app_set_state [(''activeTab'', the u)] a0 else Inr ((), a0)) =
         Inr ((), a0\<lparr>app_state := s\<rparr>) \<and>
       store.listeners s = store.listeners (app_state a0) \<and>
       state s = (if url_tab_ok u then spread (state (app_state a0)) [(''activeTab'', the u)]
                  else state (app_state a0))"
  if "store.listeners (app_state a0) = []"
proof (cases "url_tab_ok u")
  case True
  then show ?thesis using that
    by (intro exI [of _ "(app_state a0)\<lparr>state := spread (state (app_state a0)) [(''activeTab'', the u)]\<rparr>"])
      (simp add: app_set_state_def set_state_def Let_def)
next
  case False
  then show ?thesis by (intro exI [of _ "app_state a0"]) simp
qed

lemma smart_home_new_returns:
  assumes "page_ok c \<lparr>doc = d, refs = Map.empty\<rparr>"
  shows "\<exists>a. smart_home_new d c u = Inr ((), a) \<and> app_ok a \<and>
           get_state (app_state a) =
             (if url_tab_ok u then spread [(''activeTab'', ''all'')] [(''activeTab'', the u)]
              else [(''activeTab'', ''all'')])"
proof -
  let ?a0 = "\<lparr>app_state = new_app_state, dom_generator = \<lparr>doc = d, refs = Map.empty\<rparr>,
              container = c\<rparr>"
  obtain s where s: "(if url_tab_ok u then app_set_state [(''activeTab'', the u)] ?a0 else Inr ((), ?a0)) =
         Inr ((), ?a0\<lparr>app_state := s\<rparr>)" "store.listeners s = []"
    "state s = (if url_tab_ok u then spread [(''activeTab'', ''all'')] [(''activeTab'', the u)]
                else [(''activeTab'', ''all'')])"
    using smart_home_new_store [of ?a0 u] by (auto simp: new_app_state_def)
  obtain g' where g': "app_render_page c (state s) \<lparr>doc = d, refs = Map.empty\<rparr> = Inr ((), g')"
    "page_ok c g'" "page_shown c g'"
    using render_page_returns [OF assms] by blast
  have "distinct (map fst (state s))"
    using s(3) distinct_spread [of "[(''activeTab'', ''all'')]"] by simp
  then show ?thesis using s g'
    by (simp add: smart_home_new_def smart_home_render_def app_ok_page subscribe_def get_state_def)
qed

lemma page_ok_app_engine: "page_ok 0 \<lparr>doc = doc app_engine, refs = Map.empty\<rparr>"
  using wf_app_engine app_engine_facts by (simp add: page_ok_def)

lemma app_engine_new_returns:
  "\<exists>a. smart_home_new (doc app_engine) 0 u = Inr ((), a) \<and> app_ok a"
  using smart_home_new_returns [OF page_ok_app_engine] by blast

lemma app_engine_reachable: "app_reachable (exc_state (smart_home_new (doc app_engine) 0 u))"
proof -
  obtain a where a: "smart_home_new (doc app_engine) 0 u = Inr ((), a)"
    using app_engine_new_returns by blast
  have "app_reachable a"
    by (rule app_reachable.init [OF wf_app_engine app_engine_facts(3,2) ordered_app_engine a])
  then show ?thesis using a by simp
qed

text \<open>A \<open>setState\<close> in a running application stores the merge and re-renders the page
  from it.\<close>

lemma app_set_state_renders:
  assumes "app_ok a"
  shows "\<exists>g'. render (create_main_component (spread (get_state (app_state a)) ns)) (container a)
                 (dom_generator a) = Inr ((), g') \<and>
           app_set_state ns a =
             Inr ((), a\<lparr>app_state := (app_state a)\<lparr>state := spread (get_state (app_state a)) ns\<rparr>,
                        dom_generator := g'\<rparr>)"
proof -
  have p: "page_ok (container a) (dom_generator a)" and l: "store.listeners (app_state a) = [RenderOnChange]"
    using assms by (simp_all add: app_ok_page)
  obtain g' where "render (create_main_component (spread (get_state (app_state a)) ns)) (container a)
                 (dom_generator a) = Inr ((), g')"
    using render_main [OF p] by blast
  then show ?thesis using l
    by (simp add: app_set_state_def set_state_def Let_def app_listener_call_def app_render_page_def
        get_state_def)
qed

lemma run_handler_shape:
  "\<exists>t. get_state (app_state a) = [(''activeTab'', t)] \<Longrightarrow>
     \<exists>t. get_state (app_state (exc_state (run_handler h ev a))) = [(''activeTab'', t)]"
  by (cases h; cases ev) (auto simp: app_set_state_result set_state_store get_state_def spread_def)

lemma TABS_KEYS_nonempty: "[] \<notin> set TABS_KEYS"
  by (simp add: TABS_KEYS_eq)

text \<open>Listeners of a node are not changed by the tree operations, so \<open>render\<close> keeps the
  handlers of every node that existed before it.\<close>

lemma node_handlers_map_node:
  "(\<And>nd. node.listeners (f nd) = node.listeners nd) \<Longrightarrow> node_handlers (map_node m f d) = node_handlers d"
  by (auto simp: node_handlers_def map_node_def fun_eq_iff split: option.splits)

lemma node_handlers_links [simp]:
  "node_handlers (set_children p cs d) = node_handlers d"
  "node_handlers (set_parent c q d) = node_handlers d"
  by (simp_all add: set_children_def set_parent_def node_handlers_map_node)

lemma node_handlers_fold_set_parent [simp]:
  "node_handlers (fold (\<lambda>n. set_parent n q) ns d) = node_handlers d"
  by (induction ns arbitrary: d) simp_all

lemma node_handlers_tree_ops [simp]:
  "node_handlers (detach c d) = node_handlers d"
  "node_handlers (insert_node p c r d) = node_handlers d"
  "node_handlers (clear_children p d) = node_handlers d"
  by (simp_all add: detach_def insert_node_def clear_children_def Let_def split: option.splits)

lemma node_handlers_render_create:
  "node_handlers (doc (exc_state (render j c g))) = node_handlers (doc (exc_state (create_element j g)))"
proof (cases "create_element j g" rule: exc_cases)
  case (Exc err e1)
  then show ?thesis by (simp add: render_def)
next
  case (Ret r e1)
  show ?thesis
  proof (cases r)
    case None
    then show ?thesis using Ret by (simp add: render_def)
  next
    case (Some n)
    then show ?thesis using Ret
      by (cases "insert_check c n None (clear_children c (doc e1))")
         (simp_all add: render_def append_child_def)
  qed
qed

lemma node_handlers_render:
  assumes wf: "wf_dom (doc g)" and x: "x < next_ptr (doc g)"
  shows "node_handlers (doc (exc_state (render j c g))) x ty = node_handlers (doc g) x ty"
proof -
  have "nodes (doc (exc_state (create_element j g))) x = nodes (doc g) x"
    using create_element_grows [OF wf, of j] x by (simp add: grows_def)
  then show ?thesis by (simp add: node_handlers_render_create node_handlers_def)
qed

lemma ancestors_allocated:
  assumes wf: "wf_dom d"
  shows "q \<in> set (inclusive_ancestors k d x) \<Longrightarrow> q \<noteq> x \<Longrightarrow> q < next_ptr d"
proof (induction k arbitrary: x)
  case 0
  then show ?case by simp
next
  case (Suc k)
  then obtain p where p: "parent_of d x = Some p" "q \<in> set (inclusive_ancestors k d p)"
    by (cases "parent_of d x") auto
  show ?case
  proof (cases "q = p")
    case True
    then show ?thesis using wf_parent_below [OF wf p(1)] by simp
  next
    case False
    then show ?thesis using Suc.IH [OF p(2)] by simp
  qed
qed

lemma dispatch_path_idle:
  "\<forall>q\<in>set ps. node_handlers (doc (dom_generator a)) q (event_type ev) = [] \<Longrightarrow> dispatch_path ev ps a = a"
  by (induction ps) simp_all

subsection \<open>Properties of the application\<close>

text \<open>C19: every application a page can reach (constructed on a well-formed document,
  ordered by allocation as a parsed page is, whose \<open>#app\<close> element accepts children,
  then driven by any sequence of clicks, changes and timer callbacks) shows the page: the
  container's only child is the \<open><main>\<close> element the program built; its document is
  well formed, the one listener stays subscribed, and the state is exactly the one
  property \<open>activeTab\<close>, the only key the constructor and the closures ever set.\<close>

theorem app_reachable_ok:
  "app_reachable a \<Longrightarrow> app_ok a \<and> (\<exists>t. get_state (app_state a) = [(''activeTab'', t)])"
proof (induction rule: app_reachable.induct)
  case (init d c u a)
  then show ?case using smart_home_new_returns [of c d u] by (auto simp: page_ok_def spread_def)
next
  case (step a ev)
  have "\<exists>t. get_state (app_state (dispatch_event ev a)) = [(''activeTab'', t)]"
    using step.IH
    by (intro dispatch_event_inv [where Q = "\<lambda>a. \<exists>t. get_state (app_state a) = [(''activeTab'', t)]"])
      (simp_all add: run_handler_shape)
  then show ?case using step.IH dispatch_event_ok by blast
next
  case (timer a b)
  then show ?case using scroll_button_ok scroll_button_update_cases [of b a] by auto
qed

theorem app_reachable_ok_witness:
  "app_ok (dispatch_event (Click 0) (exc_state (smart_home_new (doc app_engine) 0 None))) \<and>
   (\<exists>t. get_state (app_state (dispatch_event (Click 0) (exc_state (smart_home_new (doc app_engine) 0 None))))
      = [(''activeTab'', t)])"
proof -
  have "app_reachable (dispatch_event (Click 0) (exc_state (smart_home_new (doc app_engine) 0 None)))"
    by (rule app_reachable.step [OF app_engine_reachable])
  from app_reachable_ok [OF this] show ?thesis .
qed

text \<open>C20: in a running application, \<open>setState\<close> returns: it stores the merged state,
  and the page becomes exactly the render of \<open>createMainComponent\<close> for the merged
  state: the container's former children are detached and its only child is the node
  created from that state's description.\<close>

theorem app_set_state_rerenders:
  assumes ok: "app_ok a" and ns: "distinct (map fst ns)"
  shows "\<exists>a' n e1. app_set_state ns a = Inr ((), a') \<and> app_ok a' \<and>
     map_of (get_state (app_state a')) = map_of (get_state (app_state a)) ++ map_of ns \<and>
     dom_generator a' =
       exc_state (render (create_main_component (get_state (app_state a'))) (container a) (dom_generator a)) \<and>
     create_element (create_main_component (get_state (app_state a'))) (dom_generator a) = Inr (Some n, e1) \<and>
     children_of (doc (dom_generator a')) (container a) = [n] \<and>
     (\<forall>x \<in> set (children_of (doc (dom_generator a)) (container a)).
        parent_of (doc (dom_generator a')) x = None)"
proof -
  let ?c = "container a" and ?g = "dom_generator a" and ?s = "app_state a"
  let ?st = "spread (get_state ?s) ns"
  have p: "page_ok ?c ?g" using ok by (simp add: app_ok_page)
  obtain n e1 g' where m: "create_element (create_main_component ?st) ?g = Inr (Some n, e1)"
    "render (create_main_component ?st) ?c ?g = Inr ((), g')" "children_of (doc g') ?c = [n]"
    using render_main [OF p] by blast
  let ?a' = "a\<lparr>app_state := ?s\<lparr>state := ?st\<rparr>, dom_generator := g'\<rparr>"
  have ss: "app_set_state ns a = Inr ((), ?a')"
    using app_set_state_renders [OF ok, of ns] m(2) by auto
  have "app_ok ?a'" using app_set_state_ok [OF ok, of ns] ss by simp
  moreover have "map_of (get_state (app_state ?a')) = map_of (get_state ?s) ++ map_of ns"
    using ns by (simp add: get_state_def map_of_spread map_of_rev_distinct)
  moreover have "\<forall>x \<in> set (children_of (doc ?g) ?c). parent_of (doc g') x = None"
    using render_replaces_children [OF _ _ m(2)] p by (simp add: page_ok_def)
  moreover have "get_state (app_state ?a') = ?st" by (simp add: get_state_def)
  ultimately show ?thesis using ss m by auto
qed

theorem app_set_state_rerenders_witness:
  "\<exists>a'. app_set_state [(''activeTab'', ''hall'')] (exc_state (smart_home_new (doc app_engine) 0 None))
      = Inr ((), a') \<and> app_ok a' \<and> map_of (get_state (app_state a')) ''activeTab'' = Some ''hall''"
proof -
  obtain a where a: "smart_home_new (doc app_engine) 0 None = Inr ((), a)" "app_ok a"
    using app_engine_new_returns by blast
  obtain a' where a': "app_set_state [(''activeTab'', ''hall'')] a = Inr ((), a')" "app_ok a'"
    "map_of (get_state (app_state a')) = map_of (get_state (app_state a)) ++ map_of [(''activeTab'', ''hall'')]"
    using app_set_state_rerenders [OF a(2), of "[(''activeTab'', ''hall'')]"] by auto
  have "map_of (get_state (app_state a')) ''activeTab'' = Some ''hall''"
    using fun_cong [OF a'(3), of "''activeTab''"] by simp
  then show ?thesis using a a' by auto
qed

text \<open>C21: \<open>new SmartHomeApp()\<close> on a well-formed page returns with the page shown;
  the state is the single property \<open>activeTab\<close>, whose value is the \<open>tab\<close> query
  parameter when that is a key of \<open>TABS\<close>, and \<open>"all"\<close> when it is another string
  or absent.\<close>

theorem smart_home_new_tab:
  assumes "wf_dom d" "c \<in> dom (nodes d)" "accepts_children d c"
  shows "\<exists>a. smart_home_new d c u = Inr ((), a) \<and> app_ok a \<and>
           get_state (app_state a) =
             [(''activeTab'', case u of Some t \<Rightarrow> if t \<in> set TABS_KEYS then t else ''all'' | None \<Rightarrow> ''all'')]"
proof -
  have "page_ok c \<lparr>doc = d, refs = Map.empty\<rparr>" using assms by (simp add: page_ok_def)
  moreover have "(if url_tab_ok u then spread [(''activeTab'', ''all'')] [(''activeTab'', the u)]
                  else [(''activeTab'', ''all'')]) =
      [(''activeTab'', case u of Some t \<Rightarrow> if t \<in> set TABS_KEYS then t else ''all'' | None \<Rightarrow> ''all'')]"
    using TABS_KEYS_nonempty by (cases u) (auto simp: url_tab_ok_def spread_def)
  ultimately show ?thesis using smart_home_new_returns [of c d u] by auto
qed

theorem smart_home_new_tab_witness:
  "\<exists>a. smart_home_new (doc app_engine) 0 (Some ''kitchen'') = Inr ((), a) \<and> app_ok a \<and>
     get_state (app_state a) = [(''activeTab'', ''kitchen'')]"
  using smart_home_new_tab [OF wf_app_engine app_engine_facts(3,2), of "Some ''kitchen''"]
  by (simp add: TABS_KEYS_eq)

text \<open>C28: a click on a tab item runs its closure (line 653) and nothing else: when the
  clicked node's only click listener is the tab closure for key \<open>k\<close> and no ancestor
  listens to clicks, dispatch stores \<open>activeTab = k\<close> merged into the state and leaves
  the page rendered from exactly that state.\<close>

theorem dispatch_click_tab:
  assumes ok: "app_ok a" and t: "t < next_ptr (doc (dom_generator a))"
    and h: "node_handlers (doc (dom_generator a)) t ''click'' = [ClickTab k]"
    and up: "\<forall>q \<in> set (tl (inclusive_ancestors (next_ptr (doc (dom_generator a))) (doc (dom_generator a)) t)).
               node_handlers (doc (dom_generator a)) q ''click'' = []"
  shows "get_state (app_state (dispatch_event (Click t) a)) =
           spread (get_state (app_state a)) [(''activeTab'', k)] \<and>
         dom_generator (dispatch_event (Click t) a) =
           exc_state (render (create_main_component (spread (get_state (app_state a)) [(''activeTab'', k)]))
                        (container a) (dom_generator a))"
proof -
  let ?d = "doc (dom_generator a)" and ?st = "spread (get_state (app_state a)) [(''activeTab'', k)]"
  obtain K where K: "next_ptr ?d = Suc K" using t by (cases "next_ptr ?d") auto
  obtain rest where path: "inclusive_ancestors (next_ptr ?d) ?d t = t # rest" using K by simp
  have up': "\<forall>q\<in>set rest. node_handlers ?d q ''click'' = []" using up path by simp
  obtain g' where g': "render (create_main_component ?st) (container a) (dom_generator a) = Inr ((), g')"
    "app_set_state [(''activeTab'', k)] a =
       Inr ((), a\<lparr>app_state := (app_state a)\<lparr>state := ?st\<rparr>, dom_generator := g'\<rparr>)"
    using app_set_state_renders [OF ok] by blast
  let ?a1 = "a\<lparr>app_state := (app_state a)\<lparr>state := ?st\<rparr>, dom_generator := g'\<rparr>"
  have wf: "wf_dom ?d" using ok by (simp add: app_ok_def)
  have below: "q < next_ptr ?d" if "q \<in> set rest" for q
  proof -
    from that K path obtain p where p: "parent_of ?d t = Some p" "q \<in> set (inclusive_ancestors K ?d p)"
      by (cases "parent_of ?d t") auto
    then show ?thesis using ancestors_allocated [OF wf p(2)] wf_parent_below [OF wf p(1)]
      by (cases "q = p") auto
  qed
  have "\<forall>q\<in>set rest. node_handlers (doc (dom_generator ?a1)) q (event_type (Click t)) = []"
    using node_handlers_render [OF wf below, of _ "create_main_component ?st" "container a"] g'(1) up'
    by simp
  then have "dispatch_path (Click t) rest ?a1 = ?a1" by (rule dispatch_path_idle)
  then have "dispatch_event (Click t) a = ?a1"
    using path h g'(2) by (simp add: dispatch_event_def Let_def)
  then show ?thesis using g'(1) by (simp add: get_state_def)
qed

lemma click_app_facts:
  "next_ptr (doc (dom_generator click_app)) = 3"
  "node_handlers (doc (dom_generator click_app)) 2 ''click'' = [ClickTab ''kitchen'']"
  "tl (inclusive_ancestors 3 (doc (dom_generator click_app)) 2) = [1, 0]"
  "node_handlers (doc (dom_generator click_app)) 1 ''click'' = []"
  "node_handlers (doc (dom_generator click_app)) 0 ''click'' = []"
  "nodes (doc (dom_generator click_app)) (container click_app) \<noteq> None"
  "accepts_children (doc (dom_generator click_app)) (container click_app)"
  "page_shown (container click_app) (dom_generator click_app)"
  "store.listeners (app_state click_app) = [RenderOnChange]"
  "get_state (app_state click_app) = [(''activeTab'', ''all'')]"
  by code_simp+

lemma click_app_ok: "app_ok click_app"
proof -
  have "wf_dom (doc (dom_generator click_app))"
    unfolding click_app_def smart_home.select_convs by (rule render_wf [OF wf_app_engine])
  then show ?thesis using click_app_facts(6-10) by (simp add: app_ok_def domIff)
qed

theorem dispatch_click_tab_witness:
  "get_state (app_state (dispatch_event (Click 2) click_app)) = [(''activeTab'', ''kitchen'')]"
proof -
  have "get_state (app_state (dispatch_event (Click 2) click_app)) =
      spread (get_state (app_state click_app)) [(''activeTab'', ''kitchen'')]"
    using dispatch_click_tab [OF click_app_ok, of 2 "''kitchen''"] click_app_facts(1-5) by simp
  then show ?thesis using click_app_facts(10) by (simp add: spread_def)
qed

text \<open>C25: the scroll-button timer callback: when the list is registered in \<open>refs\<close>
  and the container has a \<open>.section__arrow\<close> descendant, it sets that element's
  \<open>style.display\<close> to \<open>block\<close> or \<open>none\<close> from the layout measurement and changes
  no other node, the store or the references; otherwise it changes nothing.\<close>

theorem scroll_button_update_effect:
  "(refs (dom_generator a) ''horizontalList'' = None \<or>
    query_selector_class (doc (dom_generator a)) (container a) ''section__arrow'' = None \<longrightarrow>
      scroll_button_update b a = a) \<and>
   (refs (dom_generator a) ''horizontalList'' \<noteq> None \<and>
    query_selector_class (doc (dom_generator a)) (container a) ''section__arrow'' = Some ar \<longrightarrow>
      (\<exists>nd. nodes (doc (dom_generator a)) ar = Some nd \<and>
         nodes (doc (dom_generator (scroll_button_update b a))) ar =
           Some (nd\<lparr>style := AList.update ''display'' (if b then ''block'' else ''none'') (style nd)\<rparr>)) \<and>
      (\<forall>x. x \<noteq> ar \<longrightarrow>
         nodes (doc (dom_generator (scroll_button_update b a))) x = nodes (doc (dom_generator a)) x) \<and>
      refs (dom_generator (scroll_button_update b a)) = refs (dom_generator a) \<and>
      app_state (scroll_button_update b a) = app_state a \<and>
      container (scroll_button_update b a) = container a)"
proof (intro conjI impI)
  assume "refs (dom_generator a) ''horizontalList'' = None \<or>
    query_selector_class (doc (dom_generator a)) (container a) ''section__arrow'' = None"
  then show "scroll_button_update b a = a"
    by (auto simp: scroll_button_update_def Let_def split: option.splits)
next
  assume r: "refs (dom_generator a) ''horizontalList'' \<noteq> None \<and>
    query_selector_class (doc (dom_generator a)) (container a) ''section__arrow'' = Some ar"
  then have u: "dom_generator (scroll_button_update b a) =
      (dom_generator a)\<lparr>doc := set_style_property ar ''display'' (if b then ''block'' else ''none'')
                                   (doc (dom_generator a))\<rparr>"
    "app_state (scroll_button_update b a) = app_state a"
    "container (scroll_button_update b a) = container a"
    by (auto simp: scroll_button_update_def Let_def)
  have "has_class (doc (dom_generator a)) ''section__arrow'' ar"
    using query_selector_class_found r by blast
  then obtain nd where nd: "nodes (doc (dom_generator a)) ar = Some nd"
    by (auto simp: has_class_def split: option.splits)
  show "\<exists>nd. nodes (doc (dom_generator a)) ar = Some nd \<and>
         nodes (doc (dom_generator (scroll_button_update b a))) ar =
           Some (nd\<lparr>style := AList.update ''display'' (if b then ''block'' else ''none'') (style nd)\<rparr>)"
    using nd u(1) by (simp add: set_style_nodes)
  show "\<forall>x. x \<noteq> ar \<longrightarrow>
         nodes (doc (dom_generator (scroll_button_update b a))) x = nodes (doc (dom_generator a)) x"
    using u(1) by (simp add: set_style_nodes)
  show "refs (dom_generator (scroll_button_update b a)) = refs (dom_generator a)"
    using u(1) by simp
  show "app_state (scroll_button_update b a) = app_state a" by (fact u(2))
  show "container (scroll_button_update b a) = container a" by (fact u(3))
qed

lemma arrow_app_facts:
  "refs (dom_generator arrow_app) ''horizontalList'' = Some 1"
  "query_selector_class (doc (dom_generator arrow_app)) (container arrow_app) ''section__arrow'' = Some 1"
  by code_simp+

theorem scroll_button_update_effect_witness:
  "map_option (\<lambda>nd. map_of (style nd) ''display'')
     (nodes (doc (dom_generator (scroll_button_update True arrow_app))) 1) = Some (Some ''block'')"
proof -
  obtain nd where "nodes (doc (dom_generator (scroll_button_update True arrow_app))) 1 =
      Some (nd\<lparr>style := AList.update ''display'' ''block'' (style nd)\<rparr>)"
    using scroll_button_update_effect [of arrow_app True 1] arrow_app_facts by auto
  then show ?thesis by (simp add: update_conv')
qed

end
