(* ===== verification/Spec2Isabelle.thy ===== *)
theory Spec2Isabelle
  imports Engine_Spec Smart_Home
begin

text \<open>
  \<^bold>\<open>A verification library for \<open>src/native-app.js\<close>.\<close>

  The program renders a declarative description of a page (plain JavaScript objects
  with \<open>tag\<close>, \<open>props\<close>, \<open>children\<close>, \<open>ref\<close>) into the browser document through the
  class \<open>DOMGenerator\<close> (lines 2--113), and re-renders when the application state held by
  \<open>AppState\<close> (lines 254--277) changes. The rest of the file is application content:
  the data \<open>TABS\<close>, the description builders (\<open>createEvent\<close>,
  \<open>createHorizontalVirtualizedList\<close>, \<open>createMainComponent\<close>) and the bootstrap class
  \<open>SmartHomeApp\<close>.

  \<^bold>\<open>Theories.\<close>
  \<^item> \<open>Prelude\<close>: the pointer type, the result type \<open>exc\<close> of a JavaScript call that
    may throw after mutating state (\<open>Inl (error, state)\<close> or \<open>Inr (value, state)\<close>, no
    rollback), \<open>forEach\<close> over such calls (\<open>for_each\<close>, \<open>for_each_exc\<close>), ASCII case
    mapping, number to string conversion, list lemmas.
  \<^item> \<open>Element_Tree\<close>: the descriptions (\<open>jelem\<close>), property values (\<open>pval\<close>) and
    function values (\<open>handler\<close>: the program's three closures by name) with the
    JavaScript tests the engine applies to them (truthiness, \<open>typeof\<close>,
    \<open>tag?.toUpperCase()\<close>).
  \<^item> \<open>Dom_Host\<close>: the browser document as a heap of nodes (\<open>dom\<close>) and the DOM
    methods the engine calls, after the WHATWG DOM algorithms, with the exceptions they
    throw; the invariant \<open>wf_dom\<close> and its preservation by every mutating method.
    This is the host the design (section 6) names as external interface; it is not code of
    the repository.
  \<^item> \<open>Dom_Generator\<close>: \<open>DOMGenerator\<close> (lines 2--113); the state is the record
    \<open>engine\<close> (document and \<open>this.refs\<close>); \<open>createElement\<close> is \<open>create_element\<close>
    with its children loop \<open>create_children\<close> and property switch \<open>apply_prop\<close>;
    \<open>updateElement\<close> is \<open>update_element\<close> with \<open>replace_with_new\<close> and
    \<open>patch_prop\<close>; \<open>render\<close> is \<open>render\<close>.
  \<^item> \<open>Create_Frame\<close>: what creation does to the document (\<open>create_frame\<close>): it keeps
    \<open>wf_dom\<close>, changes no existing node, returns a fresh parentless node; one computation
    induction over the mutual recursion.
  \<^item> \<open>Engine_Props\<close>: preservation of \<open>wf_dom\<close> by the three entry points, locality of
    the property patch, freshness facts for the hierarchy checks.
  \<^item> \<open>Engine_Liveness\<close>: \<open>valid_desc\<close>, the descriptions the host accepts, and that
    \<open>createElement\<close> and \<open>render\<close> return on them; what a returning \<open>render\<close> leaves
    in the container.
  \<^item> \<open>Engine_Bounds\<close>: the node kind a description stands for (\<open>desc_kind\<close>)
    and its size (\<open>desc_size\<close>): a returned node has that kind, and creation allocates
    at most \<open>desc_size\<close> nodes, exactly that many when it returns.
  \<^item> \<open>Engine_Order\<close>: the allocation order \<open>ptr_ordered\<close> (every parent pointer is
    below its child's), kept by the three entry points when the parent or container
    exists; on an ordered document the fuelled ancestor walk ends at a root and computes
    the reflexive-transitive closure of the parent relation (\<open>ancestors_walk\<close>).
  \<^item> \<open>Engine_Append\<close>: appending a node \<open>createElement\<close> just returned to an
    existing node passes the host's checks and extends its child list by the node, or by
    the fragment's children.
  \<^item> \<open>Examples\<close>: the concrete documents the witnesses use.
  \<^item> \<open>Engine_Spec\<close>: the properties of the engine (claims C1--C8, C15--C17, C22--C24,
    C26, C27).
  \<^item> \<open>App_State\<close>: \<open>AppState\<close> (lines 254--277): the state as an ordered association
    list, \<open>setState\<close> as \<open>spread\<close> followed by the notification loop over the
    listeners subscribed at its start, \<open>subscribe\<close> and the returned unsubscribe
    function; its properties (claims C9--C14).
  \<^item> \<open>App_Data\<close>: \<open>TABS\<close> (lines 116--251) and the texts of the page, non-ASCII
    texts as their UTF-8 bytes.
  \<^item> \<open>App_View\<close>: \<open>createEvent\<close>, \<open>createHorizontalVirtualizedList\<close>,
    \<open>createMainComponent\<close> (lines 279--667) as functions to descriptions.
  \<^item> \<open>App_Valid\<close>: every page the builders produce is a valid description, so rendering
    it never throws (claim C18).
  \<^item> \<open>Dom_Query\<close>: \<open>querySelector(".cls")\<close> over descendants in tree order and the
    \<open>style\<close> property setter, the host features of the scroll-button timer.
  \<^item> \<open>Smart_Home\<close>: \<open>SmartHomeApp\<close> (lines 669--722): the record \<open>smart_home\<close>
    (store, engine, container), the constructor \<open>smart_home_new\<close>, \<open>render\<close> as
    \<open>app_render_page\<close>, the subscribed listener, the timer callback of
    \<open>updateScrollButton\<close> as \<open>scroll_button_update\<close>, the program's closures
    (\<open>run_handler\<close>) run by DOM event dispatch (\<open>dispatch_event\<close>), and the
    inductive \<open>app_reachable\<close>: construction, then any sequence of events and timer
    callbacks. \<open>app_ok\<close> is the application invariant: a well-formed document, the
    container allocated and accepting children, the page \<open>main\<close> as its only child
    (\<open>page_shown\<close>), the one listener subscribed once, distinct state keys. Its
    properties: every reachable application satisfies \<open>app_ok\<close> and its state is the
    single entry \<open>activeTab\<close> (C19); \<open>setState\<close> stores the merge and re-renders the
    page of the new state in place of the old children (C20); the constructor takes the
    tab from the URL when it is a key of \<open>TABS\<close> and \<open>all\<close> otherwise (C21); the
    timer callback's effect (C25); a click on a tab item stores that tab and re-renders
    (C28).

  \<^bold>\<open>How the parts interact.\<close> \<open>SmartHomeApp\<close> subscribes a listener that renders
  \<open>createMainComponent(appState)\<close> into the container; \<open>setState\<close> stores the merge
  and calls that listener, so each state change is a full \<open>render\<close>: the theorems on
  \<open>set_state\<close> say when and with which state the listener runs, those on \<open>render\<close>
  what it does to the document, and C18 that it does not throw for any state. The
  closures the page registers (tab \<open>onclick\<close>, select \<open>onchange\<close>) call
  \<open>setState\<close>; event dispatch runs them, so every reachable application is obtained by
  interleaving renders, dispatches and timer callbacks, and the invariants of
  \<open>Smart_Home\<close> are proved by rule induction over \<open>app_reachable\<close> from the
  engine lemmas, through lemmas stated for any page property that \<open>render\<close> keeps.

  \<^bold>\<open>Fuel.\<close> Two walks have no structural measure: the ancestor walk
  (\<open>inclusive_ancestors\<close>) of the DOM hierarchy check and of event dispatch, and the
  descendant walk of \<open>querySelector\<close>. Both are bounded by \<open>next_ptr\<close>, the number
  of nodes ever allocated. For the ancestor walk the bound is enough: a parsed page is
  ordered by allocation, the engine keeps that order (C23), and so does every reachable
  application (\<open>app_reachable_ordered\<close>); along parent links pointers strictly
  decrease, and the walk from any node ends at a root before the fuel runs out, having
  visited exactly the ancestors (\<open>ancestors_walk\<close> in \<open>Engine_Order\<close>). For the
  descendant walk the same order makes child pointers increase, so a path of child links
  from \<open>n\<close> has fewer than \<open>next_ptr - n\<close> steps and more fuel never changes the walk
  (\<open>descendants_fuel\<close> in \<open>Dom_Query\<close>).

  \<^bold>\<open>Not modelled.\<close> Rendering, layout and styling by the browser: the layout
  measurement of the scroll-button timer is a free boolean, and the arrow's
  \<open>scrollTo\<close> only scrolls; when timers fire is over-approximated (any time);
  \<open>URLSearchParams\<close> parsing (the constructor receives the value of the \<open>tab\<close>
  parameter); \<open>document.readyState\<close> and \<open>DOMContentLoaded\<close> (construction happens
  once, on the page document). Numbers are integers: the program never forms a
  fractional number that reaches the engine.
\<close>

end
